theory Spec2Isabelle
  imports Complex_Main "HOL-Library.Multiset" "HOL-Library.Word"
begin

section \<open>Conventions of the embedding\<close>

text \<open>
  The alert-analysis example is a Go program of one package. Its functions are embedded as
  HOL functions over records that mirror the Go structs.

  \<^item> A Go \<^verbatim>\<open>string\<close> is a byte sequence, here a \<^typ>\<open>string\<close>; the Chinese literals of
    the source are written out as their UTF-8 bytes, each under a name of its own.
  \<^item> A Go \<^verbatim>\<open>int\<close> is an \<^typ>\<open>int\<close>; the counters of the program stay far from 64 bits.
  \<^item> A \<^verbatim>\<open>time.Duration\<close> is an \<^verbatim>\<open>int64\<close> of nanoseconds, here a \<^typ>\<open>64 word\<close> read by
    \<^const>\<open>sint\<close>: its negation wraps at the least value.
  \<^item> A \<^verbatim>\<open>float64\<close> confidence is a \<^typ>\<open>real\<close>: the number that the decimal literal names.
    The program computes with no confidence; it stores literals and compares them with
    \<^verbatim>\<open>> 0.8\<close>. A NaN would compare like a low value.
  \<^item> A pointer that the source compares with \<^verbatim>\<open>nil\<close>, or dereferences unchecked, is an
    \<^typ>\<open>'a option\<close>. A function that can panic on a nil dereference or a slice bound returns
    an option as well: \<^term>\<open>None\<close> is the panic.
  \<^item> A Go \<^verbatim>\<open>(value, error)\<close> result is a sum: \<^term>\<open>Inl\<close> the error, \<^term>\<open>Inr\<close> the value.
  \<^item> \<^verbatim>\<open>time.Now()\<close> is an argument (an instant in nanoseconds), and so is the order in which
    the goroutines of a round deliver their results.
  \<^item> Output on the terminal is left out, except for the trace of the capability loop of an
    expert. The prompt builders only produce text that the callers discard; what is kept of
    them is where they dereference.
\<close>

section \<open>Text formatting\<close>

definition digit :: "nat \<Rightarrow> char" where
  "digit d = ''0123456789'' ! d"

text \<open>The verb \<^verbatim>\<open>%d\<close> of \<^verbatim>\<open>fmt\<close>: decimal digits, with a minus sign for a negative number.\<close>

fun showNat :: "nat \<Rightarrow> string" where
  "showNat n = (if n < 10 then [digit n] else showNat (n div 10) @ [digit (n mod 10)])"

definition showInt :: "int \<Rightarrow> string" where
  "showInt i = (if i < 0 then CHR ''-'' # showNat (nat (- i)) else showNat (nat i))"

section \<open>String literals of the source\<close>

text \<open>Default rationale of a decision: based on the experts' results, further verification is needed.\<close>

definition reasoning_continue :: string where
  "reasoning_continue =
     [CHR 0xE5, CHR 0x9F, CHR 0xBA, CHR 0xE4, CHR 0xBA, CHR 0x8E, CHR 0xE4, CHR 0xB8, CHR 0x93,
     CHR 0xE5, CHR 0xAE, CHR 0xB6, CHR 0xE5, CHR 0x88, CHR 0x86, CHR 0xE6, CHR 0x9E, CHR 0x90,
     CHR 0xE7, CHR 0xBB, CHR 0x93, CHR 0xE6, CHR 0x9E, CHR 0x9C, CHR 0xEF, CHR 0xBC, CHR 0x8C,
     CHR 0xE9, CHR 0x9C, CHR 0x80, CHR 0xE8, CHR 0xA6, CHR 0x81, CHR 0xE8, CHR 0xBF, CHR 0x9B,
     CHR 0xE4, CHR 0xB8, CHR 0x80, CHR 0xE6, CHR 0xAD, CHR 0xA5, CHR 0xE9, CHR 0xAA, CHR 0x8C,
     CHR 0xE8, CHR 0xAF, CHR 0x81]"

text \<open>Rationale of an early stop: a high-confidence result was obtained, the iteration can end.\<close>

definition reasoning_stop :: string where
  "reasoning_stop =
     [CHR 0xE5, CHR 0xB7, CHR 0xB2, CHR 0xE8, CHR 0x8E, CHR 0xB7, CHR 0xE5, CHR 0xBE, CHR 0x97,
     CHR 0xE9, CHR 0xAB, CHR 0x98, CHR 0xE7, CHR 0xBD, CHR 0xAE, CHR 0xE4, CHR 0xBF, CHR 0xA1,
     CHR 0xE5, CHR 0xBA, CHR 0xA6, CHR 0xE5, CHR 0x88, CHR 0x86, CHR 0xE6, CHR 0x9E, CHR 0x90,
     CHR 0xE7, CHR 0xBB, CHR 0x93, CHR 0xE6, CHR 0x9E, CHR 0x9C, CHR 0xEF, CHR 0xBC, CHR 0x8C,
     CHR 0xE5, CHR 0x8F, CHR 0xAF, CHR 0xE4, CHR 0xBB, CHR 0xA5, CHR 0xE7, CHR 0xBB, CHR 0x93,
     CHR 0xE6, CHR 0x9D, CHR 0x9F, CHR 0xE8, CHR 0xBF, CHR 0xAD, CHR 0xE4, CHR 0xBB, CHR 0xA3]"

text \<open>Next step: keep analysing the root cause in depth.\<close>

definition step_dig_root_cause :: string where
  "step_dig_root_cause =
     [CHR 0xE7, CHR 0xBB, CHR 0xA7, CHR 0xE7, CHR 0xBB, CHR 0xAD, CHR 0xE6, CHR 0xB7, CHR 0xB1,
     CHR 0xE5, CHR 0x85, CHR 0xA5, CHR 0xE5, CHR 0x88, CHR 0x86, CHR 0xE6, CHR 0x9E, CHR 0x90,
     CHR 0xE6, CHR 0xA0, CHR 0xB9, CHR 0xE5, CHR 0x9B, CHR 0xA0]"

text \<open>Next step: verify the experts' findings.\<close>

definition step_verify_findings :: string where
  "step_verify_findings =
     [CHR 0xE9, CHR 0xAA, CHR 0x8C, CHR 0xE8, CHR 0xAF, CHR 0x81, CHR 0xE4, CHR 0xB8, CHR 0x93,
     CHR 0xE5, CHR 0xAE, CHR 0xB6, CHR 0xE4, CHR 0xBB, CHR 0xAC, CHR 0xE7, CHR 0x9A, CHR 0x84,
     CHR 0xE5, CHR 0x8F, CHR 0x91, CHR 0xE7, CHR 0x8E, CHR 0xB0]"

text \<open>Next step: prepare the final report.\<close>

definition step_prepare_report :: string where
  "step_prepare_report =
     [CHR 0xE5, CHR 0x87, CHR 0x86, CHR 0xE5, CHR 0xA4, CHR 0x87, CHR 0xE7, CHR 0x94, CHR 0x9F,
     CHR 0xE6, CHR 0x88, CHR 0x90, CHR 0xE6, CHR 0x9C, CHR 0x80, CHR 0xE7, CHR 0xBB, CHR 0x88,
     CHR 0xE6, CHR 0x8A, CHR 0xA5, CHR 0xE5, CHR 0x91, CHR 0x8A]"

text \<open>Decision label: continue iterating.\<close>

definition label_continue :: string where
  "label_continue =
     [CHR 0xE7, CHR 0xBB, CHR 0xA7, CHR 0xE7, CHR 0xBB, CHR 0xAD, CHR 0xE8, CHR 0xBF, CHR 0xAD,
     CHR 0xE4, CHR 0xBB, CHR 0xA3]"

text \<open>Decision label: end the analysis.\<close>

definition label_finish :: string where
  "label_finish =
     [CHR 0xE7, CHR 0xBB, CHR 0x93, CHR 0xE6, CHR 0x9D, CHR 0x9F, CHR 0xE5, CHR 0x88, CHR 0x86,
     CHR 0xE6, CHR 0x9E, CHR 0x90]"

text \<open>The decision text before the round number.\<close>

definition decision_prefix :: string where
  "decision_prefix =
     [CHR 0xE7, CHR 0xAC, CHR 0xAC] @ '' ''"

text \<open>The decision text after the round number: round completed.\<close>

definition decision_infix :: string where
  "decision_infix =
     '' '' @ [CHR 0xE8, CHR 0xBD, CHR 0xAE, CHR 0xE5, CHR 0x88, CHR 0x86, CHR 0xE6, CHR 0x9E,
     CHR 0x90, CHR 0xE5, CHR 0xAE, CHR 0x8C, CHR 0xE6, CHR 0x88, CHR 0x90, CHR 0xEF, CHR 0xBC,
     CHR 0x8C]"

text \<open>A previous-round summary before the round number.\<close>

definition prev_prefix :: string where
  "prev_prefix =
     [CHR 0xE7, CHR 0xAC, CHR 0xAC]"

text \<open>A previous-round summary after the round number.\<close>

definition prev_infix :: string where
  "prev_infix =
     [CHR 0xE8, CHR 0xBD, CHR 0xAE] @ '': ''"

text \<open>Scenario type: performance problem.\<close>

definition scenario_performance :: string where
  "scenario_performance =
     [CHR 0xE6, CHR 0x80, CHR 0xA7, CHR 0xE8, CHR 0x83, CHR 0xBD, CHR 0xE9, CHR 0x97, CHR 0xAE,
     CHR 0xE9, CHR 0xA2, CHR 0x98]"

text \<open>Scenario type: severe fault.\<close>

definition scenario_severe_fault :: string where
  "scenario_severe_fault =
     [CHR 0xE4, CHR 0xB8, CHR 0xA5, CHR 0xE9, CHR 0x87, CHR 0x8D, CHR 0xE6, CHR 0x95, CHR 0x85,
     CHR 0xE9, CHR 0x9A, CHR 0x9C]"

text \<open>Focus area: performance of the payment interface.\<close>

definition focus_payment_api :: string where
  "focus_payment_api =
     [CHR 0xE6, CHR 0x94, CHR 0xAF, CHR 0xE4, CHR 0xBB, CHR 0x98, CHR 0xE6, CHR 0x8E, CHR 0xA5,
     CHR 0xE5, CHR 0x8F, CHR 0xA3, CHR 0xE6, CHR 0x80, CHR 0xA7, CHR 0xE8, CHR 0x83, CHR 0xBD]"

text \<open>Focus area: management of database connections.\<close>

definition focus_db_connections :: string where
  "focus_db_connections =
     [CHR 0xE6, CHR 0x95, CHR 0xB0, CHR 0xE6, CHR 0x8D, CHR 0xAE, CHR 0xE5, CHR 0xBA, CHR 0x93,
     CHR 0xE8, CHR 0xBF, CHR 0x9E, CHR 0xE6, CHR 0x8E, CHR 0xA5, CHR 0xE7, CHR 0xAE, CHR 0xA1,
     CHR 0xE7, CHR 0x90, CHR 0x86]"

text \<open>Strategy: experts analyse in parallel, each round combines their views and narrows the root cause.\<close>

definition strategy_text :: string where
  "strategy_text =
     [CHR 0xE9, CHR 0x87, CHR 0x87, CHR 0xE7, CHR 0x94, CHR 0xA8, CHR 0xE5, CHR 0xA4, CHR 0x9A,
     CHR 0xE4, CHR 0xB8, CHR 0x93, CHR 0xE5, CHR 0xAE, CHR 0xB6, CHR 0xE5, CHR 0xB9, CHR 0xB6,
     CHR 0xE8, CHR 0xA1, CHR 0x8C, CHR 0xE5, CHR 0x88, CHR 0x86, CHR 0xE6, CHR 0x9E, CHR 0x90,
     CHR 0xE6, CHR 0xA8, CHR 0xA1, CHR 0xE5, CHR 0xBC, CHR 0x8F, CHR 0xEF, CHR 0xBC, CHR 0x8C,
     CHR 0xE6, CHR 0xAF, CHR 0x8F, CHR 0xE8, CHR 0xBD, CHR 0xAE, CHR 0xE8, CHR 0xBF, CHR 0xAD,
     CHR 0xE4, CHR 0xBB, CHR 0xA3, CHR 0xE7, CHR 0xBB, CHR 0xBC, CHR 0xE5, CHR 0x90, CHR 0x88,
     CHR 0xE5, CHR 0x90, CHR 0x84, CHR 0xE6, CHR 0x96, CHR 0xB9, CHR 0xE6, CHR 0x84, CHR 0x8F,
     CHR 0xE8, CHR 0xA7, CHR 0x81, CHR 0xEF, CHR 0xBC, CHR 0x8C, CHR 0xE9, CHR 0x80, CHR 0x90,
     CHR 0xE6, CHR 0xAD, CHR 0xA5, CHR 0xE7, CHR 0xBC, CHR 0xA9, CHR 0xE5, CHR 0xB0, CHR 0x8F,
     CHR 0xE6, CHR 0xA0, CHR 0xB9, CHR 0xE5, CHR 0x9B, CHR 0xA0, CHR 0xE8, CHR 0x8C, CHR 0x83,
     CHR 0xE5, CHR 0x9B, CHR 0xB4]"

text \<open>Report summary.\<close>

definition report_summary :: string where
  "report_summary =
     [CHR 0xE6, CHR 0xA3, CHR 0x80, CHR 0xE6, CHR 0xB5, CHR 0x8B, CHR 0xE5, CHR 0x88, CHR 0xB0,
     CHR 0xE6, CHR 0x94, CHR 0xAF, CHR 0xE4, CHR 0xBB, CHR 0x98, CHR 0xE6, CHR 0x9C, CHR 0x8D,
     CHR 0xE5, CHR 0x8A, CHR 0xA1, CHR 0xE5, CHR 0xAD, CHR 0x98, CHR 0xE5, CHR 0x9C, CHR 0xA8,
     CHR 0xE4, CHR 0xB8, CHR 0xA5, CHR 0xE9, CHR 0x87, CHR 0x8D, CHR 0xE6, CHR 0x80, CHR 0xA7,
     CHR 0xE8, CHR 0x83, CHR 0xBD, CHR 0xE9, CHR 0x97, CHR 0xAE, CHR 0xE9, CHR 0xA2, CHR 0x98,
     CHR 0xEF, CHR 0xBC, CHR 0x8C, CHR 0xE5, CHR 0x8F, CHR 0xAF, CHR 0xE8, CHR 0x83, CHR 0xBD,
     CHR 0xE5, CHR 0xAF, CHR 0xBC, CHR 0xE8, CHR 0x87, CHR 0xB4, CHR 0xE4, CHR 0xB8, CHR 0x9A,
     CHR 0xE5, CHR 0x8A, CHR 0xA1, CHR 0xE6, CHR 0x8D, CHR 0x9F, CHR 0xE5, CHR 0xA4, CHR 0xB1]"

text \<open>Report root cause.\<close>

definition report_root_cause :: string where
  "report_root_cause =
     [CHR 0xE6, CHR 0x95, CHR 0xB0, CHR 0xE6, CHR 0x8D, CHR 0xAE, CHR 0xE5, CHR 0xBA, CHR 0x93,
     CHR 0xE8, CHR 0xBF, CHR 0x9E, CHR 0xE6, CHR 0x8E, CHR 0xA5, CHR 0xE6, CHR 0xB1, CHR 0xA0,
     CHR 0xE9, CHR 0x85, CHR 0x8D, CHR 0xE7, CHR 0xBD, CHR 0xAE, CHR 0xE4, CHR 0xB8, CHR 0x8D,
     CHR 0xE5, CHR 0xBD, CHR 0x93, CHR 0xE5, CHR 0xAF, CHR 0xBC, CHR 0xE8, CHR 0x87, CHR 0xB4,
     CHR 0xE8, CHR 0xBF, CHR 0x9E, CHR 0xE6, CHR 0x8E, CHR 0xA5, CHR 0xE8, CHR 0x80, CHR 0x97,
     CHR 0xE5, CHR 0xB0, CHR 0xBD, CHR 0xEF, CHR 0xBC, CHR 0x8C, CHR 0xE8, CHR 0xBF, CHR 0x9B,
     CHR 0xE8, CHR 0x80, CHR 0x8C, CHR 0xE5, CHR 0xBD, CHR 0xB1, CHR 0xE5, CHR 0x93, CHR 0x8D] @
     ''API'' @ [CHR 0xE5, CHR 0x93, CHR 0x8D, CHR 0xE5, CHR 0xBA, CHR 0x94, CHR 0xE6, CHR 0x97,
     CHR 0xB6, CHR 0xE9, CHR 0x97, CHR 0xB4]"

text \<open>Report business impact.\<close>

definition report_business_impact :: string where
  "report_business_impact =
     [CHR 0xE5, CHR 0xBD, CHR 0xB1, CHR 0xE5, CHR 0x93, CHR 0x8D, CHR 0xE7, CHR 0xBA, CHR 0xA6]
     @ ''1500'' @ [CHR 0xE5, CHR 0x90, CHR 0x8D, CHR 0xE7, CHR 0x94, CHR 0xA8, CHR 0xE6,
     CHR 0x88, CHR 0xB7, CHR 0xEF, CHR 0xBC, CHR 0x8C, CHR 0xE6, CHR 0x94, CHR 0xAF, CHR 0xE4,
     CHR 0xBB, CHR 0x98, CHR 0xE6, CHR 0x88, CHR 0x90, CHR 0xE5, CHR 0x8A, CHR 0x9F, CHR 0xE7,
     CHR 0x8E, CHR 0x87, CHR 0xE4, CHR 0xB8, CHR 0x8B, CHR 0xE9, CHR 0x99, CHR 0x8D, CHR 0xE7,
     CHR 0xBA, CHR 0xA6] @ ''5%'' @ [CHR 0xEF, CHR 0xBC, CHR 0x8C, CHR 0xE9, CHR 0xA2, CHR 0x84,
     CHR 0xE8, CHR 0xAE, CHR 0xA1, CHR 0xE9, CHR 0x80, CHR 0xA0, CHR 0xE6, CHR 0x88, CHR 0x90,
     CHR 0xE6, CHR 0x94, CHR 0xB6, CHR 0xE5, CHR 0x85, CHR 0xA5, CHR 0xE6, CHR 0x8D, CHR 0x9F,
     CHR 0xE5, CHR 0xA4, CHR 0xB1]"

text \<open>Report performance analysis.\<close>

definition report_performance :: string where
  "report_performance =
     ''P99'' @ [CHR 0xE5, CHR 0xBB, CHR 0xB6, CHR 0xE8, CHR 0xBF, CHR 0x9F, CHR 0xE4, CHR 0xBB,
     CHR 0x8E] @ ''200ms'' @ [CHR 0xE4, CHR 0xB8, CHR 0x8A, CHR 0xE5, CHR 0x8D, CHR 0x87,
     CHR 0xE8, CHR 0x87, CHR 0xB3] @ ''2340ms'' @ [CHR 0xEF, CHR 0xBC, CHR 0x8C, CHR 0xE6,
     CHR 0x95, CHR 0xB0, CHR 0xE6, CHR 0x8D, CHR 0xAE, CHR 0xE5, CHR 0xBA, CHR 0x93, CHR 0xE8,
     CHR 0xBF, CHR 0x9E, CHR 0xE6, CHR 0x8E, CHR 0xA5, CHR 0xE4, CHR 0xBD, CHR 0xBF, CHR 0xE7,
     CHR 0x94, CHR 0xA8, CHR 0xE7, CHR 0x8E, CHR 0x87, CHR 0xE8, CHR 0xBE, CHR 0xBE, CHR 0xE5,
     CHR 0x88, CHR 0xB0] @ ''85%''"

text \<open>Recommendation: enlarge the database connection pool at once.\<close>

definition report_rec_pool_size :: string where
  "report_rec_pool_size =
     [CHR 0xE7, CHR 0xAB, CHR 0x8B, CHR 0xE5, CHR 0x8D, CHR 0xB3, CHR 0xE5, CHR 0xA2, CHR 0x9E,
     CHR 0xE5, CHR 0x8A, CHR 0xA0, CHR 0xE6, CHR 0x95, CHR 0xB0, CHR 0xE6, CHR 0x8D, CHR 0xAE,
     CHR 0xE5, CHR 0xBA, CHR 0x93, CHR 0xE8, CHR 0xBF, CHR 0x9E, CHR 0xE6, CHR 0x8E, CHR 0xA5,
     CHR 0xE6, CHR 0xB1, CHR 0xA0, CHR 0xE5, CHR 0xA4, CHR 0xA7, CHR 0xE5, CHR 0xB0, CHR 0x8F]"

text \<open>Recommendation: optimise slow queries and add the indexes needed.\<close>

definition report_rec_slow_queries :: string where
  "report_rec_slow_queries =
     [CHR 0xE4, CHR 0xBC, CHR 0x98, CHR 0xE5, CHR 0x8C, CHR 0x96, CHR 0xE6, CHR 0x85, CHR 0xA2,
     CHR 0xE6, CHR 0x9F, CHR 0xA5, CHR 0xE8, CHR 0xAF, CHR 0xA2, CHR 0xEF, CHR 0xBC, CHR 0x8C,
     CHR 0xE6, CHR 0xB7, CHR 0xBB, CHR 0xE5, CHR 0x8A, CHR 0xA0, CHR 0xE5, CHR 0xBF, CHR 0x85,
     CHR 0xE8, CHR 0xA6, CHR 0x81, CHR 0xE7, CHR 0xB4, CHR 0xA2, CHR 0xE5, CHR 0xBC, CHR 0x95]"

text \<open>Recommendation: monitor the connection pool and alert on it.\<close>

definition report_rec_monitoring :: string where
  "report_rec_monitoring =
     [CHR 0xE5, CHR 0xAE, CHR 0x9E, CHR 0xE6, CHR 0x96, CHR 0xBD, CHR 0xE8, CHR 0xBF, CHR 0x9E,
     CHR 0xE6, CHR 0x8E, CHR 0xA5, CHR 0xE6, CHR 0xB1, CHR 0xA0, CHR 0xE7, CHR 0x9B, CHR 0x91,
     CHR 0xE6, CHR 0x8E, CHR 0xA7, CHR 0xE5, CHR 0x92, CHR 0x8C, CHR 0xE5, CHR 0x91, CHR 0x8A,
     CHR 0xE8, CHR 0xAD, CHR 0xA6]"

text \<open>Recommendation: consider separating reads from writes.\<close>

definition report_rec_read_write :: string where
  "report_rec_read_write =
     [CHR 0xE8, CHR 0x80, CHR 0x83, CHR 0xE8, CHR 0x99, CHR 0x91, CHR 0xE5, CHR 0xAE, CHR 0x9E,
     CHR 0xE6, CHR 0x96, CHR 0xBD, CHR 0xE8, CHR 0xAF, CHR 0xBB, CHR 0xE5, CHR 0x86, CHR 0x99,
     CHR 0xE5, CHR 0x88, CHR 0x86, CHR 0xE7, CHR 0xA6, CHR 0xBB, CHR 0xE6, CHR 0x9E, CHR 0xB6,
     CHR 0xE6, CHR 0x9E, CHR 0x84]"

text \<open>Report priority: P0, urgent.\<close>

definition report_priority :: string where
  "report_priority =
     ''P0 - '' @ [CHR 0xE7, CHR 0xB4, CHR 0xA7, CHR 0xE6, CHR 0x80, CHR 0xA5]"

text \<open>Name of the fault diagnosis expert.\<close>

definition name_fault_expert :: string where
  "name_fault_expert =
     [CHR 0xE6, CHR 0x95, CHR 0x85, CHR 0xE9, CHR 0x9A, CHR 0x9C, CHR 0xE8, CHR 0xAF, CHR 0x8A,
     CHR 0xE6, CHR 0x96, CHR 0xAD, CHR 0xE4, CHR 0xB8, CHR 0x93, CHR 0xE5, CHR 0xAE, CHR 0xB6]"

text \<open>Description of the fault diagnosis expert.\<close>

definition desc_fault_expert :: string where
  "desc_fault_expert =
     [CHR 0xE4, CHR 0xB8, CHR 0x93, CHR 0xE9, CHR 0x97, CHR 0xA8, CHR 0xE8, CHR 0xB4, CHR 0x9F,
     CHR 0xE8, CHR 0xB4, CHR 0xA3, CHR 0xE5, CHR 0x88, CHR 0x86, CHR 0xE6, CHR 0x9E, CHR 0x90,
     CHR 0xE7, CHR 0xB3, CHR 0xBB, CHR 0xE7, CHR 0xBB, CHR 0x9F, CHR 0xE6, CHR 0x95, CHR 0x85,
     CHR 0xE9, CHR 0x9A, CHR 0x9C, CHR 0xE7, CHR 0x9A, CHR 0x84, CHR 0xE6, CHR 0xA0, CHR 0xB9,
     CHR 0xE6, CHR 0x9C, CHR 0xAC, CHR 0xE5, CHR 0x8E, CHR 0x9F, CHR 0xE5, CHR 0x9B, CHR 0xA0]"

text \<open>Name of the performance analysis expert.\<close>

definition name_performance_expert :: string where
  "name_performance_expert =
     [CHR 0xE6, CHR 0x80, CHR 0xA7, CHR 0xE8, CHR 0x83, CHR 0xBD, CHR 0xE5, CHR 0x88, CHR 0x86,
     CHR 0xE6, CHR 0x9E, CHR 0x90, CHR 0xE4, CHR 0xB8, CHR 0x93, CHR 0xE5, CHR 0xAE, CHR 0xB6]"

text \<open>Description of the performance analysis expert.\<close>

definition desc_performance_expert :: string where
  "desc_performance_expert =
     [CHR 0xE4, CHR 0xB8, CHR 0x93, CHR 0xE9, CHR 0x97, CHR 0xA8, CHR 0xE8, CHR 0xB4, CHR 0x9F,
     CHR 0xE8, CHR 0xB4, CHR 0xA3, CHR 0xE5, CHR 0x88, CHR 0x86, CHR 0xE6, CHR 0x9E, CHR 0x90,
     CHR 0xE7, CHR 0xB3, CHR 0xBB, CHR 0xE7, CHR 0xBB, CHR 0x9F, CHR 0xE6, CHR 0x80, CHR 0xA7,
     CHR 0xE8, CHR 0x83, CHR 0xBD, CHR 0xE6, CHR 0x8C, CHR 0x87, CHR 0xE6, CHR 0xA0, CHR 0x87,
     CHR 0xE5, CHR 0x92, CHR 0x8C, CHR 0xE7, CHR 0x93, CHR 0xB6, CHR 0xE9, CHR 0xA2, CHR 0x88]"

text \<open>Name of the business impact expert.\<close>

definition name_business_expert :: string where
  "name_business_expert =
     [CHR 0xE4, CHR 0xB8, CHR 0x9A, CHR 0xE5, CHR 0x8A, CHR 0xA1, CHR 0xE5, CHR 0xBD, CHR 0xB1,
     CHR 0xE5, CHR 0x93, CHR 0x8D, CHR 0xE4, CHR 0xB8, CHR 0x93, CHR 0xE5, CHR 0xAE, CHR 0xB6]"

text \<open>Description of the business impact expert.\<close>

definition desc_business_expert :: string where
  "desc_business_expert =
     [CHR 0xE4, CHR 0xB8, CHR 0x93, CHR 0xE9, CHR 0x97, CHR 0xA8, CHR 0xE8, CHR 0xB4, CHR 0x9F,
     CHR 0xE8, CHR 0xB4, CHR 0xA3, CHR 0xE8, CHR 0xAF, CHR 0x84, CHR 0xE4, CHR 0xBC, CHR 0xB0,
     CHR 0xE6, CHR 0x95, CHR 0x85, CHR 0xE9, CHR 0x9A, CHR 0x9C, CHR 0xE5, CHR 0xAF, CHR 0xB9,
     CHR 0xE4, CHR 0xB8, CHR 0x9A, CHR 0xE5, CHR 0x8A, CHR 0xA1, CHR 0xE7, CHR 0x9A, CHR 0x84,
     CHR 0xE5, CHR 0xBD, CHR 0xB1, CHR 0xE5, CHR 0x93, CHR 0x8D]"

text \<open>First finding of an expert, before its name: found.\<close>

definition finding_prefix :: string where
  "finding_prefix =
     [CHR 0xE5, CHR 0x8F, CHR 0x91, CHR 0xE7, CHR 0x8E, CHR 0xB0] @ '' ''"

text \<open>First finding of an expert, after its name: related anomalous patterns.\<close>

definition finding_suffix :: string where
  "finding_suffix =
     '' '' @ [CHR 0xE7, CHR 0x9B, CHR 0xB8, CHR 0xE5, CHR 0x85, CHR 0xB3, CHR 0xE7, CHR 0x9A,
     CHR 0x84, CHR 0xE5, CHR 0xBC, CHR 0x82, CHR 0xE5, CHR 0xB8, CHR 0xB8, CHR 0xE6, CHR 0xA8,
     CHR 0xA1, CHR 0xE5, CHR 0xBC, CHR 0x8F]"

text \<open>Last finding of an expert when a capability ran: further verification needed.\<close>

definition finding_verify :: string where
  "finding_verify =
     [CHR 0xE9, CHR 0x9C, CHR 0x80, CHR 0xE8, CHR 0xA6, CHR 0x81, CHR 0xE8, CHR 0xBF, CHR 0x9B,
     CHR 0xE4, CHR 0xB8, CHR 0x80, CHR 0xE6, CHR 0xAD, CHR 0xA5, CHR 0xE9, CHR 0xAA, CHR 0x8C,
     CHR 0xE8, CHR 0xAF, CHR 0x81]"

text \<open>Analysis text between the expert's name and the number of alarms.\<close>

definition analysis_infix :: string where
  "analysis_infix =
     '' '' @ [CHR 0xE7, CHR 0x9A, CHR 0x84, CHR 0xE5, CHR 0x88, CHR 0x86, CHR 0xE6, CHR 0x9E,
     CHR 0x90, CHR 0xE7, CHR 0xBB, CHR 0x93, CHR 0xE6, CHR 0x9E, CHR 0x9C] @ '': '' @ [CHR 0xE5,
     CHR 0x8F, CHR 0x91, CHR 0xE7, CHR 0x8E, CHR 0xB0] @ '' ''"

text \<open>Analysis text after the number of alarms: key problems.\<close>

definition analysis_suffix :: string where
  "analysis_suffix =
     '' '' @ [CHR 0xE4, CHR 0xB8, CHR 0xAA, CHR 0xE5, CHR 0x85, CHR 0xB3, CHR 0xE9, CHR 0x94,
     CHR 0xAE, CHR 0xE9, CHR 0x97, CHR 0xAE, CHR 0xE9, CHR 0xA2, CHR 0x98]"

text \<open>Recommendation of an expert: investigate at once.\<close>

definition rec_investigate :: string where
  "rec_investigate =
     [CHR 0xE5, CHR 0xBB, CHR 0xBA, CHR 0xE8, CHR 0xAE, CHR 0xAE, CHR 0xE7, CHR 0xAB, CHR 0x8B,
     CHR 0xE5, CHR 0x8D, CHR 0xB3, CHR 0xE6, CHR 0x8E, CHR 0x92, CHR 0xE6, CHR 0x9F, CHR 0xA5]"

text \<open>Recommendation of an expert: strengthen monitoring.\<close>

definition rec_monitor :: string where
  "rec_monitor =
     [CHR 0xE5, CHR 0xBB, CHR 0xBA, CHR 0xE8, CHR 0xAE, CHR 0xAE, CHR 0xE5, CHR 0x8A, CHR 0xA0,
     CHR 0xE5, CHR 0xBC, CHR 0xBA, CHR 0xE7, CHR 0x9B, CHR 0x91, CHR 0xE6, CHR 0x8E, CHR 0xA7]"

text \<open>Trace of a capability that the registry does not hold: not found.\<close>

definition trace_not_found :: string where
  "trace_not_found =
     ''('' @ [CHR 0xE6, CHR 0x9C, CHR 0xAA, CHR 0xE6, CHR 0x89, CHR 0xBE, CHR 0xE5, CHR 0x88,
     CHR 0xB0] @ '')''"

text \<open>Trace of a failed capability, before its name.\<close>

definition trace_error_prefix :: string where
  "trace_error_prefix =
     [CHR 0x0A] @ ''  [ERROR] '' @ [CHR 0xE6, CHR 0x8A, CHR 0x80, CHR 0xE8, CHR 0x83, CHR 0xBD]
     @ '' ''"

text \<open>Trace of a failed capability, between its name and the error: execution failed.\<close>

definition trace_error_infix :: string where
  "trace_error_infix =
     '' '' @ [CHR 0xE6, CHR 0x89, CHR 0xA7, CHR 0xE8, CHR 0xA1, CHR 0x8C, CHR 0xE5, CHR 0xA4,
     CHR 0xB1, CHR 0xE8, CHR 0xB4, CHR 0xA5] @ '': ''"

text \<open>Error text of both constructors.\<close>

definition error_chat_model_nil :: string where
  "error_chat_model_nil =
     ''chatModel cannot be nil''"

text \<open>Error text of the expert constructor, before the type.\<close>

definition error_unknown_expert :: string where
  "error_unknown_expert =
     ''unknown expert type: ''"
text \<open>
  The capability identifiers. \<^verbatim>\<open>SkillType\<close> is a string type, and so is \<^verbatim>\<open>ExpertType\<close>.
\<close>

type_synonym SkillType = string

type_synonym ExpertType = string

definition LogQuerySkill :: SkillType where
  "LogQuerySkill = ''log_query''"

definition MetricQuerySkill :: SkillType where
  "MetricQuerySkill = ''metric_query''"

definition TraceQuerySkill :: SkillType where
  "TraceQuerySkill = ''trace_query''"

definition TopologyQuerySkill :: SkillType where
  "TopologyQuerySkill = ''topology_query''"

definition ConfigQuerySkill :: SkillType where
  "ConfigQuerySkill = ''config_query''"

definition TimeSeriesAnalysisSkill :: SkillType where
  "TimeSeriesAnalysisSkill = ''timeseries_analysis''"

definition CorrelationAnalysisSkill :: SkillType where
  "CorrelationAnalysisSkill = ''correlation_analysis''"

definition PatternMatchingSkill :: SkillType where
  "PatternMatchingSkill = ''pattern_matching''"

definition AnomalyDetectionSkill :: SkillType where
  "AnomalyDetectionSkill = ''anomaly_detection''"

definition HistoryMatchSkill :: SkillType where
  "HistoryMatchSkill = ''history_match''"

definition RootCauseAnalysisSkill :: SkillType where
  "RootCauseAnalysisSkill = ''rootcause_analysis''"

definition FaultPropagationSkill :: SkillType where
  "FaultPropagationSkill = ''fault_propagation''"

definition DependencyAnalysisSkill :: SkillType where
  "DependencyAnalysisSkill = ''dependency_analysis''"

definition CapacityAnalysisSkill :: SkillType where
  "CapacityAnalysisSkill = ''capacity_analysis''"

definition TrendAnalysisSkill :: SkillType where
  "TrendAnalysisSkill = ''trend_analysis''"

definition SlowQueryAnalysisSkill :: SkillType where
  "SlowQueryAnalysisSkill = ''slowquery_analysis''"

definition ErrorLogAnalysisSkill :: SkillType where
  "ErrorLogAnalysisSkill = ''errorlog_analysis''"

definition NetworkDiagnosisSkill :: SkillType where
  "NetworkDiagnosisSkill = ''network_diagnosis''"

definition ResourceLeakDetectionSkill :: SkillType where
  "ResourceLeakDetectionSkill = ''resource_leak_detection''"

definition MemoryAnalysisSkill :: SkillType where
  "MemoryAnalysisSkill = ''memory_analysis''"

definition CPUAnalysisSkill :: SkillType where
  "CPUAnalysisSkill = ''cpu_analysis''"

definition DiskAnalysisSkill :: SkillType where
  "DiskAnalysisSkill = ''disk_analysis''"

definition DatabaseAnalysisSkill :: SkillType where
  "DatabaseAnalysisSkill = ''database_analysis''"

definition CacheAnalysisSkill :: SkillType where
  "CacheAnalysisSkill = ''cache_analysis''"

definition LoadBalancerAnalysisSkill :: SkillType where
  "LoadBalancerAnalysisSkill = ''loadbalancer_analysis''"

definition ConnectivityCheckSkill :: SkillType where
  "ConnectivityCheckSkill = ''connectivity_check''"

definition HealthCheckSkill :: SkillType where
  "HealthCheckSkill = ''health_check''"

definition PerformanceTestSkill :: SkillType where
  "PerformanceTestSkill = ''performance_test''"

definition StressTestSkill :: SkillType where
  "StressTestSkill = ''stress_test''"

definition ValidationCheckSkill :: SkillType where
  "ValidationCheckSkill = ''validation_check''"

definition FaultDiagnosisExpert :: ExpertType where
  "FaultDiagnosisExpert = ''fault_diagnosis''"

definition PerformanceAnalysisExpert :: ExpertType where
  "PerformanceAnalysisExpert = ''performance_analysis''"

definition BusinessImpactExpert :: ExpertType where
  "BusinessImpactExpert = ''business_impact''"
section \<open>Data model\<close>

text \<open>
  An alarm. The maps \<^verbatim>\<open>Metrics\<close>, \<^verbatim>\<open>Labels\<close> and \<^verbatim>\<open>Metadata\<close> of the struct are only
  read when a prompt is built, and are left out. \<^verbatim>\<open>Timestamp\<close> is an instant in nanoseconds.
\<close>

record Alarm =
  ID :: string
  Level :: string
  Title :: string
  Description :: string
  Service :: string
  Timestamp :: int

type_synonym Duration = "64 word"

record AlarmPool =
  alarms :: "Alarm list"
  maxSize :: int
  retention :: Duration

record AnalysisContext =
  Alarms :: "Alarm list"
  Iteration :: int
  MaxRounds :: int
  PrevResults :: "string list"

record ExpertAnalysisResult =
  ExpertName :: string
  ExpertType :: string
  Analysis :: string
  Findings :: "string list"
  Confidence :: real
  Recommendations :: "string list"

record ManagerDecision =
  ContinueAnalysis :: bool
  Reasoning :: string
  NextSteps :: "string list"
  Decision :: string

text \<open>
  The result of a round. \<^verbatim>\<open>ExpertResults\<close> is a slice of pointers with one position for each
  expert, \<^verbatim>\<open>Decision\<close> is a pointer.
\<close>

record IterationResult =
  iter_Iteration :: int
  iter_ExpertResults :: "ExpertAnalysisResult option list"
  iter_Decision :: "ManagerDecision option"
  iter_Timestamp :: int

record ScenarioInfo =
  scen_Type :: string
  scen_Priority :: string
  scen_EstimatedRounds :: int
  scen_FocusAreas :: "string list"
  scen_Strategy :: string

record AnalysisPlan =
  Scenario :: string
  plan_Priority :: string
  EstimatedRounds :: int
  FocusAreas :: "string list"
  Strategy :: string

record FinalReport =
  Summary :: string
  RootCause :: string
  BusinessImpact :: string
  PerformanceAnalysis :: string
  report_Recommendations :: "string list"
  Priority :: string
  EstimatedResolution :: int
  ExpertResults :: "string \<rightharpoonup> ExpertAnalysisResult"
  IterationsCompleted :: int

text \<open>An error value carries its message (\<^verbatim>\<open>fmt.Errorf\<close>).\<close>

datatype error = Error (message: string)

text \<open>The chat model is an interface value; the program only tests it against \<^verbatim>\<open>nil\<close>.\<close>

datatype ChatModel = MockChatModel

section \<open>The event pool\<close>

text \<open>
  \<^verbatim>\<open>NewAlarmPool\<close> reserves a slice of capacity \<^verbatim>\<open>maxSize\<close>: \<^verbatim>\<open>make\<close> panics on a negative
  capacity. How much memory the allocator can reserve is outside the model.
\<close>

definition NewAlarmPool :: "int \<Rightarrow> Duration \<Rightarrow> AlarmPool option" where
  "NewAlarmPool maxSize' retention' =
     (if maxSize' < 0 then None
      else Some \<lparr>alarms = [], maxSize = maxSize', retention = retention'\<rparr>)"

text \<open>
  \<^verbatim>\<open>Add\<close> appends, keeps the alarms whose timestamp is \<^verbatim>\<open>After\<close> the cutoff
  \<^verbatim>\<open>time.Now().Add(-ap.retention)\<close>, and then keeps the last \<^verbatim>\<open>maxSize\<close> of them. The
  negation is the one of \<^verbatim>\<open>int64\<close>; \<^verbatim>\<open>Time.Add\<close> then moves the instant by that many
  nanoseconds. The slice expression \<^verbatim>\<open>alarms[len(alarms)-maxSize:]\<close> panics when its lower
  bound is outside \<^verbatim>\<open>0..len\<close>.
\<close>

definition Add :: "int \<Rightarrow> Alarm \<Rightarrow> AlarmPool \<Rightarrow> AlarmPool option" where
  "Add now alarm ap =
     (let appended = alarms ap @ [alarm];
          cutoff = now + sint (- retention ap);
          filtered = filter (\<lambda>a. cutoff < Timestamp a) appended
      in if maxSize ap < int (length filtered)
         then (let low = int (length filtered) - maxSize ap
               in if 0 \<le> low \<and> low \<le> int (length filtered)
                  then Some (ap\<lparr>alarms := drop (nat low) filtered\<rparr>)
                  else None)
         else Some (ap\<lparr>alarms := filtered\<rparr>))"

text \<open>A sequence of \<^verbatim>\<open>Add\<close> calls, each with the time of the call; a panic ends the run.\<close>

fun AddAll :: "(int \<times> Alarm) list \<Rightarrow> AlarmPool \<Rightarrow> AlarmPool option" where
  "AddAll [] ap = Some ap"
| "AddAll ((now, alarm) # calls) ap =
     (case Add now alarm ap of None \<Rightarrow> None | Some ap' \<Rightarrow> AddAll calls ap')"

definition GetRecent :: "AlarmPool \<Rightarrow> Alarm list" where
  "GetRecent ap = alarms ap"

definition GetByLevel :: "AlarmPool \<Rightarrow> string \<Rightarrow> Alarm list" where
  "GetByLevel ap level = filter (\<lambda>alarm. Level alarm = level) (alarms ap)"

section \<open>Capabilities and their registry\<close>

text \<open>
  The result of a capability. \<^verbatim>\<open>Data\<close> is an untyped map of mock values that only
  \<^verbatim>\<open>formatSkillData\<close> reads: it renders the first of the entries \<^verbatim>\<open>logCount\<close>, \<^verbatim>\<open>cpu\<close>,
  \<^verbatim>\<open>trend\<close>, \<^verbatim>\<open>rootCauses\<close>, \<^verbatim>\<open>slowQueries\<close>, \<^verbatim>\<open>similarCases\<close> that the map holds, and
  yields the empty string when it holds none. A result carries that rendering as
  \<open>DataKeyInfo\<close>, worked out from the map literal of each \<^verbatim>\<open>Execute\<close>. The fields
  \<^verbatim>\<open>Success\<close>, \<^verbatim>\<open>Confidence\<close>, \<^verbatim>\<open>Timestamp\<close> and \<^verbatim>\<open>Duration\<close> are never read.
\<close>

record SkillResult =
  Message :: string
  DataKeyInfo :: string

text \<open>
  A value of the interface \<^verbatim>\<open>Skill\<close>: the three fields of \<^verbatim>\<open>BaseSkill\<close> and what
  \<^verbatim>\<open>Execute(ctx, nil)\<close> returns, an error or a result. The implementations of the
  source read neither the context nor the input, and return a result.
\<close>

record Skill =
  skill_name :: string
  skillType :: SkillType
  skill_description :: string
  Execute :: "error + SkillResult"

text \<open>
  The fifteen capabilities that the source implements, in the order of their registration:
  name, identifier, description, and the result of \<^verbatim>\<open>Execute\<close>, which never is an error.
\<close>

definition NewLogQuerySkill :: Skill where
  "NewLogQuerySkill =
     \<lparr>skill_name =
        [CHR 0xE6, CHR 0x97, CHR 0xA5, CHR 0xE5, CHR 0xBF, CHR 0x97, CHR 0xE6, CHR 0x9F,
        CHR 0xA5, CHR 0xE8, CHR 0xAF, CHR 0xA2],
      skillType = LogQuerySkill,
      skill_description =
        [CHR 0xE6, CHR 0x9F, CHR 0xA5, CHR 0xE8, CHR 0xAF, CHR 0xA2, CHR 0xE6, CHR 0x8C,
        CHR 0x87, CHR 0xE5, CHR 0xAE, CHR 0x9A, CHR 0xE6, CHR 0x97, CHR 0xB6, CHR 0xE9,
        CHR 0x97, CHR 0xB4, CHR 0xE8, CHR 0x8C, CHR 0x83, CHR 0xE5, CHR 0x9B, CHR 0xB4,
        CHR 0xE5, CHR 0x86, CHR 0x85, CHR 0xE7, CHR 0x9A, CHR 0x84, CHR 0xE6, CHR 0x97,
        CHR 0xA5, CHR 0xE5, CHR 0xBF, CHR 0x97, CHR 0xE4, CHR 0xBF, CHR 0xA1, CHR 0xE6,
        CHR 0x81, CHR 0xAF],
      Execute = Inr \<lparr>Message =
        [CHR 0xE6, CHR 0x88, CHR 0x90, CHR 0xE5, CHR 0x8A, CHR 0x9F, CHR 0xE6, CHR 0x9F,
        CHR 0xA5, CHR 0xE8, CHR 0xAF, CHR 0xA2, CHR 0xE6, CHR 0x97, CHR 0xA5, CHR 0xE5,
        CHR 0xBF, CHR 0x97],
      DataKeyInfo =
        [CHR 0xE6, CHR 0x97, CHR 0xA5, CHR 0xE5, CHR 0xBF, CHR 0x97, CHR 0xE6, CHR 0x95,
        CHR 0xB0] @ '':1523''\<rparr>\<rparr>"

definition NewMetricQuerySkill :: Skill where
  "NewMetricQuerySkill =
     \<lparr>skill_name =
        [CHR 0xE7, CHR 0x9B, CHR 0x91, CHR 0xE6, CHR 0x8E, CHR 0xA7, CHR 0xE6, CHR 0x8C,
        CHR 0x87, CHR 0xE6, CHR 0xA0, CHR 0x87, CHR 0xE6, CHR 0x9F, CHR 0xA5, CHR 0xE8,
        CHR 0xAF, CHR 0xA2],
      skillType = MetricQuerySkill,
      skill_description =
        [CHR 0xE6, CHR 0x9F, CHR 0xA5, CHR 0xE8, CHR 0xAF, CHR 0xA2] @ '' CPU'' @ [CHR 0xE3,
        CHR 0x80, CHR 0x81, CHR 0xE5, CHR 0x86, CHR 0x85, CHR 0xE5, CHR 0xAD, CHR 0x98,
        CHR 0xE3, CHR 0x80, CHR 0x81, CHR 0xE7, CHR 0xBD, CHR 0x91, CHR 0xE7, CHR 0xBB,
        CHR 0x9C, CHR 0xE7, CHR 0xAD, CHR 0x89, CHR 0xE7, CHR 0x9B, CHR 0x91, CHR 0xE6,
        CHR 0x8E, CHR 0xA7, CHR 0xE6, CHR 0x8C, CHR 0x87, CHR 0xE6, CHR 0xA0, CHR 0x87],
      Execute = Inr \<lparr>Message =
        [CHR 0xE6, CHR 0x88, CHR 0x90, CHR 0xE5, CHR 0x8A, CHR 0x9F, CHR 0xE6, CHR 0x9F,
        CHR 0xA5, CHR 0xE8, CHR 0xAF, CHR 0xA2, CHR 0xE7, CHR 0x9B, CHR 0x91, CHR 0xE6,
        CHR 0x8E, CHR 0xA7, CHR 0xE6, CHR 0x8C, CHR 0x87, CHR 0xE6, CHR 0xA0, CHR 0x87],
      DataKeyInfo =
        ''CPU:85.6%''\<rparr>\<rparr>"

definition NewTraceQuerySkill :: Skill where
  "NewTraceQuerySkill =
     \<lparr>skill_name =
        [CHR 0xE9, CHR 0x93, CHR 0xBE, CHR 0xE8, CHR 0xB7, CHR 0xAF, CHR 0xE8, CHR 0xBF,
        CHR 0xBD, CHR 0xE8, CHR 0xB8, CHR 0xAA],
      skillType = TraceQuerySkill,
      skill_description =
        [CHR 0xE6, CHR 0x9F, CHR 0xA5, CHR 0xE8, CHR 0xAF, CHR 0xA2, CHR 0xE5, CHR 0x88,
        CHR 0x86, CHR 0xE5, CHR 0xB8, CHR 0x83, CHR 0xE5, CHR 0xBC, CHR 0x8F, CHR 0xE9,
        CHR 0x93, CHR 0xBE, CHR 0xE8, CHR 0xB7, CHR 0xAF, CHR 0xE8, CHR 0xBF, CHR 0xBD,
        CHR 0xE8, CHR 0xB8, CHR 0xAA, CHR 0xE4, CHR 0xBF, CHR 0xA1, CHR 0xE6, CHR 0x81,
        CHR 0xAF],
      Execute = Inr \<lparr>Message =
        [CHR 0xE6, CHR 0x88, CHR 0x90, CHR 0xE5, CHR 0x8A, CHR 0x9F, CHR 0xE6, CHR 0x9F,
        CHR 0xA5, CHR 0xE8, CHR 0xAF, CHR 0xA2, CHR 0xE9, CHR 0x93, CHR 0xBE, CHR 0xE8,
        CHR 0xB7, CHR 0xAF, CHR 0xE8, CHR 0xBF, CHR 0xBD, CHR 0xE8, CHR 0xB8, CHR 0xAA,
        CHR 0xE4, CHR 0xBF, CHR 0xA1, CHR 0xE6, CHR 0x81, CHR 0xAF],
      DataKeyInfo =
        []\<rparr>\<rparr>"

definition NewTopologyQuerySkill :: Skill where
  "NewTopologyQuerySkill =
     \<lparr>skill_name =
        [CHR 0xE6, CHR 0x8B, CHR 0x93, CHR 0xE6, CHR 0x89, CHR 0x91, CHR 0xE5, CHR 0x88,
        CHR 0x86, CHR 0xE6, CHR 0x9E, CHR 0x90],
      skillType = TopologyQuerySkill,
      skill_description =
        [CHR 0xE5, CHR 0x88, CHR 0x86, CHR 0xE6, CHR 0x9E, CHR 0x90, CHR 0xE6, CHR 0x9C,
        CHR 0x8D, CHR 0xE5, CHR 0x8A, CHR 0xA1, CHR 0xE4, CHR 0xBE, CHR 0x9D, CHR 0xE8,
        CHR 0xB5, CHR 0x96, CHR 0xE5, CHR 0x85, CHR 0xB3, CHR 0xE7, CHR 0xB3, CHR 0xBB,
        CHR 0xE5, CHR 0x92, CHR 0x8C, CHR 0xE6, CHR 0x8B, CHR 0x93, CHR 0xE6, CHR 0x89,
        CHR 0x91, CHR 0xE7, CHR 0xBB, CHR 0x93, CHR 0xE6, CHR 0x9E, CHR 0x84],
      Execute = Inr \<lparr>Message =
        [CHR 0xE6, CHR 0x88, CHR 0x90, CHR 0xE5, CHR 0x8A, CHR 0x9F, CHR 0xE5, CHR 0x88,
        CHR 0x86, CHR 0xE6, CHR 0x9E, CHR 0x90, CHR 0xE6, CHR 0x9C, CHR 0x8D, CHR 0xE5,
        CHR 0x8A, CHR 0xA1, CHR 0xE6, CHR 0x8B, CHR 0x93, CHR 0xE6, CHR 0x89, CHR 0x91],
      DataKeyInfo =
        []\<rparr>\<rparr>"

definition NewTimeSeriesAnalysisSkill :: Skill where
  "NewTimeSeriesAnalysisSkill =
     \<lparr>skill_name =
        [CHR 0xE6, CHR 0x97, CHR 0xB6, CHR 0xE9, CHR 0x97, CHR 0xB4, CHR 0xE5, CHR 0xBA,
        CHR 0x8F, CHR 0xE5, CHR 0x88, CHR 0x97, CHR 0xE5, CHR 0x88, CHR 0x86, CHR 0xE6,
        CHR 0x9E, CHR 0x90],
      skillType = TimeSeriesAnalysisSkill,
      skill_description =
        [CHR 0xE5, CHR 0x88, CHR 0x86, CHR 0xE6, CHR 0x9E, CHR 0x90, CHR 0xE6, CHR 0x8C,
        CHR 0x87, CHR 0xE6, CHR 0xA0, CHR 0x87, CHR 0xE7, CHR 0x9A, CHR 0x84, CHR 0xE6,
        CHR 0x97, CHR 0xB6, CHR 0xE9, CHR 0x97, CHR 0xB4, CHR 0xE5, CHR 0xBA, CHR 0x8F,
        CHR 0xE5, CHR 0x88, CHR 0x97, CHR 0xE8, CHR 0xB6, CHR 0x8B, CHR 0xE5, CHR 0x8A,
        CHR 0xBF, CHR 0xE5, CHR 0x92, CHR 0x8C, CHR 0xE5, CHR 0xBC, CHR 0x82, CHR 0xE5,
        CHR 0xB8, CHR 0xB8, CHR 0xE7, CHR 0x82, CHR 0xB9],
      Execute = Inr \<lparr>Message =
        [CHR 0xE6, CHR 0xA3, CHR 0x80, CHR 0xE6, CHR 0xB5, CHR 0x8B, CHR 0xE5, CHR 0x88,
        CHR 0xB0, CHR 0xE5, CHR 0xBC, CHR 0x82, CHR 0xE5, CHR 0xB8, CHR 0xB8, CHR 0xE5,
        CHR 0xA2, CHR 0x9E, CHR 0xE9, CHR 0x95, CHR 0xBF, CHR 0xE8, CHR 0xB6, CHR 0x8B,
        CHR 0xE5, CHR 0x8A, CHR 0xBF],
      DataKeyInfo =
        [CHR 0xE8, CHR 0xB6, CHR 0x8B, CHR 0xE5, CHR 0x8A, CHR 0xBF] @ '':exponential_increase''\<rparr>\<rparr>"

definition NewCorrelationAnalysisSkill :: Skill where
  "NewCorrelationAnalysisSkill =
     \<lparr>skill_name =
        [CHR 0xE5, CHR 0x85, CHR 0xB3, CHR 0xE8, CHR 0x81, CHR 0x94, CHR 0xE5, CHR 0x88,
        CHR 0x86, CHR 0xE6, CHR 0x9E, CHR 0x90],
      skillType = CorrelationAnalysisSkill,
      skill_description =
        [CHR 0xE5, CHR 0x88, CHR 0x86, CHR 0xE6, CHR 0x9E, CHR 0x90, CHR 0xE5, CHR 0x91,
        CHR 0x8A, CHR 0xE8, CHR 0xAD, CHR 0xA6, CHR 0xE5, CHR 0x92, CHR 0x8C, CHR 0xE6,
        CHR 0x8C, CHR 0x87, CHR 0xE6, CHR 0xA0, CHR 0x87, CHR 0xE4, CHR 0xB9, CHR 0x8B,
        CHR 0xE9, CHR 0x97, CHR 0xB4, CHR 0xE7, CHR 0x9A, CHR 0x84, CHR 0xE5, CHR 0x85,
        CHR 0xB3, CHR 0xE8, CHR 0x81, CHR 0x94, CHR 0xE5, CHR 0x85, CHR 0xB3, CHR 0xE7,
        CHR 0xB3, CHR 0xBB],
      Execute = Inr \<lparr>Message =
        [CHR 0xE5, CHR 0x8F, CHR 0x91, CHR 0xE7, CHR 0x8E, CHR 0xB0, CHR 0xE5, CHR 0xBC,
        CHR 0xBA, CHR 0xE5, CHR 0x85, CHR 0xB3, CHR 0xE8, CHR 0x81, CHR 0x94, CHR 0xE5,
        CHR 0x85, CHR 0xB3, CHR 0xE7, CHR 0xB3, CHR 0xBB],
      DataKeyInfo =
        []\<rparr>\<rparr>"

definition NewPatternMatchingSkill :: Skill where
  "NewPatternMatchingSkill =
     \<lparr>skill_name =
        [CHR 0xE6, CHR 0xA8, CHR 0xA1, CHR 0xE5, CHR 0xBC, CHR 0x8F, CHR 0xE5, CHR 0x8C,
        CHR 0xB9, CHR 0xE9, CHR 0x85, CHR 0x8D],
      skillType = PatternMatchingSkill,
      skill_description =
        [CHR 0xE5, CHR 0x8C, CHR 0xB9, CHR 0xE9, CHR 0x85, CHR 0x8D, CHR 0xE5, CHR 0xB7,
        CHR 0xB2, CHR 0xE7, CHR 0x9F, CHR 0xA5, CHR 0xE7, CHR 0x9A, CHR 0x84, CHR 0xE6,
        CHR 0x95, CHR 0x85, CHR 0xE9, CHR 0x9A, CHR 0x9C, CHR 0xE6, CHR 0xA8, CHR 0xA1,
        CHR 0xE5, CHR 0xBC, CHR 0x8F],
      Execute = Inr \<lparr>Message =
        [CHR 0xE5, CHR 0x8C, CHR 0xB9, CHR 0xE9, CHR 0x85, CHR 0x8D, CHR 0xE5, CHR 0x88,
        CHR 0xB0, CHR 0xE6, CHR 0x95, CHR 0x85, CHR 0xE9, CHR 0x9A, CHR 0x9C, CHR 0xE6,
        CHR 0xA8, CHR 0xA1, CHR 0xE5, CHR 0xBC, CHR 0x8F],
      DataKeyInfo =
        []\<rparr>\<rparr>"

definition NewHistoryMatchSkill :: Skill where
  "NewHistoryMatchSkill =
     \<lparr>skill_name =
        [CHR 0xE5, CHR 0x8E, CHR 0x86, CHR 0xE5, CHR 0x8F, CHR 0xB2, CHR 0xE6, CHR 0xA1,
        CHR 0x88, CHR 0xE4, CHR 0xBE, CHR 0x8B, CHR 0xE5, CHR 0x8C, CHR 0xB9, CHR 0xE9,
        CHR 0x85, CHR 0x8D],
      skillType = HistoryMatchSkill,
      skill_description =
        [CHR 0xE5, CHR 0x8C, CHR 0xB9, CHR 0xE9, CHR 0x85, CHR 0x8D, CHR 0xE5, CHR 0x8E,
        CHR 0x86, CHR 0xE5, CHR 0x8F, CHR 0xB2, CHR 0xE7, CHR 0x9B, CHR 0xB8, CHR 0xE4,
        CHR 0xBC, CHR 0xBC, CHR 0xE6, CHR 0x95, CHR 0x85, CHR 0xE9, CHR 0x9A, CHR 0x9C,
        CHR 0xE6, CHR 0xA1, CHR 0x88, CHR 0xE4, CHR 0xBE, CHR 0x8B],
      Execute = Inr \<lparr>Message =
        [CHR 0xE6, CHR 0x89, CHR 0xBE, CHR 0xE5, CHR 0x88, CHR 0xB0, CHR 0xE7, CHR 0x9B,
        CHR 0xB8, CHR 0xE4, CHR 0xBC, CHR 0xBC, CHR 0xE5, CHR 0x8E, CHR 0x86, CHR 0xE5,
        CHR 0x8F, CHR 0xB2, CHR 0xE6, CHR 0xA1, CHR 0x88, CHR 0xE4, CHR 0xBE, CHR 0x8B],
      DataKeyInfo =
        [CHR 0xE7, CHR 0x9B, CHR 0xB8, CHR 0xE4, CHR 0xBC, CHR 0xBC, CHR 0xE6, CHR 0xA1,
        CHR 0x88, CHR 0xE4, CHR 0xBE, CHR 0x8B] @ '':2''\<rparr>\<rparr>"

definition NewRootCauseAnalysisSkill :: Skill where
  "NewRootCauseAnalysisSkill =
     \<lparr>skill_name =
        [CHR 0xE6, CHR 0xA0, CHR 0xB9, CHR 0xE5, CHR 0x9B, CHR 0xA0, CHR 0xE5, CHR 0x88,
        CHR 0x86, CHR 0xE6, CHR 0x9E, CHR 0x90],
      skillType = RootCauseAnalysisSkill,
      skill_description =
        [CHR 0xE6, CHR 0xB7, CHR 0xB1, CHR 0xE5, CHR 0xBA, CHR 0xA6, CHR 0xE5, CHR 0x88,
        CHR 0x86, CHR 0xE6, CHR 0x9E, CHR 0x90, CHR 0xE6, CHR 0x95, CHR 0x85, CHR 0xE9,
        CHR 0x9A, CHR 0x9C, CHR 0xE6, CHR 0xA0, CHR 0xB9, CHR 0xE6, CHR 0x9C, CHR 0xAC,
        CHR 0xE5, CHR 0x8E, CHR 0x9F, CHR 0xE5, CHR 0x9B, CHR 0xA0],
      Execute = Inr \<lparr>Message =
        [CHR 0xE5, CHR 0xAE, CHR 0x8C, CHR 0xE6, CHR 0x88, CHR 0x90, CHR 0xE6, CHR 0xA0,
        CHR 0xB9, CHR 0xE5, CHR 0x9B, CHR 0xA0, CHR 0xE5, CHR 0x88, CHR 0x86, CHR 0xE6,
        CHR 0x9E, CHR 0x90],
      DataKeyInfo =
        [CHR 0xE6, CHR 0xA0, CHR 0xB9, CHR 0xE5, CHR 0x9B, CHR 0xA0, CHR 0xE6, CHR 0x95,
        CHR 0xB0] @ '':2''\<rparr>\<rparr>"

definition NewFaultPropagationSkill :: Skill where
  "NewFaultPropagationSkill =
     \<lparr>skill_name =
        [CHR 0xE6, CHR 0x95, CHR 0x85, CHR 0xE9, CHR 0x9A, CHR 0x9C, CHR 0xE4, CHR 0xBC,
        CHR 0xA0, CHR 0xE6, CHR 0x92, CHR 0xAD, CHR 0xE5, CHR 0x88, CHR 0x86, CHR 0xE6,
        CHR 0x9E, CHR 0x90],
      skillType = FaultPropagationSkill,
      skill_description =
        [CHR 0xE5, CHR 0x88, CHR 0x86, CHR 0xE6, CHR 0x9E, CHR 0x90, CHR 0xE6, CHR 0x95,
        CHR 0x85, CHR 0xE9, CHR 0x9A, CHR 0x9C, CHR 0xE5, CHR 0x9C, CHR 0xA8, CHR 0xE7,
        CHR 0xB3, CHR 0xBB, CHR 0xE7, CHR 0xBB, CHR 0x9F, CHR 0xE4, CHR 0xB8, CHR 0xAD,
        CHR 0xE7, CHR 0x9A, CHR 0x84, CHR 0xE4, CHR 0xBC, CHR 0xA0, CHR 0xE6, CHR 0x92,
        CHR 0xAD, CHR 0xE8, CHR 0xB7, CHR 0xAF, CHR 0xE5, CHR 0xBE, CHR 0x84],
      Execute = Inr \<lparr>Message =
        [CHR 0xE5, CHR 0xAE, CHR 0x8C, CHR 0xE6, CHR 0x88, CHR 0x90, CHR 0xE6, CHR 0x95,
        CHR 0x85, CHR 0xE9, CHR 0x9A, CHR 0x9C, CHR 0xE4, CHR 0xBC, CHR 0xA0, CHR 0xE6,
        CHR 0x92, CHR 0xAD, CHR 0xE5, CHR 0x88, CHR 0x86, CHR 0xE6, CHR 0x9E, CHR 0x90],
      DataKeyInfo =
        []\<rparr>\<rparr>"

definition NewSlowQueryAnalysisSkill :: Skill where
  "NewSlowQueryAnalysisSkill =
     \<lparr>skill_name =
        [CHR 0xE6, CHR 0x85, CHR 0xA2, CHR 0xE6, CHR 0x9F, CHR 0xA5, CHR 0xE8, CHR 0xAF,
        CHR 0xA2, CHR 0xE5, CHR 0x88, CHR 0x86, CHR 0xE6, CHR 0x9E, CHR 0x90],
      skillType = SlowQueryAnalysisSkill,
      skill_description =
        [CHR 0xE5, CHR 0x88, CHR 0x86, CHR 0xE6, CHR 0x9E, CHR 0x90, CHR 0xE6, CHR 0x95,
        CHR 0xB0, CHR 0xE6, CHR 0x8D, CHR 0xAE, CHR 0xE5, CHR 0xBA, CHR 0x93, CHR 0xE6,
        CHR 0x85, CHR 0xA2, CHR 0xE6, CHR 0x9F, CHR 0xA5, CHR 0xE8, CHR 0xAF, CHR 0xA2],
      Execute = Inr \<lparr>Message =
        [CHR 0xE5, CHR 0x8F, CHR 0x91, CHR 0xE7, CHR 0x8E, CHR 0xB0, CHR 0xE6, CHR 0x85,
        CHR 0xA2, CHR 0xE6, CHR 0x9F, CHR 0xA5, CHR 0xE8, CHR 0xAF, CHR 0xA2],
      DataKeyInfo =
        [CHR 0xE6, CHR 0x85, CHR 0xA2, CHR 0xE6, CHR 0x9F, CHR 0xA5, CHR 0xE8, CHR 0xAF,
        CHR 0xA2] @ '':2''\<rparr>\<rparr>"

definition NewErrorLogAnalysisSkill :: Skill where
  "NewErrorLogAnalysisSkill =
     \<lparr>skill_name =
        [CHR 0xE9, CHR 0x94, CHR 0x99, CHR 0xE8, CHR 0xAF, CHR 0xAF, CHR 0xE6, CHR 0x97,
        CHR 0xA5, CHR 0xE5, CHR 0xBF, CHR 0x97, CHR 0xE5, CHR 0x88, CHR 0x86, CHR 0xE6,
        CHR 0x9E, CHR 0x90],
      skillType = ErrorLogAnalysisSkill,
      skill_description =
        [CHR 0xE5, CHR 0x88, CHR 0x86, CHR 0xE6, CHR 0x9E, CHR 0x90, CHR 0xE9, CHR 0x94,
        CHR 0x99, CHR 0xE8, CHR 0xAF, CHR 0xAF, CHR 0xE6, CHR 0x97, CHR 0xA5, CHR 0xE5,
        CHR 0xBF, CHR 0x97, CHR 0xE6, CHR 0xA8, CHR 0xA1, CHR 0xE5, CHR 0xBC, CHR 0x8F,
        CHR 0xE5, CHR 0x92, CHR 0x8C, CHR 0xE8, CHR 0xB6, CHR 0x8B, CHR 0xE5, CHR 0x8A,
        CHR 0xBF],
      Execute = Inr \<lparr>Message =
        [CHR 0xE5, CHR 0xAE, CHR 0x8C, CHR 0xE6, CHR 0x88, CHR 0x90, CHR 0xE9, CHR 0x94,
        CHR 0x99, CHR 0xE8, CHR 0xAF, CHR 0xAF, CHR 0xE6, CHR 0x97, CHR 0xA5, CHR 0xE5,
        CHR 0xBF, CHR 0x97, CHR 0xE5, CHR 0x88, CHR 0x86, CHR 0xE6, CHR 0x9E, CHR 0x90],
      DataKeyInfo =
        []\<rparr>\<rparr>"

definition NewResourceLeakDetectionSkill :: Skill where
  "NewResourceLeakDetectionSkill =
     \<lparr>skill_name =
        [CHR 0xE8, CHR 0xB5, CHR 0x84, CHR 0xE6, CHR 0xBA, CHR 0x90, CHR 0xE6, CHR 0xB3,
        CHR 0x84, CHR 0xE6, CHR 0xBC, CHR 0x8F, CHR 0xE6, CHR 0xA3, CHR 0x80, CHR 0xE6,
        CHR 0xB5, CHR 0x8B],
      skillType = ResourceLeakDetectionSkill,
      skill_description =
        [CHR 0xE6, CHR 0xA3, CHR 0x80, CHR 0xE6, CHR 0xB5, CHR 0x8B, CHR 0xE5, CHR 0x86,
        CHR 0x85, CHR 0xE5, CHR 0xAD, CHR 0x98, CHR 0xE3, CHR 0x80, CHR 0x81, CHR 0xE8,
        CHR 0xBF, CHR 0x9E, CHR 0xE6, CHR 0x8E, CHR 0xA5, CHR 0xE7, CHR 0xAD, CHR 0x89,
        CHR 0xE8, CHR 0xB5, CHR 0x84, CHR 0xE6, CHR 0xBA, CHR 0x90, CHR 0xE6, CHR 0xB3,
        CHR 0x84, CHR 0xE6, CHR 0xBC, CHR 0x8F],
      Execute = Inr \<lparr>Message =
        [CHR 0xE6, CHR 0xA3, CHR 0x80, CHR 0xE6, CHR 0xB5, CHR 0x8B, CHR 0xE5, CHR 0x88,
        CHR 0xB0, CHR 0xE8, CHR 0xBF, CHR 0x9E, CHR 0xE6, CHR 0x8E, CHR 0xA5, CHR 0xE6,
        CHR 0xB3, CHR 0x84, CHR 0xE6, CHR 0xBC, CHR 0x8F],
      DataKeyInfo =
        []\<rparr>\<rparr>"

definition NewNetworkDiagnosisSkill :: Skill where
  "NewNetworkDiagnosisSkill =
     \<lparr>skill_name =
        [CHR 0xE7, CHR 0xBD, CHR 0x91, CHR 0xE7, CHR 0xBB, CHR 0x9C, CHR 0xE8, CHR 0xAF,
        CHR 0x8A, CHR 0xE6, CHR 0x96, CHR 0xAD],
      skillType = NetworkDiagnosisSkill,
      skill_description =
        [CHR 0xE8, CHR 0xAF, CHR 0x8A, CHR 0xE6, CHR 0x96, CHR 0xAD, CHR 0xE7, CHR 0xBD,
        CHR 0x91, CHR 0xE7, CHR 0xBB, CHR 0x9C, CHR 0xE8, CHR 0xBF, CHR 0x9E, CHR 0xE6,
        CHR 0x8E, CHR 0xA5, CHR 0xE5, CHR 0x92, CHR 0x8C, CHR 0xE5, CHR 0xBB, CHR 0xB6,
        CHR 0xE8, CHR 0xBF, CHR 0x9F, CHR 0xE9, CHR 0x97, CHR 0xAE, CHR 0xE9, CHR 0xA2,
        CHR 0x98],
      Execute = Inr \<lparr>Message =
        [CHR 0xE7, CHR 0xBD, CHR 0x91, CHR 0xE7, CHR 0xBB, CHR 0x9C, CHR 0xE8, CHR 0xAF,
        CHR 0x8A, CHR 0xE6, CHR 0x96, CHR 0xAD, CHR 0xE6, CHR 0xAD, CHR 0xA3, CHR 0xE5,
        CHR 0xB8, CHR 0xB8],
      DataKeyInfo =
        []\<rparr>\<rparr>"

definition NewMemoryAnalysisSkill :: Skill where
  "NewMemoryAnalysisSkill =
     \<lparr>skill_name =
        [CHR 0xE5, CHR 0x86, CHR 0x85, CHR 0xE5, CHR 0xAD, CHR 0x98, CHR 0xE5, CHR 0x88,
        CHR 0x86, CHR 0xE6, CHR 0x9E, CHR 0x90],
      skillType = MemoryAnalysisSkill,
      skill_description =
        [CHR 0xE5, CHR 0x88, CHR 0x86, CHR 0xE6, CHR 0x9E, CHR 0x90, CHR 0xE5, CHR 0x86,
        CHR 0x85, CHR 0xE5, CHR 0xAD, CHR 0x98, CHR 0xE4, CHR 0xBD, CHR 0xBF, CHR 0xE7,
        CHR 0x94, CHR 0xA8, CHR 0xE6, CHR 0x83, CHR 0x85, CHR 0xE5, CHR 0x86, CHR 0xB5,
        CHR 0xE5, CHR 0x92, CHR 0x8C, CHR 0xE9, CHR 0x97, CHR 0xAE, CHR 0xE9, CHR 0xA2,
        CHR 0x98],
      Execute = Inr \<lparr>Message =
        [CHR 0xE5, CHR 0x86, CHR 0x85, CHR 0xE5, CHR 0xAD, CHR 0x98, CHR 0xE4, CHR 0xBD,
        CHR 0xBF, CHR 0xE7, CHR 0x94, CHR 0xA8, CHR 0xE8, CHR 0xBE, CHR 0x83, CHR 0xE9,
        CHR 0xAB, CHR 0x98, CHR 0xE4, CHR 0xBD, CHR 0x86, CHR 0xE6, CHR 0x97, CHR 0xA0,
        CHR 0xE6, CHR 0xB3, CHR 0x84, CHR 0xE6, CHR 0xBC, CHR 0x8F],
      DataKeyInfo =
        []\<rparr>\<rparr>"

type_synonym SkillRegistry = "SkillType \<rightharpoonup> Skill"

definition Register :: "Skill \<Rightarrow> SkillRegistry \<Rightarrow> SkillRegistry" where
  "Register skill r = r(skillType skill \<mapsto> skill)"

definition NewSkillRegistry :: SkillRegistry where
  "NewSkillRegistry =
     fold Register
       [NewLogQuerySkill, NewMetricQuerySkill, NewTraceQuerySkill, NewTopologyQuerySkill,
        NewTimeSeriesAnalysisSkill, NewCorrelationAnalysisSkill, NewPatternMatchingSkill,
        NewHistoryMatchSkill, NewRootCauseAnalysisSkill, NewFaultPropagationSkill,
        NewSlowQueryAnalysisSkill, NewErrorLogAnalysisSkill, NewResourceLeakDetectionSkill,
        NewNetworkDiagnosisSkill, NewMemoryAnalysisSkill]
       Map.empty"

section \<open>Experts\<close>

text \<open>
  The field \<^verbatim>\<open>instruction\<close> of an expert, a prompt template, is only read when the prompt
  is built, and is left out.
\<close>

record ExpertAgent =
  expertType :: ExpertType
  name :: string
  description :: string
  chatModel :: "ChatModel option"
  skills :: "SkillType list"

definition NewExpertAgent :: "ExpertType \<Rightarrow> ChatModel option \<Rightarrow> error + ExpertAgent" where
  "NewExpertAgent expertType' chatModel' =
     (if chatModel' = None then Inl (Error error_chat_model_nil)
      else if expertType' = FaultDiagnosisExpert then
        Inr \<lparr>expertType = expertType', name = name_fault_expert,
             description = desc_fault_expert, chatModel = chatModel',
             skills = [LogQuerySkill, MetricQuerySkill, TraceQuerySkill, TopologyQuerySkill,
                       ErrorLogAnalysisSkill, RootCauseAnalysisSkill, PatternMatchingSkill,
                       FaultPropagationSkill, HistoryMatchSkill]\<rparr>
      else if expertType' = PerformanceAnalysisExpert then
        Inr \<lparr>expertType = expertType', name = name_performance_expert,
             description = desc_performance_expert, chatModel = chatModel',
             skills = [MetricQuerySkill, TimeSeriesAnalysisSkill, CorrelationAnalysisSkill,
                       SlowQueryAnalysisSkill, MemoryAnalysisSkill, CPUAnalysisSkill,
                       DiskAnalysisSkill, DatabaseAnalysisSkill, CacheAnalysisSkill,
                       CapacityAnalysisSkill]\<rparr>
      else if expertType' = BusinessImpactExpert then
        Inr \<lparr>expertType = expertType', name = name_business_expert,
             description = desc_business_expert, chatModel = chatModel',
             skills = [TopologyQuerySkill, HistoryMatchSkill, CorrelationAnalysisSkill,
                       AnomalyDetectionSkill, TrendAnalysisSkill]\<rparr>
      else Inl (Error (error_unknown_expert @ expertType')))"

text \<open>
  The capability loop of \<^verbatim>\<open>Analyze\<close>, with the registry as an argument. The state is the
  text printed so far, one entry for each \<^verbatim>\<open>Printf\<close>, and the lines collected in
  \<^verbatim>\<open>skillResults\<close>; \<open>i\<close> is the index of the loop. A capability that the registry does
  not hold, and one whose \<^verbatim>\<open>Execute\<close> returns an error, take the \<^verbatim>\<open>continue\<close> branch.
\<close>

fun runSkills ::
  "SkillRegistry \<Rightarrow> SkillType list \<Rightarrow> nat \<Rightarrow> string list \<times> string list
     \<Rightarrow> string list \<times> string list" where
  "runSkills registry [] i acc = acc"
| "runSkills registry (t # ts) i (out, skillResults) =
     (let out1 = (if 0 < i then out @ ['', ''] else out)
      in case registry t of
           None \<Rightarrow> runSkills registry ts (Suc i) (out1 @ [t @ trace_not_found], skillResults)
         | Some skill \<Rightarrow>
             (let out2 = out1 @ [skill_name skill]
              in case Execute skill of
                   Inl err \<Rightarrow>
                     runSkills registry ts (Suc i)
                       (out2 @ [trace_error_prefix @ skill_name skill @ trace_error_infix
                                  @ message err @ [CHR 0x0A]],
                        skillResults)
                 | Inr result \<Rightarrow>
                     runSkills registry ts (Suc i)
                       (out2,
                        skillResults @ [''['' @ skill_name skill @ ''] '' @ Message result
                                          @ '': '' @ DataKeyInfo result])))"

definition AnalyzeWith ::
  "SkillRegistry \<Rightarrow> ExpertAgent \<Rightarrow> AnalysisContext \<Rightarrow> error + ExpertAnalysisResult" where
  "AnalyzeWith registry e context =
     (let skillResults = snd (runSkills registry (skills e) 0 ([], []));
          findings = [finding_prefix @ name e @ finding_suffix] @ skillResults
                     @ (if 0 < length skillResults then [finding_verify] else [])
      in Inr \<lparr>ExpertName = name e,
              ExpertType = expertType e,
              Analysis = name e @ analysis_infix @ showInt (int (length (Alarms context)))
                         @ analysis_suffix,
              Findings = findings,
              Confidence = 0.75,
              Recommendations = [rec_investigate, rec_monitor]\<rparr>)"

text \<open>What the capability loop prints.\<close>

definition AnalyzeTrace :: "SkillRegistry \<Rightarrow> ExpertAgent \<Rightarrow> string list" where
  "AnalyzeTrace registry e = fst (runSkills registry (skills e) 0 ([], []))"

text \<open>\<^verbatim>\<open>Analyze\<close> creates its registry with \<^verbatim>\<open>NewSkillRegistry\<close> on every call.\<close>

definition Analyze :: "ExpertAgent \<Rightarrow> AnalysisContext \<Rightarrow> error + ExpertAnalysisResult" where
  "Analyze e context = AnalyzeWith NewSkillRegistry e context"

definition GetName :: "ExpertAgent \<Rightarrow> string" where
  "GetName e = name e"

section \<open>The manager\<close>

record ManagerAgent =
  manager_name :: string
  manager_chatModel :: "ChatModel option"
  experts :: "ExpertAgent list"
  maxRounds :: int

definition NewManagerAgent ::
  "ChatModel option \<Rightarrow> ExpertAgent list \<Rightarrow> int \<Rightarrow> error + ManagerAgent" where
  "NewManagerAgent chatModel' experts' maxRounds' =
     (if chatModel' = None then Inl (Error error_chat_model_nil)
      else Inr \<lparr>manager_name = ''Manager'', manager_chatModel = chatModel',
                experts = experts', maxRounds = maxRounds'\<rparr>)"

subsection \<open>Scenario recognition\<close>

text \<open>
  The counting loop of \<^verbatim>\<open>analyzeScenario\<close>: the state is the pair of \<^verbatim>\<open>criticalCount\<close>
  and \<^verbatim>\<open>warningCount\<close>. The loop also counts the alarms of each service in a map that is
  never read.
\<close>

fun countLevels :: "Alarm list \<Rightarrow> int \<times> int \<Rightarrow> int \<times> int" where
  "countLevels [] counts = counts"
| "countLevels (alarm # rest) (criticalCount, warningCount) =
     countLevels rest
       (if Level alarm = ''critical'' then (criticalCount + 1, warningCount)
        else if Level alarm = ''warning'' then (criticalCount, warningCount + 1)
        else (criticalCount, warningCount))"

definition analyzeScenario :: "Alarm list \<Rightarrow> ScenarioInfo" where
  "analyzeScenario alarms' =
     (let (criticalCount, warningCount) = countLevels alarms' (0, 0);
          scenarioType = (if 0 < criticalCount then scenario_severe_fault
                          else scenario_performance);
          priority = (if 0 < criticalCount then ''P0''
                      else if 2 \<le> warningCount then ''P1'' else ''P2'');
          estimatedRounds = (if 3 < int (length alarms') \<or> 0 < criticalCount then 3 else 2)
      in \<lparr>scen_Type = scenarioType,
           scen_Priority = priority,
           scen_EstimatedRounds = estimatedRounds,
           scen_FocusAreas = [focus_payment_api, focus_db_connections],
           scen_Strategy = strategy_text\<rparr>)"

definition ScenarioRecognition :: "Alarm list \<Rightarrow> error + AnalysisPlan" where
  "ScenarioRecognition alarms' =
     (let scenario = analyzeScenario alarms'
      in Inr \<lparr>Scenario = scen_Type scenario,
              plan_Priority = scen_Priority scenario,
              EstimatedRounds = scen_EstimatedRounds scenario,
              FocusAreas = scen_FocusAreas scenario,
              Strategy = scen_Strategy scenario\<rparr>)"

subsection \<open>The decision of a round\<close>

text \<open>
  The loop of \<^verbatim>\<open>makeDecision\<close> that looks for a confidence above 0.8. It reads
  \<^verbatim>\<open>result.Confidence\<close> through the pointer with no test against \<^verbatim>\<open>nil\<close>, and leaves
  at the first high confidence.
\<close>

fun hasHighConfidence :: "ExpertAnalysisResult option list \<Rightarrow> bool option" where
  "hasHighConfidence [] = Some False"
| "hasHighConfidence (None # results) = None"
| "hasHighConfidence (Some result # results) =
     (if 0.8 < Confidence result then Some True else hasHighConfidence results)"

text \<open>
  \<^verbatim>\<open>buildDecisionPrompt\<close>, called first, skips the \<^verbatim>\<open>nil\<close> positions and cannot panic.
\<close>

definition makeDecision ::
  "ManagerAgent \<Rightarrow> AnalysisContext \<Rightarrow> ExpertAnalysisResult option list
     \<Rightarrow> ManagerDecision option" where
  "makeDecision m context results =
     (case hasHighConfidence results of
        None \<Rightarrow> None
      | Some hasHigh \<Rightarrow>
          (let (continueAnalysis, reasoning) =
                 (if hasHigh \<and> 2 \<le> Iteration context then (False, reasoning_stop)
                  else (Iteration context < maxRounds m, reasoning_continue));
               nextSteps = (if \<not> continueAnalysis then [step_prepare_report]
                            else [step_dig_root_cause, step_verify_findings])
           in Some \<lparr>ContinueAnalysis = continueAnalysis,
                     Reasoning = reasoning,
                     NextSteps = nextSteps,
                     Decision = decision_prefix @ showInt (Iteration context) @ decision_infix
                                @ (if continueAnalysis then label_continue else label_finish)\<rparr>))"

subsection \<open>One round: fan-out and fan-in\<close>

text \<open>
  The inner loop of the fan-in: a result goes to the first position whose expert has the
  name that the result carries; \<open>j\<close> is the index of the experts still to compare.
\<close>

fun place ::
  "ExpertAgent list \<Rightarrow> ExpertAnalysisResult \<Rightarrow> nat \<Rightarrow> ExpertAnalysisResult option list
     \<Rightarrow> ExpertAnalysisResult option list" where
  "place [] result j expertResults = expertResults"
| "place (expert # rest) result j expertResults =
     (if GetName expert = ExpertName result then expertResults[j := Some result]
      else place rest result (Suc j) expertResults)"

text \<open>
  The collecting loop. Each goroutine sends one signal, its result on one channel or its
  error on the other, and the loop takes one signal in each iteration, in the order of
  arrival: \<open>arrivals\<close> is that order. An error is printed and leaves no mark.
\<close>

fun collect ::
  "ExpertAgent list \<Rightarrow> (error + ExpertAnalysisResult) list \<Rightarrow> ExpertAnalysisResult option list
     \<Rightarrow> ExpertAnalysisResult option list" where
  "collect es [] expertResults = expertResults"
| "collect es (Inr result # arrivals) expertResults =
     collect es arrivals (place es result 0 expertResults)"
| "collect es (Inl err # arrivals) expertResults = collect es arrivals expertResults"

text \<open>
  The array that the fan-in of a round leaves: one position for each expert, empty at
  first, filled from the first \<^verbatim>\<open>len(m.experts)\<close> signals.
\<close>

definition fanIn ::
  "ManagerAgent \<Rightarrow> (error + ExpertAnalysisResult) list \<Rightarrow> ExpertAnalysisResult option list" where
  "fanIn m arrivals =
     collect (experts m) (take (length (experts m)) arrivals)
       (replicate (length (experts m)) None)"

text \<open>
  \<^verbatim>\<open>AnalyzeIteration\<close> with the arrivals of the round and the time of its end. It returns
  no error; it panics when \<^verbatim>\<open>makeDecision\<close> does.
\<close>

definition AnalyzeIteration ::
  "ManagerAgent \<Rightarrow> AnalysisContext \<Rightarrow> (error + ExpertAnalysisResult) list \<Rightarrow> int
     \<Rightarrow> (error + IterationResult) option" where
  "AnalyzeIteration m context arrivals now =
     (let expertResults = fanIn m arrivals
      in case makeDecision m context expertResults of
           None \<Rightarrow> None
         | Some decision \<Rightarrow>
             Some (Inr \<lparr>iter_Iteration = Iteration context,
                        iter_ExpertResults = expertResults,
                        iter_Decision = Some decision,
                        iter_Timestamp = now\<rparr>))"

text \<open>
  The arrivals that a round of the program can see: the outcomes of \<^verbatim>\<open>Analyze\<close> of the
  experts of the manager, in any order.
\<close>

definition roundArrivals ::
  "ManagerAgent \<Rightarrow> AnalysisContext \<Rightarrow> (error + ExpertAnalysisResult) list \<Rightarrow> bool" where
  "roundArrivals m context arrivals \<longleftrightarrow>
     mset arrivals = mset (map (\<lambda>e. Analyze e context) (experts m))"

subsection \<open>The final report\<close>

text \<open>The inner loop of \<^verbatim>\<open>GenerateReport\<close>: the results of one round, \<^verbatim>\<open>nil\<close> skipped.\<close>

fun foldResults ::
  "(string \<rightharpoonup> ExpertAnalysisResult) \<Rightarrow> ExpertAnalysisResult option list
     \<Rightarrow> (string \<rightharpoonup> ExpertAnalysisResult)" where
  "foldResults expertResults [] = expertResults"
| "foldResults expertResults (None # results) = foldResults expertResults results"
| "foldResults expertResults (Some result # results) =
     foldResults (expertResults(ExpertName result \<mapsto> result)) results"

text \<open>The outer loop, over a slice of pointers to round results, each dereferenced.\<close>

fun foldIterations ::
  "(string \<rightharpoonup> ExpertAnalysisResult) \<Rightarrow> IterationResult option list
     \<Rightarrow> (string \<rightharpoonup> ExpertAnalysisResult) option" where
  "foldIterations expertResults [] = Some expertResults"
| "foldIterations expertResults (None # iterations) = None"
| "foldIterations expertResults (Some iteration # iterations) =
     foldIterations (foldResults expertResults (iter_ExpertResults iteration)) iterations"

text \<open>
  \<^verbatim>\<open>buildReportPrompt\<close> reads \<^verbatim>\<open>iteration.Decision.Decision\<close> of every round: the value is
  whether all these pointers can be followed.
\<close>

fun buildReportPrompt :: "IterationResult option list \<Rightarrow> bool" where
  "buildReportPrompt [] = True"
| "buildReportPrompt (None # iterations) = False"
| "buildReportPrompt (Some iteration # iterations) =
     (case iter_Decision iteration of
        None \<Rightarrow> False
      | Some decision \<Rightarrow> buildReportPrompt iterations)"

definition GenerateReport :: "IterationResult option list \<Rightarrow> (error + FinalReport) option" where
  "GenerateReport iterations =
     (case foldIterations Map.empty iterations of
        None \<Rightarrow> None
      | Some expertResults \<Rightarrow>
          if \<not> buildReportPrompt iterations then None
          else Some (Inr \<lparr>Summary = report_summary,
                          RootCause = report_root_cause,
                          BusinessImpact = report_business_impact,
                          PerformanceAnalysis = report_performance,
                          report_Recommendations =
                            [report_rec_pool_size, report_rec_slow_queries,
                             report_rec_monitoring, report_rec_read_write],
                          Priority = report_priority,
                          EstimatedResolution = 2 * 60 * 60 * 1000000000,
                          ExpertResults = expertResults,
                          IterationsCompleted = int (length iterations)\<rparr>))"

section \<open>The analysis system\<close>

record AlertAnalysisSystem =
  manager :: ManagerAgent
  pool :: AlarmPool

text \<open>
  \<^verbatim>\<open>NewAlertAnalysisSystem\<close>: a pool of 1000 alarms kept for an hour, the three experts,
  and a manager with at most 3 rounds. Each failing constructor wraps its error.
\<close>

definition NewAlertAnalysisSystem :: "ChatModel option \<Rightarrow> (error + AlertAnalysisSystem) option" where
  "NewAlertAnalysisSystem chatModel' =
     (case NewAlarmPool 1000 (60 * 60 * 1000000000) of
        None \<Rightarrow> None
      | Some pool' \<Rightarrow>
          Some (case NewExpertAgent FaultDiagnosisExpert chatModel' of
             Inl err \<Rightarrow> Inl (Error (''failed to create fault expert: '' @ message err))
           | Inr faultExpert \<Rightarrow>
          (case NewExpertAgent PerformanceAnalysisExpert chatModel' of
             Inl err \<Rightarrow> Inl (Error (''failed to create performance expert: '' @ message err))
           | Inr perfExpert \<Rightarrow>
          (case NewExpertAgent BusinessImpactExpert chatModel' of
             Inl err \<Rightarrow> Inl (Error (''failed to create business expert: '' @ message err))
           | Inr businessExpert \<Rightarrow>
          (case NewManagerAgent chatModel' [faultExpert, perfExpert, businessExpert] 3 of
             Inl err \<Rightarrow> Inl (Error (''failed to create manager: '' @ message err))
           | Inr manager' \<Rightarrow> Inr \<lparr>manager = manager', pool = pool'\<rparr>)))))"

text \<open>
  The loop of \<^verbatim>\<open>Analyze\<close> from round \<open>i\<close> on. \<open>sched\<close> gives the arrivals of each round
  and \<open>clock\<close> the time of its end; \<open>started\<close> lists the rounds started so far, \<open>iterations\<close> the
  results of the rounds completed. The value is the list of the rounds started and how the
  loop ends: with a panic, with the error of a round, or with the context and the results.
\<close>

function roundLoop ::
  "ManagerAgent \<Rightarrow> (int \<Rightarrow> (error + ExpertAnalysisResult) list) \<Rightarrow> (int \<Rightarrow> int) \<Rightarrow> int \<Rightarrow> int
     \<Rightarrow> AnalysisContext \<Rightarrow> IterationResult list \<Rightarrow> int list
     \<Rightarrow> int list \<times> (error + AnalysisContext \<times> IterationResult list) option" where
  "roundLoop m sched clock estimatedRounds i context iterations started =
     (if i \<le> estimatedRounds then
        (let context1 = context\<lparr>Iteration := i\<rparr>;
             started1 = started @ [i]
         in case AnalyzeIteration m context1 (sched i) (clock i) of
              None \<Rightarrow> (started1, None)
            | Some (Inl err) \<Rightarrow>
                (started1, Some (Inl (Error (''iteration '' @ showInt i @ '' failed: ''
                                          @ message err))))
            | Some (Inr iteration) \<Rightarrow>
                (case iter_Decision iteration of
                   None \<Rightarrow> (started1, None)
                 | Some decision \<Rightarrow>
                     if \<not> ContinueAnalysis decision
                     then (started1, Some (Inr (context1, iterations @ [iteration])))
                     else roundLoop m sched clock estimatedRounds (i + 1)
                            (context1\<lparr>PrevResults := PrevResults context1
                               @ [prev_prefix @ showInt i @ prev_infix @ Decision decision]\<rparr>)
                            (iterations @ [iteration]) started1))
      else (started, Some (Inr (context, iterations))))"
  by pat_completeness auto
termination
  by (relation "measure (\<lambda>(m, sched, clock, estimatedRounds, i, context, iterations, started).
                  nat (estimatedRounds + 1 - i))") auto

text \<open>The rounds that a run of \<^verbatim>\<open>Analyze\<close> starts, and how its loop ends.\<close>

definition analysisRounds ::
  "AlertAnalysisSystem \<Rightarrow> Alarm list \<Rightarrow> (int \<Rightarrow> (error + ExpertAnalysisResult) list)
     \<Rightarrow> (int \<Rightarrow> int)
     \<Rightarrow> int list \<times> (error + AnalysisContext \<times> IterationResult list) option" where
  "analysisRounds s alarms' sched clock =
     (case ScenarioRecognition alarms' of
        Inl err \<Rightarrow> ([], Some (Inl (Error (''scenario recognition failed: '' @ message err))))
      | Inr plan \<Rightarrow>
          roundLoop (manager s) sched clock (EstimatedRounds plan) 1
            \<lparr>Alarms = alarms', Iteration = 1, MaxRounds = EstimatedRounds plan,
             PrevResults = []\<rparr> [] [])"

text \<open>\<^verbatim>\<open>AlertAnalysisSystem.Analyze\<close>: classification, the rounds, the report.\<close>

definition AnalyzeAlarms ::
  "AlertAnalysisSystem \<Rightarrow> Alarm list \<Rightarrow> (int \<Rightarrow> (error + ExpertAnalysisResult) list)
     \<Rightarrow> (int \<Rightarrow> int) \<Rightarrow> (error + FinalReport) option" where
  "AnalyzeAlarms s alarms' sched clock =
     (case snd (analysisRounds s alarms' sched clock) of
        None \<Rightarrow> None
      | Some (Inl err) \<Rightarrow> Some (Inl err)
      | Some (Inr (context, iterations)) \<Rightarrow>
          (case GenerateReport (map Some iterations) of
             None \<Rightarrow> None
           | Some (Inl err) \<Rightarrow> Some (Inl (Error (''report generation failed: '' @ message err)))
           | Some (Inr report) \<Rightarrow> Some (Inr report)))"

section \<open>The ingestion loop\<close>

text \<open>
  \<^verbatim>\<open>processAlarms\<close> is a loop around a \<^verbatim>\<open>select\<close> with three cases. A run of the loop is
  the list of the cases that its \<^verbatim>\<open>select\<close> takes, each with the time at which it is taken:
  an alarm received from \<^verbatim>\<open>taskQueue\<close>, a tick received from \<^verbatim>\<open>timer.C\<close>, a signal received
  from \<^verbatim>\<open>stopCh\<close>.
\<close>

datatype event = TaskQueue int Alarm | TimerC int | StopCh int

fun eventTime :: "event \<Rightarrow> int" where
  "eventTime (TaskQueue t alarm) = t"
| "eventTime (TimerC t) = t"
| "eventTime (StopCh t) = t"

text \<open>
  The state of the loop: the slice \<^verbatim>\<open>pendingAlarms\<close>; the timer, which is \<^term>\<open>Some d\<close> when it
  was last reset to expire at the instant \<open>d\<close> and its tick has not been received, and
  \<^term>\<open>None\<close> when it is stopped or its tick has been received; the batches for which the
  loop has announced the start of the analysis, each with the time of the announcement;
  and whether the loop has returned.
\<close>

record LoopState =
  pendingAlarms :: "Alarm list"
  timer :: "int option"
  released :: "(int \<times> Alarm list) list"
  stopped :: bool

text \<open>The quiet period, \<^verbatim>\<open>30 * time.Second\<close>, in nanoseconds.\<close>

definition quietPeriod :: int where
  "quietPeriod = 30 * 1000000000"

text \<open>
  Before the loop, \<^verbatim>\<open>pendingAlarms\<close> is \<^verbatim>\<open>nil\<close> and the timer, just created, is stopped.
\<close>

definition initialLoop :: LoopState where
  "initialLoop = \<lparr>pendingAlarms = [], timer = None, released = [], stopped = False\<rparr>"

text \<open>
  One iteration of the loop. An alarm is appended; the timer is stopped, a tick that it may
  have sent already is taken off its channel, and it is reset to a quiet period from now.
  A tick can only be received from a timer that was reset and has expired: at a time
  before the deadline, or with the timer stopped, the case is not one that \<^verbatim>\<open>select\<close> can
  take, and the value is \<^term>\<open>None\<close>. On a tick, a pending batch is announced and
  \<^verbatim>\<open>pendingAlarms\<close> becomes \<^verbatim>\<open>nil\<close>. On the stop signal the loop returns; nothing is taken
  after that.
\<close>

fun selectCase :: "LoopState \<Rightarrow> event \<Rightarrow> LoopState option" where
  "selectCase s (TaskQueue t alarm) =
     (if stopped s then None
      else Some (s\<lparr>pendingAlarms := pendingAlarms s @ [alarm],
                   timer := Some (t + quietPeriod)\<rparr>))"
| "selectCase s (TimerC t) =
     (if stopped s then None
      else case timer s of
             None \<Rightarrow> None
           | Some d \<Rightarrow>
               if t < d then None
               else if 0 < length (pendingAlarms s)
               then Some (s\<lparr>released := released s @ [(t, pendingAlarms s)],
                            pendingAlarms := [], timer := None\<rparr>)
               else Some (s\<lparr>timer := None\<rparr>))"
| "selectCase s (StopCh t) =
     (if stopped s then None else Some (s\<lparr>stopped := True\<rparr>))"

fun processAlarms :: "event list \<Rightarrow> LoopState \<Rightarrow> LoopState option" where
  "processAlarms [] s = Some s"
| "processAlarms (e # es) s =
     (case selectCase s e of None \<Rightarrow> None | Some s' \<Rightarrow> processAlarms es s')"

section \<open>Notions used to state the properties\<close>

text \<open>What the outcome of an analyzer is meant to leave at its position of the round.\<close>

definition slotOf :: "error + ExpertAnalysisResult \<Rightarrow> ExpertAnalysisResult option" where
  "slotOf outcome = (case outcome of Inl err \<Rightarrow> None | Inr result \<Rightarrow> Some result)"

text \<open>The results among the signals of a round, in the order of arrival.\<close>

definition arrived :: "(error + ExpertAnalysisResult) list \<Rightarrow> ExpertAnalysisResult list" where
  "arrived arrivals = concat (map (\<lambda>s. case s of Inl err \<Rightarrow> [] | Inr result \<Rightarrow> [result]) arrivals)"

text \<open>
  The findings of a list of round results, round by round and position by position, the
  empty positions skipped.
\<close>

definition findingsOf :: "IterationResult option list \<Rightarrow> ExpertAnalysisResult list" where
  "findingsOf iterations =
     concat (map (\<lambda>it. case it of
                          None \<Rightarrow> []
                        | Some r \<Rightarrow> concat (map (\<lambda>x. case x of None \<Rightarrow> [] | Some f \<Rightarrow> [f])
                                              (iter_ExpertResults r)))
               iterations)"

text \<open>The last finding of a list that carries a given name.\<close>

definition lastFinding :: "string \<Rightarrow> ExpertAnalysisResult list \<Rightarrow> ExpertAnalysisResult option" where
  "lastFinding n fs = find (\<lambda>f. ExpertName f = n) (rev fs)"

text \<open>
  The line that a capability adds to the findings of an expert: none when the registry
  does not hold it, none when it fails.
\<close>

definition skillLine :: "SkillRegistry \<Rightarrow> SkillType \<Rightarrow> string list" where
  "skillLine registry t =
     (case registry t of
        None \<Rightarrow> []
      | Some skill \<Rightarrow>
          (case Execute skill of
             Inl err \<Rightarrow> []
           | Inr result \<Rightarrow>
               [''['' @ skill_name skill @ ''] '' @ Message result @ '': ''
                  @ DataKeyInfo result]))"

text \<open>The alarms that a run of the ingestion loop receives, in order.\<close>

definition received :: "event list \<Rightarrow> Alarm list" where
  "received es =
     concat (map (\<lambda>e. case e of TaskQueue t alarm \<Rightarrow> [alarm] | TimerC t \<Rightarrow> [] | StopCh t \<Rightarrow> [])
               es)"

text \<open>Whether an event is a tick of the timer.\<close>

fun isTick :: "event \<Rightarrow> bool" where
  "isTick (TimerC t) = True"
| "isTick e = False"

section \<open>Sample inputs\<close>

definition sample_manager :: ManagerAgent where
  "sample_manager =
     \<lparr>manager_name = ''Manager'', manager_chatModel = Some MockChatModel, experts = [],
      maxRounds = 3\<rparr>"

definition sample_context :: "int \<Rightarrow> AnalysisContext" where
  "sample_context i = \<lparr>Alarms = [], Iteration = i, MaxRounds = 3, PrevResults = []\<rparr>"

definition high_finding :: ExpertAnalysisResult where
  "high_finding =
     \<lparr>ExpertName = ''perf'', ExpertType = ''performance_analysis'', Analysis = ''round 2'',
      Findings = [], Confidence = 0.85, Recommendations = []\<rparr>"

definition low_finding :: ExpertAnalysisResult where
  "low_finding =
     \<lparr>ExpertName = ''perf'', ExpertType = ''performance_analysis'', Analysis = ''round 1'',
      Findings = [], Confidence = 0.75, Recommendations = []\<rparr>"

definition sample_alarm :: "string \<Rightarrow> string \<Rightarrow> int \<Rightarrow> Alarm" where
  "sample_alarm id' level t =
     \<lparr>ID = id', Level = level, Title = '''', Description = '''',
      Service = ''payment-service'', Timestamp = t\<rparr>"

definition sample_batch :: "Alarm list" where
  "sample_batch =
     [sample_alarm ''ALERT-001'' ''critical'' 0, sample_alarm ''ALERT-002'' ''warning'' 120,
      sample_alarm ''ALERT-003'' ''warning'' 180]"

definition sample_pool :: AlarmPool where
  "sample_pool = \<lparr>alarms = [], maxSize = 2, retention = 100\<rparr>"

text \<open>A pool whose retention is the least duration.\<close>

definition least_retention_pool :: AlarmPool where
  "least_retention_pool = \<lparr>alarms = [], maxSize = 10, retention = - (2 ^ 63)\<rparr>"

definition sample_calls :: "(int \<times> Alarm) list" where
  "sample_calls =
     [(100, sample_alarm ''ALERT-001'' ''critical'' 90),
      (101, sample_alarm ''ALERT-002'' ''warning'' 95)]"

text \<open>The three experts of the reference system, and the system itself.\<close>

definition fault_expert :: ExpertAgent where
  "fault_expert = projr (NewExpertAgent FaultDiagnosisExpert (Some MockChatModel))"

definition performance_expert :: ExpertAgent where
  "performance_expert = projr (NewExpertAgent PerformanceAnalysisExpert (Some MockChatModel))"

definition business_expert :: ExpertAgent where
  "business_expert = projr (NewExpertAgent BusinessImpactExpert (Some MockChatModel))"

definition reference_manager :: ManagerAgent where
  "reference_manager =
     projr (NewManagerAgent (Some MockChatModel)
              [fault_expert, performance_expert, business_expert] 3)"

text \<open>A manager of two experts of the same kind, which have the same name.\<close>

definition twin_manager :: ManagerAgent where
  "twin_manager =
     projr (NewManagerAgent (Some MockChatModel) [fault_expert, fault_expert] 3)"

text \<open>A finding that carries the name of an expert.\<close>

definition sample_result :: "ExpertAgent \<Rightarrow> ExpertAnalysisResult" where
  "sample_result e =
     \<lparr>ExpertName = name e, ExpertType = expertType e, Analysis = '''', Findings = [],
      Confidence = 0.75, Recommendations = []\<rparr>"

definition reference_system :: AlertAnalysisSystem where
  "reference_system = projr (the (NewAlertAnalysisSystem (Some MockChatModel)))"

text \<open>Round results for the report: a decision, and a round with given results.\<close>

definition sample_decision :: "bool \<Rightarrow> ManagerDecision" where
  "sample_decision b =
     \<lparr>ContinueAnalysis = b, Reasoning = '''', NextSteps = [], Decision = ''''\<rparr>"

definition sample_round :: "int \<Rightarrow> ExpertAnalysisResult option list \<Rightarrow> bool \<Rightarrow> IterationResult" where
  "sample_round i results b =
     \<lparr>iter_Iteration = i, iter_ExpertResults = results,
      iter_Decision = Some (sample_decision b), iter_Timestamp = 0\<rparr>"

text \<open>A registry in which the metric query fails.\<close>

definition failing_registry :: SkillRegistry where
  "failing_registry =
     Register (NewMetricQuerySkill\<lparr>Execute := Inl (Error ''timeout'')\<rparr>) NewSkillRegistry"

text \<open>A system whose manager was made with \<open>maxRounds = 0\<close> and no expert.\<close>

definition zero_rounds_system :: AlertAnalysisSystem where
  "zero_rounds_system =
     \<lparr>manager = projr (NewManagerAgent (Some MockChatModel) [] 0), pool = sample_pool\<rparr>"

definition no_arrivals :: "int \<Rightarrow> (error + ExpertAnalysisResult) list" where
  "no_arrivals i = []"

definition sample_clock :: "int \<Rightarrow> int" where
  "sample_clock i = 1000 * i"

text \<open>
  The arrivals of a round of the reference system on the sample batch: the three experts
  deliver in the reverse of their order.
\<close>

definition reference_arrivals :: "int \<Rightarrow> (error + ExpertAnalysisResult) list" where
  "reference_arrivals i =
     rev (map (\<lambda>e. Analyze e \<lparr>Alarms = sample_batch, Iteration = i, MaxRounds = 3,
                                  PrevResults = []\<rparr>)
            [fault_expert, performance_expert, business_expert])"

text \<open>
  A run of the ingestion loop: two alarms ten seconds apart, and the tick thirty seconds
  after the second.
\<close>

definition sample_burst :: "event list" where
  "sample_burst =
     [TaskQueue 0 (sample_alarm ''ALERT-001'' ''critical'' 0),
      TaskQueue 10000000000 (sample_alarm ''ALERT-002'' ''warning'' 10000000000)]"

section \<open>Properties\<close>

subsection \<open>The event pool\<close>

lemma Add_keeps:
  assumes "0 \<le> maxSize ap"
  shows "Add now alarm ap =
           Some (ap\<lparr>alarms :=
             (let kept = filter (\<lambda>a. now + sint (- retention ap) < Timestamp a) (alarms ap @ [alarm])
              in drop (length kept - nat (maxSize ap)) kept)\<rparr>)"
proof -
  let ?kept = "filter (\<lambda>a. now + sint (- retention ap) < Timestamp a) (alarms ap @ [alarm])"
  show ?thesis
  proof (cases "maxSize ap < int (length ?kept)")
    case True
    with assms have "nat (int (length ?kept) - maxSize ap) = length ?kept - nat (maxSize ap)"
      by linarith
    with True assms show ?thesis by (simp add: Add_def Let_def)
  next
    case False
    then have "length ?kept - nat (maxSize ap) = 0" by linarith
    with False show ?thesis by (simp add: Add_def Let_def)
  qed
qed

text \<open>A pool of negative capacity could not take any alarm.\<close>

lemma Add_negative_capacity: "maxSize ap < 0 \<Longrightarrow> Add now alarm ap = None"
  by (simp add: Add_def Let_def)

lemma Add_fields:
  "Add now alarm ap = Some ap' \<Longrightarrow> maxSize ap' = maxSize ap \<and> retention ap' = retention ap"
  by (auto simp: Add_def Let_def split: if_splits)

lemma AddAll_total:
  "0 \<le> maxSize ap \<Longrightarrow>
   \<exists>ap'. AddAll calls ap = Some ap' \<and> maxSize ap' = maxSize ap \<and> retention ap' = retention ap"
proof (induction calls arbitrary: ap)
  case Nil
  then show ?case by simp
next
  case (Cons c calls)
  obtain now alarm where c: "c = (now, alarm)" by (cases c)
  from Add_keeps [OF Cons.prems, of now alarm] obtain ap1 where
    ap1: "Add now alarm ap = Some ap1" by blast
  with Add_fields have f: "maxSize ap1 = maxSize ap" "retention ap1 = retention ap" by blast+
  with Cons.prems have "0 \<le> maxSize ap1" by simp
  from Cons.IH [OF this] f ap1 c show ?case by simp
qed

lemma Add_step:
  fixes ap :: AlarmPool and now :: int and alarm :: Alarm
  assumes "0 \<le> maxSize ap"
  shows "\<exists>ap'. Add now alarm ap = Some ap' \<and>
           (\<forall>a\<in>set (alarms ap'). now + sint (- retention ap) < Timestamp a) \<and>
           int (length (alarms ap')) \<le> maxSize ap \<and>
           alarms ap' =
             drop (length (filter (\<lambda>a. now + sint (- retention ap) < Timestamp a) (alarms ap @ [alarm]))
                     - nat (maxSize ap))
               (filter (\<lambda>a. now + sint (- retention ap) < Timestamp a) (alarms ap @ [alarm])) \<and>
           maxSize ap' = maxSize ap \<and> retention ap' = retention ap"
proof -
  define kept where "kept = filter (\<lambda>a. now + sint (- retention ap) < Timestamp a) (alarms ap @ [alarm])"
  define ap' where "ap' = ap\<lparr>alarms := drop (length kept - nat (maxSize ap)) kept\<rparr>"
  have eq: "Add now alarm ap = Some ap'"
    using Add_keeps [OF assms(1), of now alarm] by (simp add: Let_def kept_def ap'_def)
  have "set (drop (length kept - nat (maxSize ap)) kept) \<subseteq> set kept"
    by (rule set_drop_subset)
  moreover have "\<forall>a\<in>set kept. now + sint (- retention ap) < Timestamp a"
    by (simp add: kept_def)
  ultimately have fresh: "\<forall>a\<in>set (alarms ap'). now + sint (- retention ap) < Timestamp a"
    by (auto simp: ap'_def)
  have len: "int (length (alarms ap')) \<le> maxSize ap"
    using assms(1) by (simp add: ap'_def)
  have rest: "alarms ap' = drop (length kept - nat (maxSize ap)) kept"
    "maxSize ap' = maxSize ap" "retention ap' = retention ap"
    by (simp_all add: ap'_def)
  from eq fresh len rest show ?thesis unfolding kept_def by blast
qed

text \<open>The negation of a duration: it wraps at the least value only.\<close>

lemma sint_neg_Duration:
  "sint (- r :: Duration) = (if r = - (2 ^ 63) then - (2 ^ 63) else - sint r)"
proof (cases "r = - (2 ^ 63)")
  case True
  then show ?thesis by simp
next
  case False
  have ge: "- (2 ^ 63) \<le> sint r" using sint_ge [of r] by simp
  have lt: "sint r < 2 ^ 63" using sint_lt [of r] by simp
  have ne: "sint r \<noteq> - (2 ^ 63)"
  proof
    assume "sint r = - (2 ^ 63)"
    then have "word_of_int (sint r) = (word_of_int (- (2 ^ 63)) :: Duration)" by simp
    then have "r = - (2 ^ 63)" by simp
    with False show False by simp
  qed
  have "sint (- r) = signed_take_bit 63 (- sint r)"
    by (simp add: sint_word_ariths)
  also have "\<dots> = - sint r"
    using ge lt ne by (intro signed_take_bit_int_eq_self) auto
  finally show ?thesis using False by simp
qed

text \<open>
  Claim C4. Take a pool made by \<^verbatim>\<open>NewAlarmPool\<close> with capacity \<open>maxSize0\<close> and retention
  \<open>retention0\<close>. Any sequence of \<^verbatim>\<open>Add\<close> calls runs to its end without a panic, and the
  next call, at any time \<open>now\<close> and with any alarm, succeeds as well. After it, every alarm
  kept has a timestamp after the cutoff of the code, which is \<open>now - retention0\<close> for every
  retention but the least \<^verbatim>\<open>int64\<close>; at most \<open>maxSize0\<close> alarms are kept, and they are the
  newest of the alarms after the cutoff: when these are more than the capacity, the ones
  dropped are at the head of the sequence.
\<close>

theorem Add_invariant:
  assumes "NewAlarmPool maxSize0 retention0 = Some ap0"
  shows "\<exists>ap. AddAll calls ap0 = Some ap \<and>
           (\<forall>now alarm. \<exists>ap'. Add now alarm ap = Some ap' \<and>
              (\<forall>a\<in>set (alarms ap'). now + sint (- retention0) < Timestamp a) \<and>
              (retention0 \<noteq> - (2 ^ 63)
                 \<longrightarrow> (\<forall>a\<in>set (alarms ap'). now - sint retention0 < Timestamp a)) \<and>
              int (length (alarms ap')) \<le> maxSize0 \<and>
              alarms ap' =
                drop (length (filter (\<lambda>a. now + sint (- retention0) < Timestamp a)
                                (alarms ap @ [alarm]))
                        - nat maxSize0)
                  (filter (\<lambda>a. now + sint (- retention0) < Timestamp a) (alarms ap @ [alarm])) \<and>
              maxSize ap' = maxSize0 \<and> retention ap' = retention0)"
proof -
  from assms have ap0: "0 \<le> maxSize0" "maxSize ap0 = maxSize0" "retention ap0 = retention0"
    by (auto simp: NewAlarmPool_def split: if_splits)
  then have "0 \<le> maxSize ap0" by simp
  from AddAll_total [OF this, of calls] ap0 obtain ap where
    ap: "AddAll calls ap0 = Some ap" "maxSize ap = maxSize0" "retention ap = retention0"
    by auto
  from ap ap0 have nonneg: "0 \<le> maxSize ap" by simp
  have step: "\<exists>ap'. Add now alarm ap = Some ap' \<and>
              (\<forall>a\<in>set (alarms ap'). now + sint (- retention0) < Timestamp a) \<and>
              (retention0 \<noteq> - (2 ^ 63)
                 \<longrightarrow> (\<forall>a\<in>set (alarms ap'). now - sint retention0 < Timestamp a)) \<and>
              int (length (alarms ap')) \<le> maxSize0 \<and>
              alarms ap' =
                drop (length (filter (\<lambda>a. now + sint (- retention0) < Timestamp a)
                                (alarms ap @ [alarm]))
                        - nat maxSize0)
                  (filter (\<lambda>a. now + sint (- retention0) < Timestamp a) (alarms ap @ [alarm])) \<and>
              maxSize ap' = maxSize0 \<and> retention ap' = retention0" for now alarm
  proof -
    from Add_step [OF nonneg, of now alarm] obtain ap' where
      ap': "Add now alarm ap = Some ap'"
        "\<forall>a\<in>set (alarms ap'). now + sint (- retention0) < Timestamp a"
        "int (length (alarms ap')) \<le> maxSize0"
        "alarms ap' =
           drop (length (filter (\<lambda>a. now + sint (- retention0) < Timestamp a)
                           (alarms ap @ [alarm]))
                   - nat maxSize0)
             (filter (\<lambda>a. now + sint (- retention0) < Timestamp a) (alarms ap @ [alarm]))"
        "maxSize ap' = maxSize0" "retention ap' = retention0"
      unfolding ap(2) ap(3) by blast
    have "\<forall>a\<in>set (alarms ap'). now - sint retention0 < Timestamp a"
      if "retention0 \<noteq> - (2 ^ 63)"
      using ap'(2) that by (simp add: sint_neg_Duration)
    with ap' show ?thesis by blast
  qed
  from ap(1) step show ?thesis by blast
qed

text \<open>
  The theorem at a pool of capacity 2 and retention 100 that two calls have filled: the
  third call, at time 102, drops the oldest alarm.
\<close>

theorem Add_invariant_witness:
  "NewAlarmPool 2 100 = Some sample_pool \<and>
   (\<exists>ap. AddAll sample_calls sample_pool = Some ap \<and>
      (\<exists>ap'. Add 102 (sample_alarm ''ALERT-003'' ''warning'' 101) ap = Some ap' \<and>
         (\<forall>a\<in>set (alarms ap'). 102 - 100 < Timestamp a) \<and>
         int (length (alarms ap')) \<le> 2 \<and>
         alarms ap' = [sample_alarm ''ALERT-002'' ''warning'' 95,
                       sample_alarm ''ALERT-003'' ''warning'' 101]))"
proof -
  let ?a3 = "sample_alarm ''ALERT-003'' ''warning'' 101"
  have h: "NewAlarmPool 2 100 = Some sample_pool"
    by (simp add: NewAlarmPool_def sample_pool_def)
  have r: "(100 :: Duration) \<noteq> - (2 ^ 63)" by simp
  have c: "sint (- (100 :: Duration)) = - 100" by simp
  from Add_invariant [OF h, of sample_calls] obtain ap where
    ap: "AddAll sample_calls sample_pool = Some ap" and
    step: "\<forall>now alarm. \<exists>ap'. Add now alarm ap = Some ap' \<and>
              (\<forall>a\<in>set (alarms ap'). now + sint (- (100 :: Duration)) < Timestamp a) \<and>
              ((100 :: Duration) \<noteq> - (2 ^ 63)
                 \<longrightarrow> (\<forall>a\<in>set (alarms ap'). now - sint (100 :: Duration) < Timestamp a)) \<and>
              int (length (alarms ap')) \<le> 2 \<and>
              alarms ap' =
                drop (length (filter (\<lambda>a. now + sint (- (100 :: Duration)) < Timestamp a)
                                (alarms ap @ [alarm]))
                        - nat 2)
                  (filter (\<lambda>a. now + sint (- (100 :: Duration)) < Timestamp a)
                     (alarms ap @ [alarm])) \<and>
              maxSize ap' = 2 \<and> retention ap' = 100"
    by blast
  from step r obtain ap' where
    ap': "Add 102 ?a3 ap = Some ap'"
      "\<forall>a\<in>set (alarms ap'). 102 - sint (100 :: Duration) < Timestamp a"
      "int (length (alarms ap')) \<le> 2"
      "alarms ap' =
         drop (length (filter (\<lambda>a. 102 + sint (- (100 :: Duration)) < Timestamp a)
                         (alarms ap @ [?a3])) - nat 2)
           (filter (\<lambda>a. 102 + sint (- (100 :: Duration)) < Timestamp a) (alarms ap @ [?a3]))"
    by blast
  from ap'(2) have fresh: "\<forall>a\<in>set (alarms ap'). 102 - 100 < Timestamp a" by simp
  have "AddAll sample_calls sample_pool =
          Some \<lparr>alarms = [sample_alarm ''ALERT-001'' ''critical'' 90,
                          sample_alarm ''ALERT-002'' ''warning'' 95],
                maxSize = 2, retention = 100\<rparr>"
    by (simp add: sample_calls_def sample_pool_def Add_def sample_alarm_def)
  with ap have "alarms ap = [sample_alarm ''ALERT-001'' ''critical'' 90,
                             sample_alarm ''ALERT-002'' ''warning'' 95]"
    by auto
  with ap'(4) have "alarms ap' = [sample_alarm ''ALERT-002'' ''warning'' 95, ?a3]"
    unfolding c by (simp add: sample_alarm_def)
  with h ap ap'(1) ap'(3) fresh show ?thesis by blast
qed

text \<open>
  A pool whose retention is the least \<^verbatim>\<open>int64\<close>: the negation wraps, the cutoff lies
  \<open>2 ^ 63\<close> nanoseconds before the call, and an alarm stamped before \<open>now - retention\<close> is
  kept.
\<close>

theorem Add_least_retention_keeps:
  "NewAlarmPool 10 (- (2 ^ 63)) = Some least_retention_pool \<and>
   map_option alarms (Add 1000 (sample_alarm ''ALERT-001'' ''critical'' 999)
                        least_retention_pool)
     = Some [sample_alarm ''ALERT-001'' ''critical'' 999] \<and>
   Timestamp (sample_alarm ''ALERT-001'' ''critical'' 999)
     < 1000 - sint (retention least_retention_pool)"
  by (simp add: NewAlarmPool_def least_retention_pool_def Add_def sample_alarm_def)

subsection \<open>Scenario recognition\<close>

lemma countLevels_eq:
  "countLevels as (c, w) =
     (c + int (length (filter (\<lambda>a. Level a = ''critical'') as)),
      w + int (length (filter (\<lambda>a. Level a = ''warning'') as)))"
  by (induction as arbitrary: c w) auto

lemma filter_nonempty_iff: "0 < length (filter P xs) \<longleftrightarrow> (\<exists>x\<in>set xs. P x)"
  by (induction xs) auto

lemma scenario_types_differ: "scenario_severe_fault \<noteq> scenario_performance"
  by (simp add: scenario_severe_fault_def scenario_performance_def)

text \<open>
  Claim C5. The classification is a function of the batch alone. A batch with a critical
  alarm is a severe fault of priority P0; with no critical alarm and two warnings or more
  the priority is P1; otherwise it is P2. The estimated number of rounds is 3 when the
  batch has more than 3 alarms or a critical one, and 2 otherwise. The plan of
  \<^verbatim>\<open>ScenarioRecognition\<close> takes the three values over.
\<close>

theorem analyzeScenario_classification:
  "scen_Type (analyzeScenario batch) =
     (if \<exists>a\<in>set batch. Level a = ''critical'' then scenario_severe_fault
      else scenario_performance) \<and>
   scen_Priority (analyzeScenario batch) =
     (if \<exists>a\<in>set batch. Level a = ''critical'' then ''P0''
      else if 2 \<le> length (filter (\<lambda>a. Level a = ''warning'') batch) then ''P1''
      else ''P2'') \<and>
   scen_EstimatedRounds (analyzeScenario batch) =
     (if 3 < length batch \<or> (\<exists>a\<in>set batch. Level a = ''critical'') then 3 else 2) \<and>
   (\<exists>plan. ScenarioRecognition batch = Inr plan \<and>
      Scenario plan = scen_Type (analyzeScenario batch) \<and>
      plan_Priority plan = scen_Priority (analyzeScenario batch) \<and>
      EstimatedRounds plan = scen_EstimatedRounds (analyzeScenario batch))"
proof -
  have crit: "0 < int (length (filter (\<lambda>a. Level a = ''critical'') batch))
                \<longleftrightarrow> (\<exists>a\<in>set batch. Level a = ''critical'')"
    using filter_nonempty_iff [of "\<lambda>a. Level a = ''critical''" batch] by simp
  have counts: "countLevels batch (0, 0) =
                  (int (length (filter (\<lambda>a. Level a = ''critical'') batch)),
                   int (length (filter (\<lambda>a. Level a = ''warning'') batch)))"
    by (simp add: countLevels_eq)
  have t: "scen_Type (analyzeScenario batch) =
     (if \<exists>a\<in>set batch. Level a = ''critical'' then scenario_severe_fault
      else scenario_performance)"
    unfolding analyzeScenario_def counts using crit by (simp add: Let_def)
  have p: "scen_Priority (analyzeScenario batch) =
     (if \<exists>a\<in>set batch. Level a = ''critical'' then ''P0''
      else if 2 \<le> length (filter (\<lambda>a. Level a = ''warning'') batch) then ''P1''
      else ''P2'')"
    unfolding analyzeScenario_def counts using crit by (simp add: Let_def)
  have r: "scen_EstimatedRounds (analyzeScenario batch) =
     (if 3 < length batch \<or> (\<exists>a\<in>set batch. Level a = ''critical'') then 3 else 2)"
    unfolding analyzeScenario_def counts using crit by (simp add: Let_def)
  have plan: "\<exists>plan. ScenarioRecognition batch = Inr plan \<and>
      Scenario plan = scen_Type (analyzeScenario batch) \<and>
      plan_Priority plan = scen_Priority (analyzeScenario batch) \<and>
      EstimatedRounds plan = scen_EstimatedRounds (analyzeScenario batch)"
    by (simp add: ScenarioRecognition_def Let_def)
  from t p r plan show ?thesis by blast
qed

text \<open>
  The theorem at a batch of one critical alarm and two warnings: a severe fault, priority
  P0, three rounds.
\<close>

theorem analyzeScenario_classification_witness:
  "(\<exists>a\<in>set sample_batch. Level a = ''critical'') \<and>
   scen_Type (analyzeScenario sample_batch) = scenario_severe_fault \<and>
   scen_Priority (analyzeScenario sample_batch) = ''P0'' \<and>
   scen_EstimatedRounds (analyzeScenario sample_batch) = 3"
proof -
  have h: "\<exists>a\<in>set sample_batch. Level a = ''critical''"
    by (simp add: sample_batch_def sample_alarm_def)
  with analyzeScenario_classification [of sample_batch] show ?thesis by simp
qed

subsection \<open>The decision of a round\<close>

lemma hasHighConfidence_None_iff:
  "hasHighConfidence results = None \<longleftrightarrow>
     (\<exists>i<length results. results ! i = None \<and>
        (\<forall>j<i. \<exists>r. results ! j = Some r \<and> \<not> 0.8 < Confidence r))"
proof (induction results rule: hasHighConfidence.induct)
  case 1
  then show ?case by simp
next
  case (2 results)
  then show ?case by auto
next
  case (3 result results)
  show ?case
  proof (cases "0.8 < Confidence result")
    case True
    then show ?thesis by (auto simp: nth_Cons split: nat.splits)
  next
    case False
    let ?P = "\<lambda>xs i. xs ! i = None \<and> (\<forall>j<i. \<exists>r. xs ! j = Some r \<and> \<not> 0.8 < Confidence r)"
    have "(\<exists>i<length results. ?P results i) \<longleftrightarrow>
          (\<exists>i<length (Some result # results). ?P (Some result # results) i)"
    proof
      assume "\<exists>i<length results. ?P results i"
      then obtain i where i: "i < length results" "?P results i" by blast
      have "?P (Some result # results) (Suc i)"
        using i False by (auto simp: nth_Cons split: nat.splits)
      with i(1) show "\<exists>i<length (Some result # results). ?P (Some result # results) i"
        by (intro exI[of _ "Suc i"]) simp
    next
      assume "\<exists>i<length (Some result # results). ?P (Some result # results) i"
      then obtain i where i: "i < length (Some result # results)" "?P (Some result # results) i"
        by blast
      then obtain k where k: "i = Suc k" by (cases i) auto
      have "?P results k"
      proof
        show "results ! k = None" using i k by simp
        show "\<forall>j<k. \<exists>r. results ! j = Some r \<and> \<not> 0.8 < Confidence r"
        proof (intro allI impI)
          fix j assume "j < k"
          then have "Suc j < i" using k by simp
          with i(2) have "\<exists>r. (Some result # results) ! Suc j = Some r \<and> \<not> 0.8 < Confidence r"
            by blast
          then show "\<exists>r. results ! j = Some r \<and> \<not> 0.8 < Confidence r" by simp
        qed
      qed
      with i(1) k show "\<exists>i<length results. ?P results i" by auto
    qed
    with 3 False show ?thesis by simp
  qed
qed

lemma hasHighConfidence_total:
  "\<forall>x\<in>set results. x \<noteq> None \<Longrightarrow>
   hasHighConfidence results = Some (\<exists>r. Some r \<in> set results \<and> 0.8 < Confidence r)"
  by (induction results rule: hasHighConfidence.induct) auto

lemma makeDecision_eq_None:
  "makeDecision m context results = None \<longleftrightarrow> hasHighConfidence results = None"
  by (auto simp: makeDecision_def Let_def split: option.splits prod.splits)

text \<open>
  The policy of the decision, wherever the scan for a high confidence comes to an end:
  continue while the round is below \<open>maxRounds\<close>, unless a confidence above 0.8 was found
  and the round is at least 2.
\<close>

lemma makeDecision_policy:
  "hasHighConfidence results = Some h \<Longrightarrow>
   \<exists>d. makeDecision m context results = Some d \<and>
       ContinueAnalysis d =
         (Iteration context < maxRounds m \<and> \<not> (h \<and> 2 \<le> Iteration context))"
  by (auto simp: makeDecision_def Let_def split: option.splits prod.splits)

lemma makeDecision_all_present:
  assumes "\<forall>x\<in>set results. x \<noteq> None"
  shows "\<exists>d. makeDecision m context results = Some d \<and>
           ContinueAnalysis d =
             (Iteration context < maxRounds m \<and>
              \<not> ((\<exists>r. Some r \<in> set results \<and> 0.8 < Confidence r) \<and> 2 \<le> Iteration context))"
  using makeDecision_policy [OF hasHighConfidence_total [OF assms]] by this

text \<open>
  Claim C1. Two inputs at which the claim gives the round a decision and the code gives
  none. A manager of two experts of the same name, in round 1 of at most 3: both experts
  succeed, the fan-in leaves the second position empty, and the claim has the decision
  continue. And in round 2 of at most 3, an empty position followed by a finding of
  confidence 0.85: the claim has the decision stop. In both, the scan of \<^verbatim>\<open>makeDecision\<close>
  reads the confidence through the empty position, and the call ends in a panic.
\<close>

theorem makeDecision_empty_slot_panics:
  "makeDecision twin_manager (sample_context 1)
     (fanIn twin_manager
        [Analyze fault_expert (sample_context 1), Analyze fault_expert (sample_context 1)])
     = None \<and>
   AnalyzeIteration twin_manager (sample_context 1)
     [Analyze fault_expert (sample_context 1), Analyze fault_expert (sample_context 1)] 0
     = None \<and>
   makeDecision sample_manager (sample_context 2) [None, Some high_finding] = None"
  by (simp add: AnalyzeIteration_def makeDecision_def fanIn_def twin_manager_def
      NewManagerAgent_def GetName_def Analyze_def AnalyzeWith_def Let_def)

text \<open>
  Claim C9. \<^verbatim>\<open>makeDecision\<close> reads the confidence of the results in order, with no test
  against \<^verbatim>\<open>nil\<close>, up to the first confidence above 0.8. It panics exactly when some
  position is empty and every position before it holds a finding of confidence at most
  0.8. So it is defined whenever no position is empty, and an empty position behind a
  high confidence is never read.
\<close>

theorem makeDecision_panic_iff:
  "(makeDecision m context results = None \<longleftrightarrow>
      (\<exists>i<length results. results ! i = None \<and>
         (\<forall>j<i. \<exists>r. results ! j = Some r \<and> \<not> 0.8 < Confidence r))) \<and>
   ((\<forall>x\<in>set results. x \<noteq> None) \<longrightarrow> makeDecision m context results \<noteq> None)"
proof
  show "makeDecision m context results = None \<longleftrightarrow>
      (\<exists>i<length results. results ! i = None \<and>
         (\<forall>j<i. \<exists>r. results ! j = Some r \<and> \<not> 0.8 < Confidence r))"
    by (simp only: makeDecision_eq_None hasHighConfidence_None_iff)
  show "(\<forall>x\<in>set results. x \<noteq> None) \<longrightarrow> makeDecision m context results \<noteq> None"
    using makeDecision_all_present [of results m "context"] by auto
qed

text \<open>
  The theorem at two findings and no empty position, and at a low finding followed by an
  empty position.
\<close>

theorem makeDecision_panic_iff_witness:
  "makeDecision sample_manager (sample_context 2) [Some low_finding, Some high_finding] \<noteq> None \<and>
   makeDecision sample_manager (sample_context 2) [Some low_finding, None] = None"
proof -
  have h: "\<forall>x\<in>set [Some low_finding, Some high_finding]. x \<noteq> None" by simp
  have "[Some low_finding, None] ! 1 = None \<and>
        (\<forall>j<1. \<exists>r. [Some low_finding, None] ! j = Some r \<and> \<not> 0.8 < Confidence r)"
    by (simp add: low_finding_def)
  then have e: "\<exists>i<length [Some low_finding, None]. [Some low_finding, None] ! i = None \<and>
        (\<forall>j<i. \<exists>r. [Some low_finding, None] ! j = Some r \<and> \<not> 0.8 < Confidence r)"
    by (intro exI [of _ 1]) simp
  from makeDecision_panic_iff
         [of sample_manager "sample_context 2" "[Some low_finding, Some high_finding]"]
       makeDecision_panic_iff [of sample_manager "sample_context 2" "[Some low_finding, None]"]
       h e
  show ?thesis by blast
qed

text \<open>
  The results of a round with an empty position for which \<^verbatim>\<open>makeDecision\<close> is defined:
  the high confidence at the first position ends the scan.
\<close>

theorem makeDecision_defined_with_empty_slot:
  "makeDecision sample_manager (sample_context 2) [Some high_finding, None] \<noteq> None \<and>
   [Some high_finding, None] ! 1 = None"
  by (simp add: makeDecision_def high_finding_def)

subsection \<open>The fan-in of a round\<close>

lemma place_length: "length (place es r j slots) = length slots"
  by (induction es arbitrary: j) auto

text \<open>With distinct names, a result changes the position of its expert and no other.\<close>

lemma place_nth:
  "distinct (map GetName es) \<Longrightarrow> i < length slots \<Longrightarrow>
   place es r j slots ! i =
     (if j \<le> i \<and> i < j + length es \<and> GetName (es ! (i - j)) = ExpertName r then Some r
      else slots ! i)"
proof (induction es arbitrary: j)
  case Nil
  then show ?case by auto
next
  case (Cons e es)
  show ?case
  proof (cases "GetName e = ExpertName r")
    case True
    have "GetName (es ! k) \<noteq> GetName e" if "k < length es" for k
    proof -
      from that have "GetName (es ! k) \<in> GetName ` set es" by (intro imageI nth_mem)
      moreover from Cons.prems(1) have "GetName e \<notin> GetName ` set es" by simp
      ultimately show ?thesis by metis
    qed
    with True Cons.prems(2) show ?thesis
      by (auto simp: nth_list_update nth_Cons split: nat.splits)
  next
    case False
    from Cons.prems have "distinct (map GetName es)" by simp
    from Cons.IH [OF this Cons.prems(2), of "Suc j"] False
    have step: "place (e # es) r j slots ! i =
      (if Suc j \<le> i \<and> i < Suc j + length es \<and> GetName (es ! (i - Suc j)) = ExpertName r
       then Some r else slots ! i)"
      by simp
    show ?thesis
    proof (cases "j < i")
      case True
      then have "(e # es) ! (i - j) = es ! (i - Suc j)" by (simp add: nth_Cons')
      with True step show ?thesis by auto
    next
      case False
      with \<open>GetName e \<noteq> ExpertName r\<close> step show ?thesis by (cases "i = j") auto
    qed
  qed
qed

lemma collect_length: "length (collect es as slots) = length slots"
  by (induction es as slots rule: collect.induct) (auto simp: place_length)

lemma arrived_simps [simp]:
  "arrived [] = []"
  "arrived (Inr r # as) = r # arrived as"
  "arrived (Inl e # as) = arrived as"
  by (simp_all add: arrived_def)

lemma in_arrived_iff: "r \<in> set (arrived xs) \<longleftrightarrow> Inr r \<in> set xs"
  by (auto simp: arrived_def split: sum.splits)

lemma find_append_last:
  "find P (xs @ [y]) =
     (case find P xs of None \<Rightarrow> (if P y then Some y else None) | Some x \<Rightarrow> Some x)"
  by (induction xs) auto

lemma find_SomeD: "find P xs = Some x \<Longrightarrow> x \<in> set xs \<and> P x"
  by (induction xs) (auto split: if_splits)

text \<open>
  A position holds the last result to arrive under the name of its expert, and is left as
  it was when no such result arrives.
\<close>

lemma collect_nth:
  "distinct (map GetName es) \<Longrightarrow> length slots = length es \<Longrightarrow> i < length es \<Longrightarrow>
   collect es as slots ! i =
     (case find (\<lambda>r. ExpertName r = GetName (es ! i)) (rev (arrived as)) of
        None \<Rightarrow> slots ! i
      | Some r \<Rightarrow> Some r)"
proof (induction es as slots rule: collect.induct)
  case (1 es expertResults)
  then show ?case by simp
next
  case (2 es result arrivals expertResults)
  have len: "length (place es result 0 expertResults) = length es"
    using 2(3) by (simp add: place_length)
  from 2(1) [OF 2(2) len 2(4)] place_nth [OF 2(2), of i expertResults result 0] 2(3) 2(4)
  show ?case
    by (auto simp: find_append_last split: option.splits)
next
  case (3 es err arrivals expertResults)
  then show ?case by simp
qed

lemma collect_positions:
  assumes dist: "distinct (map GetName es)"
    and len: "length outcomes = length es"
    and names: "\<forall>i<length es. \<forall>result. outcomes ! i = Inr result
                  \<longrightarrow> ExpertName result = GetName (es ! i)"
    and perm: "mset arrivals = mset outcomes"
  shows "collect es arrivals (replicate (length es) None) = map slotOf outcomes"
proof (rule nth_equalityI)
  show "length (collect es arrivals (replicate (length es) None)) = length (map slotOf outcomes)"
    using len by (simp add: collect_length)
next
  fix i
  assume "i < length (collect es arrivals (replicate (length es) None))"
  then have i: "i < length es" by (simp add: collect_length)
  let ?P = "\<lambda>r. ExpertName r = GetName (es ! i)"
  from perm have sets: "set arrivals = set outcomes" by (rule mset_eq_setD)
  have unique: "outcomes ! i = Inr r" if "r \<in> set (arrived arrivals)" "?P r" for r
  proof -
    from that(1) sets have "Inr r \<in> set outcomes" by (simp add: in_arrived_iff)
    then obtain k where k: "k < length outcomes" "outcomes ! k = Inr r"
      by (auto simp: in_set_conv_nth)
    with names len have "ExpertName r = GetName (es ! k)" by simp
    with that(2) have "map GetName es ! k = map GetName es ! i" using k(1) len i by simp
    with nth_eq_iff_index_eq [OF dist, of k i] k(1) len i have "k = i" by simp
    with k(2) show ?thesis by simp
  qed
  have "find ?P (rev (arrived arrivals)) = slotOf (outcomes ! i)"
  proof (cases "outcomes ! i")
    case (Inl err)
    have "find ?P (rev (arrived arrivals)) = None"
    proof (rule ccontr)
      assume "find ?P (rev (arrived arrivals)) \<noteq> None"
      then obtain r where "find ?P (rev (arrived arrivals)) = Some r" by auto
      then have "r \<in> set (arrived arrivals)" "?P r"
        using find_SomeD [of ?P "rev (arrived arrivals)" r] by simp_all
      from unique [OF this] Inl show False by simp
    qed
    with Inl show ?thesis by (simp add: slotOf_def)
  next
    case (Inr r)
    with i len have "Inr r \<in> set outcomes" by (metis nth_mem)
    with sets have mem: "r \<in> set (arrived arrivals)" by (simp add: in_arrived_iff)
    from names i Inr have P: "?P r" by simp
    from mem P have "find ?P (rev (arrived arrivals)) \<noteq> None"
      by (auto simp: find_None_iff)
    then obtain r' where r': "find ?P (rev (arrived arrivals)) = Some r'" by auto
    then have "r' \<in> set (arrived arrivals)" "?P r'"
      using find_SomeD [of ?P "rev (arrived arrivals)" r'] by simp_all
    from unique [OF this] Inr have "r' = r" by simp
    with r' Inr show ?thesis by (simp add: slotOf_def)
  qed
  with collect_nth [OF dist _ i, of "replicate (length es) None" arrivals] i len
  show "collect es arrivals (replicate (length es) None) ! i = map slotOf outcomes ! i"
    by (simp split: option.splits)
qed

lemma fanIn_outcomes:
  assumes "distinct (map GetName (experts m))"
    and "length outcomes = length (experts m)"
    and "\<forall>i<length (experts m). \<forall>result. outcomes ! i = Inr result
            \<longrightarrow> ExpertName result = GetName (experts m ! i)"
    and "mset arrivals = mset outcomes"
  shows "fanIn m arrivals = map slotOf outcomes"
proof -
  from assms(4) have "length arrivals = length outcomes" by (rule mset_eq_length)
  with assms(2) have "take (length (experts m)) arrivals = arrivals" by simp
  with collect_positions [OF assms] show ?thesis by (simp add: fanIn_def)
qed

lemma fanIn_length: "length (fanIn m arrivals) = length (experts m)"
  by (simp add: fanIn_def collect_length)

lemma AnalyzeIteration_results:
  "AnalyzeIteration m c arrivals now = Some (Inr it) \<Longrightarrow>
   iter_ExpertResults it = fanIn m arrivals \<and> iter_Iteration it = Iteration c \<and>
   iter_Decision it = makeDecision m c (fanIn m arrivals)"
  by (auto simp: AnalyzeIteration_def Let_def split: option.splits)

text \<open>
  Claim C3. Let the names of the \<open>N\<close> experts of the manager be pairwise distinct, let
  \<open>outcomes\<close> hold the outcome of each expert at the index of the expert, a result under the
  name of its expert or an error, and let the signals arrive in any order. Then the fan-in
  leaves an array of \<open>N\<close> positions that holds each result at the index of its expert and
  is empty at the index of each expert that failed; it is the array of the round result
  whenever \<^verbatim>\<open>AnalyzeIteration\<close> returns one.
\<close>

theorem fanIn_positions:
  assumes "distinct (map GetName (experts m))"
    and "length outcomes = length (experts m)"
    and "\<forall>i<length (experts m). \<forall>result. outcomes ! i = Inr result
            \<longrightarrow> ExpertName result = GetName (experts m ! i)"
    and "mset arrivals = mset outcomes"
  shows "length (fanIn m arrivals) = length (experts m) \<and>
         fanIn m arrivals = map slotOf outcomes \<and>
         (\<forall>it. AnalyzeIteration m c arrivals now = Some (Inr it)
            \<longrightarrow> iter_ExpertResults it = map slotOf outcomes)"
  using fanIn_outcomes [OF assms] fanIn_length [of m arrivals]
    AnalyzeIteration_results [of m c arrivals now]
  by simp

lemma expert_names:
  "GetName fault_expert = name_fault_expert"
  "GetName performance_expert = name_performance_expert"
  "GetName business_expert = name_business_expert"
  by (simp_all add: GetName_def fault_expert_def performance_expert_def business_expert_def
      NewExpertAgent_def FaultDiagnosisExpert_def PerformanceAnalysisExpert_def
      BusinessImpactExpert_def)

lemma expert_names_distinct:
  "distinct [name_fault_expert, name_performance_expert, name_business_expert]"
  by (simp add: name_fault_expert_def name_performance_expert_def name_business_expert_def)

lemma reference_manager_fields:
  "experts reference_manager = [fault_expert, performance_expert, business_expert]"
  "maxRounds reference_manager = 3"
  by (simp_all add: reference_manager_def NewManagerAgent_def)

text \<open>
  The theorem at the three experts of the reference system: the second one fails, the
  third one is the first to deliver.
\<close>

theorem fanIn_positions_witness:
  "fanIn reference_manager
     [Inr (sample_result business_expert), Inl (Error ''timeout''),
      Inr (sample_result fault_expert)] =
   [Some (sample_result fault_expert), None, Some (sample_result business_expert)]"
proof -
  let ?outcomes = "[Inr (sample_result fault_expert), Inl (Error ''timeout''),
                    Inr (sample_result business_expert)]"
  let ?arrivals = "[Inr (sample_result business_expert), Inl (Error ''timeout''),
                    Inr (sample_result fault_expert)]"
  have 1: "distinct (map GetName (experts reference_manager))"
    using expert_names_distinct by (simp add: reference_manager_fields expert_names)
  have 2: "length ?outcomes = length (experts reference_manager)"
    by (simp add: reference_manager_fields)
  have 3: "\<forall>i<length (experts reference_manager). \<forall>result. ?outcomes ! i = Inr result
            \<longrightarrow> ExpertName result = GetName (experts reference_manager ! i)"
    by (auto simp: reference_manager_fields less_Suc_eq sample_result_def GetName_def)
  have 4: "mset ?arrivals = mset ?outcomes" by simp
  from fanIn_positions [OF 1 2 3 4] show ?thesis by (simp add: slotOf_def)
qed

text \<open>
  Two experts of the same name both succeed: both results go to the first position, and
  the position of the second expert stays empty.
\<close>

theorem fanIn_same_name:
  "slotOf (Analyze fault_expert (sample_context 1)) \<noteq> None \<and>
   fanIn twin_manager
     [Analyze fault_expert (sample_context 1), Analyze fault_expert (sample_context 1)] ! 1
     = None"
  by (simp add: slotOf_def Analyze_def AnalyzeWith_def Let_def fanIn_def twin_manager_def
      NewManagerAgent_def GetName_def)

subsection \<open>The confidence of the reference experts\<close>

lemma Analyze_outcome:
  "\<exists>r. Analyze e c = Inr r \<and> Confidence r = 0.75 \<and> ExpertName r = GetName e"
  by (simp add: Analyze_def AnalyzeWith_def Let_def GetName_def)

lemma Analyze_InrD:
  "Analyze e c = Inr r \<Longrightarrow> Confidence r = 0.75 \<and> ExpertName r = GetName e"
  using Analyze_outcome [of e c] by auto

lemma place_set: "set (place es r j slots) \<subseteq> insert (Some r) (set slots)"
  by (induction es arbitrary: j) (auto dest: set_update_subset_insert [THEN subsetD])

lemma collect_set: "set (collect es as slots) \<subseteq> set slots \<union> Some ` set (arrived as)"
proof (induction es as slots rule: collect.induct)
  case (1 es expertResults)
  then show ?case by simp
next
  case (2 es result arrivals expertResults)
  with place_set [of es result 0 expertResults] show ?case by auto
next
  case (3 es err arrivals expertResults)
  then show ?case by simp
qed

lemma fanIn_set: "Some r \<in> set (fanIn m arrivals) \<Longrightarrow> Inr r \<in> set arrivals"
proof -
  assume "Some r \<in> set (fanIn m arrivals)"
  with collect_set [of "experts m" "take (length (experts m)) arrivals"
                      "replicate (length (experts m)) None"]
  have "r \<in> set (arrived (take (length (experts m)) arrivals))"
    by (auto simp: fanIn_def)
  then have "Inr r \<in> set (take (length (experts m)) arrivals)" by (simp add: in_arrived_iff)
  then show ?thesis by (rule in_set_takeD)
qed

lemma hasHighConfidence_low:
  "\<forall>r. Some r \<in> set results \<longrightarrow> \<not> 0.8 < Confidence r \<Longrightarrow> hasHighConfidence results \<noteq> Some True"
  by (induction results rule: hasHighConfidence.induct) auto

lemma roundArrivals_confidence:
  assumes "roundArrivals m c arrivals" "Some r \<in> set (fanIn m arrivals)"
  shows "Confidence r = 0.75"
proof -
  from assms(2) have "Inr r \<in> set arrivals" by (rule fanIn_set)
  moreover from assms(1) have "set arrivals = set (map (\<lambda>e. Analyze e c) (experts m))"
    unfolding roundArrivals_def by (rule mset_eq_setD)
  ultimately obtain e where "Analyze e c = Inr r" by auto
  with Analyze_outcome [of e c] show ?thesis by auto
qed

lemma roundArrivals_never_high:
  assumes "roundArrivals m c arrivals"
  shows "hasHighConfidence (fanIn m arrivals) \<noteq> Some True"
proof (rule hasHighConfidence_low, intro allI impI)
  fix r assume "Some r \<in> set (fanIn m arrivals)"
  with roundArrivals_confidence [OF assms] have "Confidence r = 0.75" by simp
  then show "\<not> 0.8 < Confidence r" by simp
qed

lemma roundArrivals_decision:
  assumes "roundArrivals m c arrivals"
    and "AnalyzeIteration m c arrivals now = Some (Inr it)" "iter_Decision it = Some d"
  shows "ContinueAnalysis d = (Iteration c < maxRounds m)"
proof -
  from AnalyzeIteration_results [OF assms(2)] assms(3)
  have d: "makeDecision m c (fanIn m arrivals) = Some d" by simp
  then have "hasHighConfidence (fanIn m arrivals) \<noteq> None"
    using makeDecision_eq_None [of m c "fanIn m arrivals"] by simp
  with roundArrivals_never_high [OF assms(1)]
  have "hasHighConfidence (fanIn m arrivals) = Some False" by (cases "hasHighConfidence (fanIn m arrivals)") auto
  from makeDecision_policy [OF this, of m c] d show ?thesis by simp
qed

lemma reference_system:
  "NewAlertAnalysisSystem (Some MockChatModel) = Some (Inr s) \<Longrightarrow> manager s = reference_manager"
  by (auto simp: NewAlertAnalysisSystem_def NewAlarmPool_def reference_manager_def
      fault_expert_def performance_expert_def business_expert_def NewExpertAgent_def
      NewManagerAgent_def FaultDiagnosisExpert_def PerformanceAnalysisExpert_def
      BusinessImpactExpert_def split: option.splits sum.splits if_splits)

lemma reference_round:
  assumes "roundArrivals reference_manager c arrivals"
  shows "\<exists>it d. AnalyzeIteration reference_manager c arrivals now = Some (Inr it) \<and>
           iter_Decision it = Some d \<and> ContinueAnalysis d = (Iteration c < 3)"
proof -
  let ?outcomes = "map (\<lambda>e. Analyze e c) (experts reference_manager)"
  have 1: "distinct (map GetName (experts reference_manager))"
    using expert_names_distinct by (simp add: reference_manager_fields expert_names)
  have 2: "length ?outcomes = length (experts reference_manager)" by simp
  have 3: "\<forall>i<length (experts reference_manager). \<forall>result. ?outcomes ! i = Inr result
            \<longrightarrow> ExpertName result = GetName (experts reference_manager ! i)"
    by (auto dest: Analyze_InrD)
  from assms have 4: "mset arrivals = mset ?outcomes" by (simp add: roundArrivals_def)
  from fanIn_outcomes [OF 1 2 3 4]
  have "fanIn reference_manager arrivals = map slotOf ?outcomes" .
  moreover have "\<forall>x\<in>set (map slotOf ?outcomes). x \<noteq> None"
  proof
    fix x assume "x \<in> set (map slotOf ?outcomes)"
    then obtain e where "x = slotOf (Analyze e c)" by auto
    with Analyze_outcome [of e c] show "x \<noteq> None" by (auto simp: slotOf_def)
  qed
  ultimately have "\<forall>x\<in>set (fanIn reference_manager arrivals). x \<noteq> None" by simp
  from makeDecision_all_present [OF this, of reference_manager c]
  obtain d where d: "makeDecision reference_manager c (fanIn reference_manager arrivals) = Some d"
    by blast
  then obtain it where it: "AnalyzeIteration reference_manager c arrivals now = Some (Inr it)"
      "iter_Decision it = Some d"
    by (simp add: AnalyzeIteration_def Let_def)
  from roundArrivals_decision [OF assms it] it show ?thesis
    by (simp add: reference_manager_fields)
qed


lemma reference_system_eq:
  "NewAlertAnalysisSystem (Some MockChatModel) = Some (Inr reference_system)"
  by (simp add: reference_system_def NewAlertAnalysisSystem_def NewAlarmPool_def
      NewExpertAgent_def NewManagerAgent_def FaultDiagnosisExpert_def
      PerformanceAnalysisExpert_def BusinessImpactExpert_def)

text \<open>
  Claim C10. Every finding that \<^verbatim>\<open>Analyze\<close> of an expert produces has confidence 0.75. So
  in a round whose signals are the outcomes of the experts of the manager, in any order,
  the scan for a confidence above 0.8 finds none, and a decision of the round continues
  exactly when the round is below \<open>maxRounds\<close>. In the reference system every such round
  has a decision.
\<close>

theorem confidence_never_high:
  "(\<exists>r. Analyze e c = Inr r \<and> Confidence r = 0.75) \<and>
   (roundArrivals m c arrivals \<longrightarrow>
      hasHighConfidence (fanIn m arrivals) \<noteq> Some True \<and>
      (\<forall>it d. AnalyzeIteration m c arrivals now = Some (Inr it) \<and> iter_Decision it = Some d
         \<longrightarrow> ContinueAnalysis d = (Iteration c < maxRounds m))) \<and>
   (NewAlertAnalysisSystem (Some MockChatModel) = Some (Inr s) \<and>
    roundArrivals (manager s) c arrivals \<longrightarrow>
      (\<exists>it d. AnalyzeIteration (manager s) c arrivals now = Some (Inr it) \<and>
         iter_Decision it = Some d \<and>
         ContinueAnalysis d = (Iteration c < maxRounds (manager s))))"
proof (intro conjI impI)
  show "\<exists>r. Analyze e c = Inr r \<and> Confidence r = 0.75"
    using Analyze_outcome [of e c] by blast
next
  assume "roundArrivals m c arrivals"
  then show "hasHighConfidence (fanIn m arrivals) \<noteq> Some True"
    by (rule roundArrivals_never_high)
next
  assume "roundArrivals m c arrivals"
  then show "\<forall>it d. AnalyzeIteration m c arrivals now = Some (Inr it) \<and> iter_Decision it = Some d
         \<longrightarrow> ContinueAnalysis d = (Iteration c < maxRounds m)"
    using roundArrivals_decision by blast
next
  assume a: "NewAlertAnalysisSystem (Some MockChatModel) = Some (Inr s) \<and>
    roundArrivals (manager s) c arrivals"
  then have m: "manager s = reference_manager" using reference_system by blast
  with a have "roundArrivals reference_manager c arrivals" by simp
  from reference_round [OF this, of now] m
  show "\<exists>it d. AnalyzeIteration (manager s) c arrivals now = Some (Inr it) \<and>
         iter_Decision it = Some d \<and>
         ContinueAnalysis d = (Iteration c < maxRounds (manager s))"
    by (simp add: reference_manager_fields)
qed

text \<open>
  The theorem at round 2 of the reference system, with the experts delivering in the
  reverse of their order: the round has a decision, and it continues.
\<close>

theorem confidence_never_high_witness:
  "\<exists>it d. AnalyzeIteration (manager reference_system) (sample_context 2)
            (rev (map (\<lambda>e. Analyze e (sample_context 2)) (experts (manager reference_system))))
            0 = Some (Inr it) \<and>
          iter_Decision it = Some d \<and> ContinueAnalysis d"
proof -
  let ?arrivals =
    "rev (map (\<lambda>e. Analyze e (sample_context 2)) (experts (manager reference_system)))"
  have h: "NewAlertAnalysisSystem (Some MockChatModel) = Some (Inr reference_system) \<and>
           roundArrivals (manager reference_system) (sample_context 2) ?arrivals"
    using reference_system_eq by (simp add: roundArrivals_def)
  have m: "maxRounds (manager reference_system) = 3"
    using reference_system [OF reference_system_eq] by (simp add: reference_manager_fields)
  from confidence_never_high
         [where s = reference_system and c = "sample_context 2" and arrivals = ?arrivals
            and now = 0]
       h m
  show ?thesis by (simp add: sample_context_def)
qed

subsection \<open>The final report\<close>

lemma find_append_case:
  "find P (xs @ ys) = (case find P xs of None \<Rightarrow> find P ys | Some x \<Rightarrow> Some x)"
  by (induction xs) auto

lemma lastFinding_Nil [simp]: "lastFinding n [] = None"
  by (simp add: lastFinding_def)

lemma lastFinding_append:
  "lastFinding n (fs @ gs) =
     (case lastFinding n gs of None \<Rightarrow> lastFinding n fs | Some f \<Rightarrow> Some f)"
  by (simp add: lastFinding_def find_append_case split: option.splits)

lemma lastFinding_Cons:
  "lastFinding n (f # gs) =
     (case lastFinding n gs of
        None \<Rightarrow> (if ExpertName f = n then Some f else None)
      | Some g \<Rightarrow> Some g)"
  by (simp add: lastFinding_def find_append_case split: option.splits)

lemma foldResults_lookup:
  "foldResults acc rs n =
     (case lastFinding n (concat (map (\<lambda>x. case x of None \<Rightarrow> [] | Some f \<Rightarrow> [f]) rs)) of
        None \<Rightarrow> acc n
      | Some f \<Rightarrow> Some f)"
proof (induction acc rs rule: foldResults.induct)
  case (1 expertResults)
  then show ?case by simp
next
  case (2 expertResults results)
  then show ?case by simp
next
  case (3 expertResults result results)
  show ?case
    unfolding foldResults.simps 3
    by (simp add: lastFinding_Cons split: option.splits)
qed

lemma foldIterations_lookup:
  "\<forall>it\<in>set iterations. it \<noteq> None \<Longrightarrow>
   \<exists>m. foldIterations acc iterations = Some m \<and>
       (\<forall>n. m n = (case lastFinding n (findingsOf iterations) of None \<Rightarrow> acc n | Some f \<Rightarrow> Some f))"
proof (induction acc iterations rule: foldIterations.induct)
  case (1 expertResults)
  then show ?case by (simp add: findingsOf_def)
next
  case (2 expertResults iterations)
  then show ?case by simp
next
  case (3 expertResults iteration iterations)
  then obtain m where m: "foldIterations (foldResults expertResults (iter_ExpertResults iteration)) iterations = Some m"
    "\<forall>n. m n = (case lastFinding n (findingsOf iterations) of
                   None \<Rightarrow> foldResults expertResults (iter_ExpertResults iteration) n
                 | Some f \<Rightarrow> Some f)"
    by auto
  have split: "findingsOf (Some iteration # iterations) =
      concat (map (\<lambda>x. case x of None \<Rightarrow> [] | Some f \<Rightarrow> [f]) (iter_ExpertResults iteration))
      @ findingsOf iterations"
    by (simp add: findingsOf_def)
  have "m n = (case lastFinding n (findingsOf (Some iteration # iterations)) of
                 None \<Rightarrow> expertResults n | Some f \<Rightarrow> Some f)" for n
    using m(2) by (simp add: split lastFinding_append foldResults_lookup split: option.splits)
  with m(1) show ?case by simp
qed

lemma buildReportPrompt_ok:
  "\<forall>it\<in>set iterations. \<exists>r d. it = Some r \<and> iter_Decision r = Some d \<Longrightarrow>
   buildReportPrompt iterations"
  by (induction iterations rule: buildReportPrompt.induct) auto

text \<open>
  Claim C6. For every list of completed rounds, each a round result with its decision,
  \<^verbatim>\<open>GenerateReport\<close> returns a report and no error. The map of the report gives, for every
  name, the last finding under that name in the rounds taken in order, the empty positions
  skipped: a finding of a later round replaces the one of an earlier round.
  \<^verbatim>\<open>IterationsCompleted\<close> is the number of rounds. With no round the report is returned as
  well, with an empty map.
\<close>

theorem GenerateReport_folds:
  assumes "\<forall>it\<in>set iterations. \<exists>r d. it = Some r \<and> iter_Decision r = Some d"
  shows "\<exists>report. GenerateReport iterations = Some (Inr report) \<and>
           IterationsCompleted report = int (length iterations) \<and>
           (\<forall>n. ExpertResults report n = lastFinding n (findingsOf iterations)) \<and>
           (iterations = [] \<longrightarrow> ExpertResults report = Map.empty)"
proof -
  from assms have "\<forall>it\<in>set iterations. it \<noteq> None" by auto
  from foldIterations_lookup [OF this, of Map.empty] obtain m where
    m: "foldIterations Map.empty iterations = Some m" and
    m': "\<forall>n. m n = (case lastFinding n (findingsOf iterations) of
                    None \<Rightarrow> None | Some f \<Rightarrow> Some f)"
    by blast
  have m2: "\<forall>n. m n = lastFinding n (findingsOf iterations)"
  proof
    fix n show "m n = lastFinding n (findingsOf iterations)"
      using m' [rule_format, of n] by (cases "lastFinding n (findingsOf iterations)") simp_all
  qed
  have e: "iterations = [] \<longrightarrow> m = Map.empty" using m by auto
  from m m2 e buildReportPrompt_ok [OF assms] show ?thesis
    by (simp add: GenerateReport_def)
qed

text \<open>
  The theorem at two rounds in which the expert \<open>perf\<close> has a finding in each: the report
  holds the finding of round 2.
\<close>

theorem GenerateReport_folds_witness:
  "\<exists>report. GenerateReport
               [Some (sample_round 1 [Some low_finding, None] True),
                Some (sample_round 2 [None, Some high_finding] False)] = Some (Inr report) \<and>
            IterationsCompleted report = 2 \<and>
            ExpertResults report ''perf'' = Some high_finding"
proof -
  let ?its = "[Some (sample_round 1 [Some low_finding, None] True),
               Some (sample_round 2 [None, Some high_finding] False)]"
  have h: "\<forall>it\<in>set ?its. \<exists>r d. it = Some r \<and> iter_Decision r = Some d"
    by (simp add: sample_round_def)
  have "lastFinding ''perf'' (findingsOf ?its) = Some high_finding"
    by (simp add: findingsOf_def lastFinding_def sample_round_def low_finding_def
        high_finding_def)
  with GenerateReport_folds [OF h] show ?thesis by auto
qed


subsection \<open>The analysis of an expert\<close>

lemma runSkills_lines:
  "snd (runSkills registry ts i (out, lines)) = lines @ concat (map (skillLine registry) ts)"
  by (induction ts arbitrary: i out lines)
     (auto simp: skillLine_def Let_def split: option.splits sum.splits)

lemma runSkills_trace_mono:
  "set out \<subseteq> set (fst (runSkills registry ts i (out, lines)))"
proof (induction ts arbitrary: i out lines)
  case Nil
  then show ?case by simp
next
  case (Cons t ts)
  show ?case
  proof (cases "registry t")
    case None
    with Cons [of "(if 0 < i then out @ ['', ''] else out) @ [t @ trace_not_found]" "Suc i" lines]
    show ?thesis by (auto simp: Let_def)
  next
    case (Some skill)
    show ?thesis
    proof (cases "Execute skill")
      case (Inl err)
      with Some Cons [of "(if 0 < i then out @ ['', ''] else out) @ [skill_name skill]
           @ [trace_error_prefix @ skill_name skill @ trace_error_infix @ message err @ [CHR 0x0A]]"
           "Suc i" lines]
      show ?thesis by (auto simp: Let_def)
    next
      case (Inr result)
      with Some Cons [of "(if 0 < i then out @ ['', ''] else out) @ [skill_name skill]" "Suc i"
           "lines @ [''['' @ skill_name skill @ ''] '' @ Message result @ '': '' @ DataKeyInfo result]"]
      show ?thesis by (auto simp: Let_def)
    qed
  qed
qed

lemma runSkills_not_found:
  "t \<in> set ts \<Longrightarrow> registry t = None \<Longrightarrow>
   t @ trace_not_found \<in> set (fst (runSkills registry ts i (out, lines)))"
proof (induction ts arbitrary: i out lines)
  case Nil
  then show ?case by simp
next
  case (Cons u ts)
  show ?case
  proof (cases "u = t")
    case True
    with Cons.prems
      runSkills_trace_mono [of "(if 0 < i then out @ ['', ''] else out) @ [t @ trace_not_found]"
        registry ts "Suc i" lines]
    show ?thesis by (auto simp: Let_def)
  next
    case False
    with Cons.prems have "t \<in> set ts" by simp
    from Cons.IH [OF this Cons.prems(2)] show ?thesis
      by (auto simp: Let_def split: option.splits sum.splits)
  qed
qed

lemma runSkills_failed:
  "t \<in> set ts \<Longrightarrow> registry t = Some skill \<Longrightarrow> Execute skill = Inl err \<Longrightarrow>
   trace_error_prefix @ skill_name skill @ trace_error_infix @ message err @ [CHR 0x0A]
     \<in> set (fst (runSkills registry ts i (out, lines)))"
proof (induction ts arbitrary: i out lines)
  case Nil
  then show ?case by simp
next
  case (Cons u ts)
  show ?case
  proof (cases "u = t")
    case True
    with Cons.prems
      runSkills_trace_mono [of "(if 0 < i then out @ ['', ''] else out) @ [skill_name skill]
           @ [trace_error_prefix @ skill_name skill @ trace_error_infix @ message err @ [CHR 0x0A]]"
        registry ts "Suc i" lines]
    show ?thesis by (auto simp: Let_def)
  next
    case False
    with Cons.prems have "t \<in> set ts" by simp
    from Cons.IH [OF this Cons.prems(2,3)] show ?thesis
      by (auto simp: Let_def split: option.splits sum.splits)
  qed
qed

lemma skill_types:
  "skillType NewLogQuerySkill = LogQuerySkill"
  "skillType NewMetricQuerySkill = MetricQuerySkill"
  "skillType NewTraceQuerySkill = TraceQuerySkill"
  "skillType NewTopologyQuerySkill = TopologyQuerySkill"
  "skillType NewTimeSeriesAnalysisSkill = TimeSeriesAnalysisSkill"
  "skillType NewCorrelationAnalysisSkill = CorrelationAnalysisSkill"
  "skillType NewPatternMatchingSkill = PatternMatchingSkill"
  "skillType NewHistoryMatchSkill = HistoryMatchSkill"
  "skillType NewRootCauseAnalysisSkill = RootCauseAnalysisSkill"
  "skillType NewFaultPropagationSkill = FaultPropagationSkill"
  "skillType NewSlowQueryAnalysisSkill = SlowQueryAnalysisSkill"
  "skillType NewErrorLogAnalysisSkill = ErrorLogAnalysisSkill"
  "skillType NewResourceLeakDetectionSkill = ResourceLeakDetectionSkill"
  "skillType NewNetworkDiagnosisSkill = NetworkDiagnosisSkill"
  "skillType NewMemoryAnalysisSkill = MemoryAnalysisSkill"
  by (simp_all add: NewLogQuerySkill_def NewMetricQuerySkill_def NewTraceQuerySkill_def
      NewTopologyQuerySkill_def NewTimeSeriesAnalysisSkill_def NewCorrelationAnalysisSkill_def
      NewPatternMatchingSkill_def NewHistoryMatchSkill_def NewRootCauseAnalysisSkill_def
      NewFaultPropagationSkill_def NewSlowQueryAnalysisSkill_def NewErrorLogAnalysisSkill_def
      NewResourceLeakDetectionSkill_def NewNetworkDiagnosisSkill_def NewMemoryAnalysisSkill_def)

lemma skill_results:
  "\<exists>result. Execute NewLogQuerySkill = Inr result"
  "\<exists>result. Execute NewMetricQuerySkill = Inr result"
  "\<exists>result. Execute NewTraceQuerySkill = Inr result"
  "\<exists>result. Execute NewTopologyQuerySkill = Inr result"
  "\<exists>result. Execute NewTimeSeriesAnalysisSkill = Inr result"
  "\<exists>result. Execute NewCorrelationAnalysisSkill = Inr result"
  "\<exists>result. Execute NewPatternMatchingSkill = Inr result"
  "\<exists>result. Execute NewHistoryMatchSkill = Inr result"
  "\<exists>result. Execute NewRootCauseAnalysisSkill = Inr result"
  "\<exists>result. Execute NewFaultPropagationSkill = Inr result"
  "\<exists>result. Execute NewSlowQueryAnalysisSkill = Inr result"
  "\<exists>result. Execute NewErrorLogAnalysisSkill = Inr result"
  "\<exists>result. Execute NewResourceLeakDetectionSkill = Inr result"
  "\<exists>result. Execute NewNetworkDiagnosisSkill = Inr result"
  "\<exists>result. Execute NewMemoryAnalysisSkill = Inr result"
  by (simp_all add: NewLogQuerySkill_def NewMetricQuerySkill_def NewTraceQuerySkill_def
      NewTopologyQuerySkill_def NewTimeSeriesAnalysisSkill_def NewCorrelationAnalysisSkill_def
      NewPatternMatchingSkill_def NewHistoryMatchSkill_def NewRootCauseAnalysisSkill_def
      NewFaultPropagationSkill_def NewSlowQueryAnalysisSkill_def NewErrorLogAnalysisSkill_def
      NewResourceLeakDetectionSkill_def NewNetworkDiagnosisSkill_def NewMemoryAnalysisSkill_def)

lemmas skill_ids =
  LogQuerySkill_def MetricQuerySkill_def TraceQuerySkill_def TopologyQuerySkill_def
  ConfigQuerySkill_def TimeSeriesAnalysisSkill_def CorrelationAnalysisSkill_def
  PatternMatchingSkill_def AnomalyDetectionSkill_def HistoryMatchSkill_def
  RootCauseAnalysisSkill_def FaultPropagationSkill_def DependencyAnalysisSkill_def
  CapacityAnalysisSkill_def TrendAnalysisSkill_def SlowQueryAnalysisSkill_def
  ErrorLogAnalysisSkill_def NetworkDiagnosisSkill_def ResourceLeakDetectionSkill_def
  MemoryAnalysisSkill_def CPUAnalysisSkill_def DiskAnalysisSkill_def
  DatabaseAnalysisSkill_def CacheAnalysisSkill_def LoadBalancerAnalysisSkill_def
  ConnectivityCheckSkill_def HealthCheckSkill_def PerformanceTestSkill_def
  StressTestSkill_def ValidationCheckSkill_def

text \<open>The registry as a table: the fifteen identifiers are distinct.\<close>

lemma NewSkillRegistry_table:
  "NewSkillRegistry =
     Map.empty
       (LogQuerySkill \<mapsto> NewLogQuerySkill,
        MetricQuerySkill \<mapsto> NewMetricQuerySkill,
        TraceQuerySkill \<mapsto> NewTraceQuerySkill,
        TopologyQuerySkill \<mapsto> NewTopologyQuerySkill,
        TimeSeriesAnalysisSkill \<mapsto> NewTimeSeriesAnalysisSkill,
        CorrelationAnalysisSkill \<mapsto> NewCorrelationAnalysisSkill,
        PatternMatchingSkill \<mapsto> NewPatternMatchingSkill,
        HistoryMatchSkill \<mapsto> NewHistoryMatchSkill,
        RootCauseAnalysisSkill \<mapsto> NewRootCauseAnalysisSkill,
        FaultPropagationSkill \<mapsto> NewFaultPropagationSkill,
        SlowQueryAnalysisSkill \<mapsto> NewSlowQueryAnalysisSkill,
        ErrorLogAnalysisSkill \<mapsto> NewErrorLogAnalysisSkill,
        ResourceLeakDetectionSkill \<mapsto> NewResourceLeakDetectionSkill,
        NetworkDiagnosisSkill \<mapsto> NewNetworkDiagnosisSkill,
        MemoryAnalysisSkill \<mapsto> NewMemoryAnalysisSkill)"
  by (simp add: NewSkillRegistry_def Register_def skill_types)


text \<open>In the registry that \<^verbatim>\<open>Analyze\<close> creates, every capability runs and adds its line.\<close>

lemma NewSkillRegistry_runs:
  "NewSkillRegistry t = Some skill \<Longrightarrow>
   (\<exists>result. Execute skill = Inr result) \<and> skillLine NewSkillRegistry t \<noteq> []"
proof -
  assume a: "NewSkillRegistry t = Some skill"
  then have "\<exists>result. Execute skill = Inr result"
    using skill_results by (auto simp: NewSkillRegistry_table split: if_splits)
  with a show ?thesis by (auto simp: skillLine_def)
qed

text \<open>
  Claim C8. For every expert and context, \<^verbatim>\<open>Analyze\<close> returns a finding and no error. It is
  the run of the capability loop on the registry of \<^verbatim>\<open>NewSkillRegistry\<close>. Its findings are
  the opening line, one line for each capability of the expert that this registry holds,
  in the order of the expert, and the closing line when there is such a capability; a
  capability that the registry does not hold adds no line, is printed as not found, and
  does not end the loop. The same holds of the loop on any registry, where moreover a
  capability whose execution returns an error adds no line, has its error printed, and
  does not end the loop either.
\<close>

theorem Analyze_never_fails:
  "(\<exists>r. Analyze e c = Inr r \<and> ExpertName r = name e \<and>
      Findings r =
        [finding_prefix @ name e @ finding_suffix]
        @ concat (map (skillLine NewSkillRegistry) (skills e))
        @ (if concat (map (skillLine NewSkillRegistry) (skills e)) = [] then []
           else [finding_verify])) \<and>
   Analyze e c = AnalyzeWith NewSkillRegistry e c \<and>
   (\<forall>t\<in>set (skills e).
      (NewSkillRegistry t = None
         \<longrightarrow> skillLine NewSkillRegistry t = [] \<and>
             t @ trace_not_found \<in> set (AnalyzeTrace NewSkillRegistry e)) \<and>
      (NewSkillRegistry t \<noteq> None \<longrightarrow> skillLine NewSkillRegistry t \<noteq> [])) \<and>
   (\<exists>r. AnalyzeWith registry e c = Inr r \<and>
      Findings r =
        [finding_prefix @ name e @ finding_suffix]
        @ concat (map (skillLine registry) (skills e))
        @ (if concat (map (skillLine registry) (skills e)) = [] then [] else [finding_verify])) \<and>
   (\<forall>t\<in>set (skills e). registry t = None
      \<longrightarrow> skillLine registry t = [] \<and> t @ trace_not_found \<in> set (AnalyzeTrace registry e)) \<and>
   (\<forall>t\<in>set (skills e). \<forall>skill err. registry t = Some skill \<and> Execute skill = Inl err
      \<longrightarrow> skillLine registry t = [] \<and>
          trace_error_prefix @ skill_name skill @ trace_error_infix @ message err @ [CHR 0x0A]
            \<in> set (AnalyzeTrace registry e)) \<and>
   (\<exists>r. Analyze e c = Inr r)"
proof (intro conjI)
  show "\<exists>r. Analyze e c = Inr r \<and> ExpertName r = name e \<and>
      Findings r =
        [finding_prefix @ name e @ finding_suffix]
        @ concat (map (skillLine NewSkillRegistry) (skills e))
        @ (if concat (map (skillLine NewSkillRegistry) (skills e)) = [] then []
           else [finding_verify])"
    by (simp add: Analyze_def AnalyzeWith_def Let_def runSkills_lines)
  show "Analyze e c = AnalyzeWith NewSkillRegistry e c"
    by (simp add: Analyze_def)
  show "\<forall>t\<in>set (skills e).
      (NewSkillRegistry t = None
         \<longrightarrow> skillLine NewSkillRegistry t = [] \<and>
             t @ trace_not_found \<in> set (AnalyzeTrace NewSkillRegistry e)) \<and>
      (NewSkillRegistry t \<noteq> None \<longrightarrow> skillLine NewSkillRegistry t \<noteq> [])"
  proof (intro ballI conjI impI)
    fix t assume t: "t \<in> set (skills e)" and n: "NewSkillRegistry t = None"
    from n show "skillLine NewSkillRegistry t = []" by (simp add: skillLine_def)
    from runSkills_not_found [of t "skills e" NewSkillRegistry 0 "[]" "[]", OF t n]
    show "t @ trace_not_found \<in> set (AnalyzeTrace NewSkillRegistry e)"
      by (simp add: AnalyzeTrace_def)
  next
    fix t assume "NewSkillRegistry t \<noteq> None"
    then obtain skill where "NewSkillRegistry t = Some skill" by auto
    from NewSkillRegistry_runs [OF this] show "skillLine NewSkillRegistry t \<noteq> []" by simp
  qed
  show "\<exists>r. AnalyzeWith registry e c = Inr r \<and>
      Findings r =
        [finding_prefix @ name e @ finding_suffix]
        @ concat (map (skillLine registry) (skills e))
        @ (if concat (map (skillLine registry) (skills e)) = [] then [] else [finding_verify])"
    by (simp add: AnalyzeWith_def Let_def runSkills_lines)
  show "\<forall>t\<in>set (skills e). registry t = None
      \<longrightarrow> skillLine registry t = [] \<and> t @ trace_not_found \<in> set (AnalyzeTrace registry e)"
    using runSkills_not_found by (simp add: AnalyzeTrace_def skillLine_def)
  show "\<forall>t\<in>set (skills e). \<forall>skill err. registry t = Some skill \<and> Execute skill = Inl err
      \<longrightarrow> skillLine registry t = [] \<and>
          trace_error_prefix @ skill_name skill @ trace_error_infix @ message err @ [CHR 0x0A]
            \<in> set (AnalyzeTrace registry e)"
    using runSkills_failed by (simp add: AnalyzeTrace_def skillLine_def)
  show "\<exists>r. Analyze e c = Inr r"
    by (simp add: Analyze_def AnalyzeWith_def Let_def)
qed

lemma performance_expert_skills:
  "skills performance_expert =
     [MetricQuerySkill, TimeSeriesAnalysisSkill, CorrelationAnalysisSkill,
      SlowQueryAnalysisSkill, MemoryAnalysisSkill, CPUAnalysisSkill, DiskAnalysisSkill,
      DatabaseAnalysisSkill, CacheAnalysisSkill, CapacityAnalysisSkill]"
  by (simp add: performance_expert_def NewExpertAgent_def FaultDiagnosisExpert_def
      PerformanceAnalysisExpert_def)

lemma failing_registry_lookups:
  "failing_registry MetricQuerySkill = Some (NewMetricQuerySkill\<lparr>Execute := Inl (Error ''timeout'')\<rparr>)"
  "failing_registry TimeSeriesAnalysisSkill = Some NewTimeSeriesAnalysisSkill"
  "failing_registry CorrelationAnalysisSkill = Some NewCorrelationAnalysisSkill"
  "failing_registry SlowQueryAnalysisSkill = Some NewSlowQueryAnalysisSkill"
  "failing_registry MemoryAnalysisSkill = Some NewMemoryAnalysisSkill"
  "failing_registry CPUAnalysisSkill = None"
  "failing_registry DiskAnalysisSkill = None"
  "failing_registry DatabaseAnalysisSkill = None"
  "failing_registry CacheAnalysisSkill = None"
  "failing_registry CapacityAnalysisSkill = None"
  by (simp_all add: failing_registry_def Register_def NewSkillRegistry_table skill_types
      skill_ids)

lemma registry_lookups:
  "NewSkillRegistry MetricQuerySkill = Some NewMetricQuerySkill"
  "NewSkillRegistry TimeSeriesAnalysisSkill = Some NewTimeSeriesAnalysisSkill"
  "NewSkillRegistry CorrelationAnalysisSkill = Some NewCorrelationAnalysisSkill"
  "NewSkillRegistry SlowQueryAnalysisSkill = Some NewSlowQueryAnalysisSkill"
  "NewSkillRegistry MemoryAnalysisSkill = Some NewMemoryAnalysisSkill"
  "NewSkillRegistry CPUAnalysisSkill = None"
  "NewSkillRegistry DiskAnalysisSkill = None"
  "NewSkillRegistry DatabaseAnalysisSkill = None"
  "NewSkillRegistry CacheAnalysisSkill = None"
  "NewSkillRegistry CapacityAnalysisSkill = None"
  by (simp_all add: NewSkillRegistry_table skill_ids)

text \<open>
  The theorem at the performance expert. With the registry of the source, five of its ten
  capabilities are not registered, and the finding of \<^verbatim>\<open>Analyze\<close> has the lines of the other
  five between the opening and the closing line. With a registry in which the metric
  query fails, the finding has four such lines.
\<close>

theorem Analyze_never_fails_witness:
  "(\<exists>r. Analyze performance_expert (sample_context 1) = Inr r \<and> length (Findings r) = 7) \<and>
   CPUAnalysisSkill @ trace_not_found \<in> set (AnalyzeTrace NewSkillRegistry performance_expert) \<and>
   (\<exists>r. AnalyzeWith failing_registry performance_expert (sample_context 1) = Inr r \<and>
      length (Findings r) = 6) \<and>
   CPUAnalysisSkill @ trace_not_found \<in> set (AnalyzeTrace failing_registry performance_expert) \<and>
   trace_error_prefix @ skill_name NewMetricQuerySkill @ trace_error_infix @ ''timeout''
     @ [CHR 0x0A] \<in> set (AnalyzeTrace failing_registry performance_expert)"
proof -
  note inst = Analyze_never_fails [of performance_expert "sample_context 1" failing_registry]
  have cpu: "CPUAnalysisSkill \<in> set (skills performance_expert)"
    by (simp add: performance_expert_skills)
  have metric: "MetricQuerySkill \<in> set (skills performance_expert)"
    by (simp add: performance_expert_skills)
  have real_lines:
    "length (concat (map (skillLine NewSkillRegistry) (skills performance_expert))) = 5"
    using skill_results
    by (auto simp: performance_expert_skills skillLine_def registry_lookups)
  have "length (concat (map (skillLine NewSkillRegistry) (skills performance_expert))) \<noteq> 0"
    unfolding real_lines by simp
  then have real_ne: "concat (map (skillLine NewSkillRegistry) (skills performance_expert)) \<noteq> []"
    unfolding length_0_conv by this
  from inst obtain r0 where
    r0: "Analyze performance_expert (sample_context 1) = Inr r0"
        "Findings r0 =
          [finding_prefix @ name performance_expert @ finding_suffix]
          @ concat (map (skillLine NewSkillRegistry) (skills performance_expert))
          @ (if concat (map (skillLine NewSkillRegistry) (skills performance_expert)) = []
             then [] else [finding_verify])"
    by blast
  from r0(2) real_lines real_ne have "length (Findings r0) = 7" by simp
  with r0(1) have first: "\<exists>r. Analyze performance_expert (sample_context 1) = Inr r \<and>
                            length (Findings r) = 7"
    by blast
  from inst cpu registry_lookups(6)
  have second: "CPUAnalysisSkill @ trace_not_found
                  \<in> set (AnalyzeTrace NewSkillRegistry performance_expert)"
    by blast
  have lines: "length (concat (map (skillLine failing_registry) (skills performance_expert))) = 4"
    using skill_results
    by (auto simp: performance_expert_skills skillLine_def failing_registry_lookups)
  have "length (concat (map (skillLine failing_registry) (skills performance_expert))) \<noteq> 0"
    unfolding lines by simp
  then have ne: "concat (map (skillLine failing_registry) (skills performance_expert)) \<noteq> []"
    unfolding length_0_conv by this
  from inst obtain r where
    r: "AnalyzeWith failing_registry performance_expert (sample_context 1) = Inr r"
       "Findings r =
          [finding_prefix @ name performance_expert @ finding_suffix]
          @ concat (map (skillLine failing_registry) (skills performance_expert))
          @ (if concat (map (skillLine failing_registry) (skills performance_expert)) = []
             then [] else [finding_verify])"
    by blast
  from r(2) lines ne have "length (Findings r) = 6" by simp
  with r(1) have third: "\<exists>r. AnalyzeWith failing_registry performance_expert (sample_context 1)
                             = Inr r \<and> length (Findings r) = 6"
    by blast
  from inst cpu failing_registry_lookups(6)
  have fourth: "CPUAnalysisSkill @ trace_not_found
                  \<in> set (AnalyzeTrace failing_registry performance_expert)"
    by blast
  from inst metric failing_registry_lookups(1)
  have fifth: "trace_error_prefix @ skill_name NewMetricQuerySkill @ trace_error_infix
                 @ ''timeout'' @ [CHR 0x0A]
                 \<in> set (AnalyzeTrace failing_registry performance_expert)"
    by fastforce
  from first second third fourth fifth show ?thesis by blast
qed


subsection \<open>The rounds of a run\<close>

declare roundLoop.simps [simp del]

lemma makeDecision_continue:
  "makeDecision m c results = Some d \<Longrightarrow> ContinueAnalysis d \<Longrightarrow> Iteration c < maxRounds m"
  by (auto simp: makeDecision_def Let_def split: option.splits if_splits)

lemma AnalyzeIteration_continue:
  assumes "AnalyzeIteration m c arrivals now = Some (Inr it)" "iter_Decision it = Some d"
    "ContinueAnalysis d"
  shows "Iteration c < maxRounds m"
proof -
  from AnalyzeIteration_results [OF assms(1)] assms(2)
  have "makeDecision m c (fanIn m arrivals) = Some d" by simp
  from makeDecision_continue [OF this assms(3)] show ?thesis .
qed

lemma roundLoop_started:
  "\<exists>k. fst (roundLoop m sched clock est i c its started) = started @ [i..k] \<and>
       k \<le> est \<and> k \<le> max i (maxRounds m) \<and> (i \<le> est \<longrightarrow> i \<le> k)"
proof (induction m sched clock est i c its started rule: roundLoop.induct)
  case (1 m sched clock est i c its started)
  show ?case
  proof (cases "i \<le> est")
    case False
    then have "fst (roundLoop m sched clock est i c its started) = started @ [i..est]"
      by (simp add: roundLoop.simps)
    with False show ?thesis by (intro exI [of _ est]) simp
  next
    case True
    let ?c1 = "c\<lparr>Iteration := i\<rparr>"
    have one: "started @ [i] = started @ [i..i]" by simp
    have stop: "\<exists>k. started @ [i] = started @ [i..k] \<and>
       k \<le> est \<and> k \<le> max i (maxRounds m) \<and> (i \<le> est \<longrightarrow> i \<le> k)"
      using True by (intro exI [of _ i]) simp
    show ?thesis
    proof (cases "AnalyzeIteration m ?c1 (sched i) (clock i)")
      case None
      with True have "fst (roundLoop m sched clock est i c its started) = started @ [i]"
        by (simp add: roundLoop.simps [of m sched clock est i] Let_def)
      with stop show ?thesis by simp
    next
      case (Some outcome)
      show ?thesis
      proof (cases outcome)
        case (Inl err)
        with Some True have "fst (roundLoop m sched clock est i c its started) = started @ [i]"
          by (simp add: roundLoop.simps [of m sched clock est i] Let_def)
        with stop show ?thesis by simp
      next
        case (Inr it)
        show ?thesis
        proof (cases "iter_Decision it")
          case None
          with Inr Some True
          have "fst (roundLoop m sched clock est i c its started) = started @ [i]"
            by (simp add: roundLoop.simps [of m sched clock est i] Let_def)
          with stop show ?thesis by simp
        next
          case (Some d)
          note d = this
          show ?thesis
          proof (cases "ContinueAnalysis d")
            case False
            with d Inr \<open>AnalyzeIteration m ?c1 (sched i) (clock i) = Some outcome\<close> True
            have "fst (roundLoop m sched clock est i c its started) = started @ [i]"
              by (simp add: roundLoop.simps [of m sched clock est i] Let_def)
            with stop show ?thesis by simp
          next
            case True
            note cont = this
            let ?c2 = "?c1\<lparr>PrevResults := PrevResults ?c1
                               @ [prev_prefix @ showInt i @ prev_infix @ Decision d]\<rparr>"
            from \<open>AnalyzeIteration m ?c1 (sched i) (clock i) = Some outcome\<close> Inr
            have ai: "AnalyzeIteration m ?c1 (sched i) (clock i) = Some (Inr it)" by simp
            from AnalyzeIteration_continue [OF ai d cont] have lt: "i < maxRounds m" by simp
            have eq: "roundLoop m sched clock est i c its started =
                      roundLoop m sched clock est (i + 1) ?c2 (its @ [it]) (started @ [i])"
              using \<open>i \<le> est\<close> ai d cont
              by (simp add: roundLoop.simps [of m sched clock est i] Let_def)
            from "1.IH" [OF \<open>i \<le> est\<close> refl refl ai refl d] cont
            obtain k where k: "fst (roundLoop m sched clock est (i + 1) ?c2 (its @ [it]) (started @ [i]))
                  = (started @ [i]) @ [i + 1..k]"
              "k \<le> est" "k \<le> max (i + 1) (maxRounds m)" "i + 1 \<le> est \<longrightarrow> i + 1 \<le> k"
              by auto
            show ?thesis
            proof (cases "i + 1 \<le> k")
              case True
              then have "[i..k] = i # [i + 1..k]" by (simp add: upto_rec1)
              with k eq lt True show ?thesis by (intro exI [of _ k]) auto
            next
              case False
              then have "[i + 1..k] = []" by simp
              with k eq have "fst (roundLoop m sched clock est i c its started) = started @ [i]"
                by simp
              with stop show ?thesis by simp
            qed
          qed
        qed
      qed
    qed
  qed
qed


text \<open>
  The rounds started when no round panics and no round from the second on finds a high
  confidence: the loop runs up to the estimate or up to \<open>maxRounds\<close>, whichever comes first.
\<close>

lemma roundLoop_exact:
  assumes "\<forall>j. i \<le> j \<and> j \<le> est
             \<longrightarrow> (\<exists>h. hasHighConfidence (fanIn m (sched j)) = Some h \<and> \<not> (h \<and> 2 \<le> j))"
    and "i \<le> est"
  shows "fst (roundLoop m sched clock est i c its started)
           = started @ [i..min est (max i (maxRounds m))]"
  using assms
proof (induction m sched clock est i c its started rule: roundLoop.induct)
  case (1 m sched clock est i c its started)
  let ?c1 = "c\<lparr>Iteration := i\<rparr>"
  from "1.prems" obtain h where
    h: "hasHighConfidence (fanIn m (sched i)) = Some h" "\<not> (h \<and> 2 \<le> i)"
    by auto
  from makeDecision_policy [OF h(1), of m ?c1] h(2) obtain d where
    d: "makeDecision m ?c1 (fanIn m (sched i)) = Some d"
       "ContinueAnalysis d = (i < maxRounds m)"
    by auto
  let ?it = "\<lparr>iter_Iteration = i, iter_ExpertResults = fanIn m (sched i),
              iter_Decision = Some d, iter_Timestamp = clock i\<rparr>"
  from d(1) have ai: "AnalyzeIteration m ?c1 (sched i) (clock i) = Some (Inr ?it)"
    by (simp add: AnalyzeIteration_def Let_def)
  show ?case
  proof (cases "i < maxRounds m")
    case False
    with d(2) ai \<open>i \<le> est\<close>
    have "fst (roundLoop m sched clock est i c its started) = started @ [i]"
      by (simp add: roundLoop.simps [of m sched clock est i] Let_def)
    moreover from False \<open>i \<le> est\<close> have "min est (max i (maxRounds m)) = i" by simp
    ultimately show ?thesis by simp
  next
    case True
    let ?c2 = "?c1\<lparr>PrevResults := PrevResults ?c1
                       @ [prev_prefix @ showInt i @ prev_infix @ Decision d]\<rparr>"
    from True d(2) have cont: "ContinueAnalysis d" by simp
    have eq: "roundLoop m sched clock est i c its started =
              roundLoop m sched clock est (i + 1) ?c2 (its @ [?it]) (started @ [i])"
      using \<open>i \<le> est\<close> ai cont
      by (simp add: roundLoop.simps [of m sched clock est i] Let_def)
    show ?thesis
    proof (cases "i + 1 \<le> est")
      case False
      then have "fst (roundLoop m sched clock est (i + 1) ?c2 (its @ [?it]) (started @ [i]))
                   = started @ [i]"
        by (simp add: roundLoop.simps [of m sched clock est "i + 1"])
      moreover from False True \<open>i \<le> est\<close> have "min est (max i (maxRounds m)) = i" by simp
      ultimately show ?thesis using eq by simp
    next
      case next_round: True
      from "1.prems"(1)
      have "\<forall>j. i + 1 \<le> j \<and> j \<le> est
              \<longrightarrow> (\<exists>h. hasHighConfidence (fanIn m (sched j)) = Some h \<and> \<not> (h \<and> 2 \<le> j))"
        by simp
      from "1.IH" [OF \<open>i \<le> est\<close> refl refl ai refl _ _ this next_round] cont
      have "fst (roundLoop m sched clock est (i + 1) ?c2 (its @ [?it]) (started @ [i]))
              = (started @ [i]) @ [i + 1..min est (max (i + 1) (maxRounds m))]"
        by simp
      moreover from True have "max (i + 1) (maxRounds m) = max i (maxRounds m)" by simp
      moreover from True next_round
      have "[i..min est (max i (maxRounds m))] = i # [i + 1..min est (max i (maxRounds m))]"
        by (simp add: upto_rec1)
      ultimately show ?thesis using eq by simp
    qed
  qed
qed

lemma reference_system_fields:
  "manager reference_system = reference_manager"
  using reference_system [OF reference_system_eq] by this

lemma zero_rounds_manager:
  "NewManagerAgent (Some MockChatModel) [] 0 = Inr (manager zero_rounds_system)"
  "maxRounds (manager zero_rounds_system) = 0"
  "experts (manager zero_rounds_system) = []"
  by (simp_all add: zero_rounds_system_def NewManagerAgent_def)

text \<open>
  Claim C2. A run of \<^verbatim>\<open>Analyze\<close> starts the rounds \<open>1, \<dots>, k\<close> in order, for some \<open>k\<close> that
  is at least 1, at most the estimated number of rounds of the classification, and at most
  the larger of 1 and \<open>maxRounds\<close>; whatever the results of the rounds are, and also when a
  round ends in a panic. When no round up to the estimate panics, and none from the second
  on finds a confidence above 0.8, \<open>k\<close> is the smaller of the two bounds. So with a \<open>maxRounds\<close> of at least 1 the
  run never starts more rounds than the estimate, and never more than \<open>maxRounds\<close>.
\<close>

theorem analysisRounds_bound:
  "(\<exists>k. fst (analysisRounds s batch sched clock) = [1..k] \<and> 1 \<le> k \<and>
        k \<le> scen_EstimatedRounds (analyzeScenario batch) \<and>
        k \<le> max 1 (maxRounds (manager s)) \<and>
        ((\<forall>j. 1 \<le> j \<and> j \<le> scen_EstimatedRounds (analyzeScenario batch)
             \<longrightarrow> (\<exists>h. hasHighConfidence (fanIn (manager s) (sched j)) = Some h \<and>
                       \<not> (h \<and> 2 \<le> j)))
         \<longrightarrow> k = min (scen_EstimatedRounds (analyzeScenario batch))
                   (max 1 (maxRounds (manager s))))) \<and>
   (1 \<le> maxRounds (manager s) \<longrightarrow>
      int (length (fst (analysisRounds s batch sched clock)))
        \<le> min (scen_EstimatedRounds (analyzeScenario batch)) (maxRounds (manager s)))"
proof -
  let ?est = "scen_EstimatedRounds (analyzeScenario batch)"
  let ?c = "\<lparr>Alarms = batch, Iteration = 1, MaxRounds = ?est, PrevResults = []\<rparr>"
  let ?quiet = "\<forall>j. 1 \<le> j \<and> j \<le> ?est
                  \<longrightarrow> (\<exists>h. hasHighConfidence (fanIn (manager s) (sched j)) = Some h \<and>
                            \<not> (h \<and> 2 \<le> j))"
  have est: "1 \<le> ?est" by (simp add: analyzeScenario_def Let_def split: prod.splits)
  have run: "analysisRounds s batch sched clock =
               roundLoop (manager s) sched clock ?est 1 ?c [] []"
    by (simp add: analysisRounds_def ScenarioRecognition_def Let_def)
  from roundLoop_started [of "manager s" sched clock ?est 1 ?c "[]" "[]"] est run
  obtain k where k: "fst (analysisRounds s batch sched clock) = [1..k]" "k \<le> ?est"
      "k \<le> max 1 (maxRounds (manager s))" "1 \<le> k"
    by auto
  have exact: "k = min ?est (max 1 (maxRounds (manager s)))" if ?quiet
  proof -
    from roundLoop_exact [OF that est, of clock ?c "[]" "[]"] run k(1)
    have "[1..k] = [1..min ?est (max 1 (maxRounds (manager s)))]" by simp
    then have "length [1..k] = length [1..min ?est (max 1 (maxRounds (manager s)))]" by simp
    with k(4) est show ?thesis by simp
  qed
  from k(1) k(4) have len: "int (length (fst (analysisRounds s batch sched clock))) = k"
    by simp
  have first: "\<exists>k. fst (analysisRounds s batch sched clock) = [1..k] \<and> 1 \<le> k \<and>
        k \<le> ?est \<and> k \<le> max 1 (maxRounds (manager s)) \<and>
        (?quiet \<longrightarrow> k = min ?est (max 1 (maxRounds (manager s))))"
    using k exact by blast
  have second: "1 \<le> maxRounds (manager s) \<longrightarrow>
      int (length (fst (analysisRounds s batch sched clock))) \<le> min ?est (maxRounds (manager s))"
    using len k(2) k(3) by auto
  from first second show ?thesis by (rule conjI)
qed

lemma reference_arrivals_quiet:
  "hasHighConfidence (fanIn reference_manager (reference_arrivals j)) = Some False"
proof -
  let ?c = "\<lparr>Alarms = sample_batch, Iteration = j, MaxRounds = 3, PrevResults = []\<rparr>"
  have arr: "roundArrivals reference_manager ?c (reference_arrivals j)"
    by (simp add: roundArrivals_def reference_arrivals_def reference_manager_fields)
  from reference_round [OF arr, of 0] obtain it where
    "AnalyzeIteration reference_manager ?c (reference_arrivals j) 0 = Some (Inr it)"
    by blast
  then have "makeDecision reference_manager ?c (fanIn reference_manager (reference_arrivals j))
               \<noteq> None"
    by (auto simp: AnalyzeIteration_def Let_def split: option.splits)
  then have "hasHighConfidence (fanIn reference_manager (reference_arrivals j)) \<noteq> None"
    by (simp add: makeDecision_eq_None)
  with roundArrivals_never_high [OF arr] show ?thesis
    by (cases "hasHighConfidence (fanIn reference_manager (reference_arrivals j))") auto
qed

text \<open>
  The theorem at the reference system, whose \<open>maxRounds\<close> is 3, on the sample batch, whose
  estimate is 3 rounds: the run starts the rounds 1, 2 and 3.
\<close>

theorem analysisRounds_bound_witness:
  "1 \<le> maxRounds (manager reference_system) \<and>
   fst (analysisRounds reference_system sample_batch reference_arrivals sample_clock)
     = [1, 2, 3]"
proof -
  have h: "1 \<le> maxRounds (manager reference_system)"
    by (simp add: reference_system_fields reference_manager_fields)
  have est: "scen_EstimatedRounds (analyzeScenario sample_batch) = 3"
    by (simp add: analyzeScenario_def sample_batch_def sample_alarm_def Let_def)
  have quiet: "\<forall>j. 1 \<le> j \<and> j \<le> scen_EstimatedRounds (analyzeScenario sample_batch)
        \<longrightarrow> (\<exists>h. hasHighConfidence (fanIn (manager reference_system) (reference_arrivals j))
                    = Some h \<and> \<not> (h \<and> 2 \<le> j))"
    by (auto simp: reference_system_fields reference_arrivals_quiet)
  from analysisRounds_bound [of reference_system sample_batch reference_arrivals sample_clock]
    quiet
  obtain k where "fst (analysisRounds reference_system sample_batch reference_arrivals
                         sample_clock) = [1..k]"
    "k = min (scen_EstimatedRounds (analyzeScenario sample_batch))
           (max 1 (maxRounds (manager reference_system)))"
    by blast
  then have "fst (analysisRounds reference_system sample_batch reference_arrivals sample_clock)
               = [1..3]"
    by (simp add: est reference_system_fields reference_manager_fields)
  also have "[1..3] = [1, 2, 3::int]" by (simp add: upto_rec1)
  finally show ?thesis using h by simp
qed

text \<open>
  A manager made with \<open>maxRounds = 0\<close>: the constructor accepts it, and the run starts
  round 1, one round more than \<open>maxRounds\<close>.
\<close>

theorem analysisRounds_zero_maxRounds:
  "NewManagerAgent (Some MockChatModel) [] 0 = Inr (manager zero_rounds_system) \<and>
   maxRounds (manager zero_rounds_system) = 0 \<and>
   fst (analysisRounds zero_rounds_system [] no_arrivals sample_clock) = [1]"
proof -
  have "fst (analysisRounds zero_rounds_system [] no_arrivals sample_clock) = [1]"
    by (simp add: analysisRounds_def ScenarioRecognition_def analyzeScenario_def Let_def
        roundLoop.simps AnalyzeIteration_def fanIn_def makeDecision_def zero_rounds_manager
        no_arrivals_def)
  with zero_rounds_manager show ?thesis by simp
qed

subsection \<open>The ingestion loop\<close>

lemma processAlarms_append:
  "processAlarms (xs @ ys) s =
     (case processAlarms xs s of None \<Rightarrow> None | Some s1 \<Rightarrow> processAlarms ys s1)"
  by (induction xs arbitrary: s) (auto split: option.splits)

lemma processAlarms_snoc:
  "processAlarms (es @ [e]) s = Some s' \<longleftrightarrow>
     (\<exists>s1. processAlarms es s = Some s1 \<and> selectCase s1 e = Some s')"
  by (auto simp: processAlarms_append split: option.splits)

lemma armed_after_arrival:
  assumes "processAlarms es initialLoop = Some s" "timer s = Some d" "\<not> stopped s"
  shows "(\<exists>es0 t a. es = es0 @ [TaskQueue t a] \<and> d = t + quietPeriod) \<and> pendingAlarms s \<noteq> []"
  using assms
proof (induction es arbitrary: s d rule: rev_induct)
  case Nil
  then show ?case by (auto simp: initialLoop_def)
next
  case (snoc e es)
  from snoc.prems(1) obtain s1 where
    s1: "processAlarms es initialLoop = Some s1" "selectCase s1 e = Some s"
    by (auto simp: processAlarms_snoc)
  show ?case
  proof (cases e)
    case (TaskQueue t a)
    with s1(2) snoc.prems(2) show ?thesis by (auto split: if_splits)
  next
    case (TimerC t)
    with s1(2) snoc.prems(2) show ?thesis by (auto split: if_splits option.splits)
  next
    case (StopCh t)
    with s1(2) snoc.prems(3) show ?thesis by (auto split: if_splits)
  qed
qed

lemma released_and_pending:
  "processAlarms es initialLoop = Some s \<Longrightarrow>
   concat (map snd (released s)) @ pendingAlarms s = received es"
proof (induction es arbitrary: s rule: rev_induct)
  case Nil
  then show ?case by (auto simp: initialLoop_def received_def)
next
  case (snoc e es)
  from snoc.prems obtain s1 where
    s1: "processAlarms es initialLoop = Some s1" "selectCase s1 e = Some s"
    by (auto simp: processAlarms_snoc)
  from snoc.IH [OF s1(1)] have ih: "concat (map snd (released s1)) @ pendingAlarms s1 = received es" .
  have r: "received (es @ [e]) = received es @ received [e]" by (simp add: received_def)
  show ?case
  proof (cases e)
    case (TaskQueue t a)
    with s1(2) ih r show ?thesis by (auto simp: received_def split: if_splits)
  next
    case (TimerC t)
    with s1(2) ih r show ?thesis by (auto simp: received_def split: if_splits option.splits)
  next
    case (StopCh t)
    with s1(2) ih r show ?thesis by (auto simp: received_def split: if_splits)
  qed
qed

lemma tick_releases:
  assumes "processAlarms (es @ [TimerC t']) initialLoop = Some s"
  shows "\<exists>es0 t a s0. es = es0 @ [TaskQueue t a] \<and> t + quietPeriod \<le> t' \<and>
           processAlarms es initialLoop = Some s0 \<and> pendingAlarms s0 \<noteq> [] \<and>
           released s = released s0 @ [(t', pendingAlarms s0)] \<and>
           pendingAlarms s = [] \<and> timer s = None"
proof -
  from assms obtain s0 where
    s0: "processAlarms es initialLoop = Some s0" "selectCase s0 (TimerC t') = Some s"
    by (auto simp: processAlarms_snoc)
  from s0(2) obtain d where d: "\<not> stopped s0" "timer s0 = Some d" "d \<le> t'"
    by (auto split: if_splits option.splits)
  from armed_after_arrival [OF s0(1) d(2) d(1)] obtain es0 t a where
    e: "es = es0 @ [TaskQueue t a]" "d = t + quietPeriod" and p: "pendingAlarms s0 \<noteq> []"
    by blast
  from s0(2) d p have "released s = released s0 @ [(t', pendingAlarms s0)]"
    "pendingAlarms s = []" "timer s = None"
    by auto
  with e d(3) s0(1) p show ?thesis by blast
qed

lemma tick_enabled:
  assumes "processAlarms (es @ [TaskQueue t a]) initialLoop = Some s0" "t + quietPeriod \<le> t'"
  shows "\<exists>s. processAlarms (es @ [TaskQueue t a, TimerC t']) initialLoop = Some s \<and>
           released s = released s0 @ [(t', pendingAlarms s0)] \<and>
           pendingAlarms s = [] \<and> timer s = None"
proof -
  from assms(1) obtain s1 where
    s1: "processAlarms es initialLoop = Some s1" "selectCase s1 (TaskQueue t a) = Some s0"
    by (auto simp: processAlarms_snoc)
  from s1(2) have f: "\<not> stopped s0" "timer s0 = Some (t + quietPeriod)" "pendingAlarms s0 \<noteq> []"
    by (auto split: if_splits)
  let ?s = "s0\<lparr>released := released s0 @ [(t', pendingAlarms s0)], pendingAlarms := [],
                timer := None\<rparr>"
  from f assms(2) have "selectCase s0 (TimerC t') = Some ?s" by simp
  with assms(1) have "processAlarms ((es @ [TaskQueue t a]) @ [TimerC t']) initialLoop = Some ?s"
    by (simp only: processAlarms_snoc) blast
  then show ?thesis by (intro exI [of _ ?s]) simp
qed

lemma no_tick_in_burst:
  assumes run: "processAlarms (pre @ [TaskQueue t1 a1] @ mid @ [TaskQueue t2 a2] @ post) initialLoop
                  = Some s"
    and ordered: "sorted (map eventTime (pre @ [TaskQueue t1 a1] @ mid @ [TaskQueue t2 a2] @ post))"
    and close: "t2 < t1 + quietPeriod"
  shows "\<forall>e\<in>set mid. \<not> isTick e"
proof
  fix e assume e: "e \<in> set mid"
  show "\<not> isTick e"
  proof
    assume "isTick e"
    then obtain t' where t': "e = TimerC t'" by (cases e) auto
    from e t' obtain m1 m2 where mid: "mid = m1 @ TimerC t' # m2" by (auto simp: in_set_conv_decomp)
    let ?before = "pre @ [TaskQueue t1 a1] @ m1"
    from run mid have "processAlarms ((?before @ [TimerC t']) @ (m2 @ [TaskQueue t2 a2] @ post))
                         initialLoop = Some s"
      by simp
    then obtain s1 where "processAlarms (?before @ [TimerC t']) initialLoop = Some s1"
      by (auto simp only: processAlarms_append split: option.splits)
    from tick_releases [OF this] obtain es0 t a where
      last: "?before = es0 @ [TaskQueue t a]" "t + quietPeriod \<le> t'"
      by blast
    from ordered mid have sorted_all:
      "sorted (map eventTime pre @ t1 # map eventTime m1 @ t' # map eventTime m2 @ t2
                 # map eventTime post)"
      by simp
    then have "t' \<le> t2" by (auto simp: sorted_append)
    have "t1 \<le> t"
    proof (cases "m1 = []")
      case True
      with last(1) show ?thesis by simp
    next
      case False
      then obtain m0 x where m0: "m1 = m0 @ [x]" by (metis rev_exhaust)
      with last(1) have "x = TaskQueue t a" by simp
      with m0 have "t \<in> set (map eventTime m1)" by simp
      with sorted_all show ?thesis by (auto simp: sorted_append)
    qed
    with last(2) \<open>t' \<le> t2\<close> close show False by simp
  qed
qed


text \<open>
  Claim C7. Take the runs of the loop from its initial state in which every case taken is
  one that \<^verbatim>\<open>select\<close> can take; the one thing assumed of the timer is that its tick is
  received only after it was reset, and not before its deadline.
  \<^item> Each arrival appends the alarm to the pending set and resets the timer to one quiet
    period after the arrival.
  \<^item> A tick is only ever taken directly after an arrival, the last one of its burst, and
    not before one quiet period after it; it releases the whole pending set, which is not
    empty, once, clears the pending set and leaves the timer stopped. So no second tick
    follows without a new arrival.
  \<^item> In a run whose events are in the order of their times, no tick is taken between two
    arrivals that are less than one quiet period apart.
  \<^item> After an arrival, the tick one quiet period later, or at any later time, is a case
    that can be taken, and it releases the pending set.
  \<^item> No alarm is lost or released twice: the batches released, in order, followed by the
    pending set are the alarms received.
\<close>

theorem processAlarms_debounce:
  "(processAlarms (es @ [TaskQueue t a]) initialLoop = Some s1 \<longrightarrow>
      timer s1 = Some (t + quietPeriod) \<and>
      (\<exists>s0. processAlarms es initialLoop = Some s0 \<and>
         pendingAlarms s1 = pendingAlarms s0 @ [a] \<and> released s1 = released s0)) \<and>
   (processAlarms (es @ [TimerC t']) initialLoop = Some s2 \<longrightarrow>
      (\<exists>es0 t0 a0 s0. es = es0 @ [TaskQueue t0 a0] \<and> t0 + quietPeriod \<le> t' \<and>
         processAlarms es initialLoop = Some s0 \<and> pendingAlarms s0 \<noteq> [] \<and>
         released s2 = released s0 @ [(t', pendingAlarms s0)] \<and>
         pendingAlarms s2 = [] \<and> timer s2 = None)) \<and>
   (processAlarms (pre @ [TaskQueue t1 a1] @ mid @ [TaskQueue t2 a2] @ post) initialLoop = Some s3 \<and>
    sorted (map eventTime (pre @ [TaskQueue t1 a1] @ mid @ [TaskQueue t2 a2] @ post)) \<and>
    t2 < t1 + quietPeriod \<longrightarrow>
      (\<forall>e\<in>set mid. \<not> isTick e)) \<and>
   (processAlarms (es @ [TaskQueue t a]) initialLoop = Some s1 \<and> t + quietPeriod \<le> t'' \<longrightarrow>
      (\<exists>s. processAlarms (es @ [TaskQueue t a, TimerC t'']) initialLoop = Some s \<and>
         released s = released s1 @ [(t'', pendingAlarms s1)] \<and>
         pendingAlarms s = [] \<and> timer s = None)) \<and>
   (processAlarms es initialLoop = Some s4 \<longrightarrow>
      concat (map snd (released s4)) @ pendingAlarms s4 = received es)"
proof (intro conjI impI)
  assume run: "processAlarms (es @ [TaskQueue t a]) initialLoop = Some s1"
  then obtain s0 where
    s0: "processAlarms es initialLoop = Some s0" "selectCase s0 (TaskQueue t a) = Some s1"
    by (auto simp: processAlarms_snoc)
  from s0(2) show "timer s1 = Some (t + quietPeriod)" by (auto split: if_splits)
  from s0 show "\<exists>s0. processAlarms es initialLoop = Some s0 \<and>
         pendingAlarms s1 = pendingAlarms s0 @ [a] \<and> released s1 = released s0"
    by (auto split: if_splits)
next
  assume "processAlarms (es @ [TimerC t']) initialLoop = Some s2"
  from tick_releases [OF this]
  show "\<exists>es0 t0 a0 s0. es = es0 @ [TaskQueue t0 a0] \<and> t0 + quietPeriod \<le> t' \<and>
         processAlarms es initialLoop = Some s0 \<and> pendingAlarms s0 \<noteq> [] \<and>
         released s2 = released s0 @ [(t', pendingAlarms s0)] \<and>
         pendingAlarms s2 = [] \<and> timer s2 = None"
    by this
next
  assume "processAlarms (pre @ [TaskQueue t1 a1] @ mid @ [TaskQueue t2 a2] @ post) initialLoop = Some s3 \<and>
    sorted (map eventTime (pre @ [TaskQueue t1 a1] @ mid @ [TaskQueue t2 a2] @ post)) \<and>
    t2 < t1 + quietPeriod"
  then show "\<forall>e\<in>set mid. \<not> isTick e"
    using no_tick_in_burst [of pre t1 a1 mid t2 a2 post s3] by blast
next
  assume "processAlarms (es @ [TaskQueue t a]) initialLoop = Some s1 \<and> t + quietPeriod \<le> t''"
  then show "\<exists>s. processAlarms (es @ [TaskQueue t a, TimerC t'']) initialLoop = Some s \<and>
         released s = released s1 @ [(t'', pendingAlarms s1)] \<and>
         pendingAlarms s = [] \<and> timer s = None"
    using tick_enabled [of es t a s1 t''] by blast
next
  assume "processAlarms es initialLoop = Some s4"
  then show "concat (map snd (released s4)) @ pendingAlarms s4 = received es"
    by (rule released_and_pending)
qed

text \<open>
  The theorem at two alarms ten seconds apart: the tick thirty seconds after the second
  alarm releases both, and a tick a nanosecond earlier is not a case that can be taken.
\<close>

theorem processAlarms_debounce_witness:
  "(\<exists>s. processAlarms (sample_burst @ [TimerC 40000000000]) initialLoop = Some s \<and>
      released s = [(40000000000, received sample_burst)] \<and>
      pendingAlarms s = [] \<and> timer s = None) \<and>
   processAlarms (sample_burst @ [TimerC 39999999999]) initialLoop = None"
proof -
  let ?a1 = "sample_alarm ''ALERT-001'' ''critical'' 0"
  let ?a2 = "sample_alarm ''ALERT-002'' ''warning'' 10000000000"
  let ?s1 = "\<lparr>pendingAlarms = [?a1, ?a2], timer = Some 40000000000, released = [],
              stopped = False\<rparr>"
  have h: "processAlarms ([TaskQueue 0 ?a1] @ [TaskQueue 10000000000 ?a2]) initialLoop = Some ?s1
           \<and> 10000000000 + quietPeriod \<le> 40000000000"
    by (simp add: initialLoop_def quietPeriod_def)
  from processAlarms_debounce
         [where es = "[TaskQueue 0 ?a1]" and t = 10000000000 and a = ?a2 and ?s1.0 = ?s1
            and t'' = 40000000000]
       h
  have "\<exists>s. processAlarms ([TaskQueue 0 ?a1] @ [TaskQueue 10000000000 ?a2, TimerC 40000000000])
               initialLoop = Some s \<and>
            released s = released ?s1 @ [(40000000000, pendingAlarms ?s1)] \<and>
            pendingAlarms s = [] \<and> timer s = None"
    by blast
  then have first: "\<exists>s. processAlarms (sample_burst @ [TimerC 40000000000]) initialLoop = Some s \<and>
      released s = [(40000000000, received sample_burst)] \<and>
      pendingAlarms s = [] \<and> timer s = None"
    by (simp add: sample_burst_def received_def)
  have "processAlarms (sample_burst @ [TimerC 39999999999]) initialLoop = None"
    by (simp add: sample_burst_def initialLoop_def quietPeriod_def)
  with first show ?thesis by (rule conjI)
qed

end
